(* ===== verification/Prelude.thy ===== *)
theory Prelude
  imports Complex_Main
begin

text \<open>
  Shared vocabulary of the model of \<^verbatim>\<open>oci_go_connector\<close>: the names of the
  model's basic types, the failure values that replace Go's three ways of
  leaving a function (an \<^verbatim>\<open>error\<close> return, \<^verbatim>\<open>log.Fatalf\<close>, a runtime panic),
  the lifting of an SDK error into a failure, and the generic lemmas on sums
  and lists that the component theories share. The collection
  \<open>model_defs\<close> gathers the definitions that a closed instance of the model
  unfolds when it is evaluated by \<open>simp\<close>.
\<close>

named_theorems model_defs "definitions of the model unfolded by evaluation"

type_synonym ocid = string
  \<comment> \<open>an OCI identifier (tenancy, instance, file system)\<close>
type_synonym cursor = string
  \<comment> \<open>the opaque pagination token \<^verbatim>\<open>OpcNextPage\<close> / \<^verbatim>\<open>Page\<close>, a Go \<^verbatim>\<open>*string\<close>\<close>
type_synonym sdk_time = int
  \<comment> \<open>a \<^verbatim>\<open>time.Time\<close>, as nanoseconds since the Unix epoch\<close>
type_synonym sdk_error = string
  \<comment> \<open>a Go \<^verbatim>\<open>error\<close>, as the text its \<^verbatim>\<open>Error()\<close> method prints\<close>

text \<open>
  How a call of the program can end without a result. \<open>Api_error\<close> is an
  \<^verbatim>\<open>error\<close> value returned to the caller; \<open>Fatal\<close> is \<^verbatim>\<open>log.Fatalf\<close>, which
  prints its message and exits the process with status 1 at once; \<open>Panic\<close>
  is a Go runtime panic (nil dereference, index out of range), which also ends
  the process. Only \<open>Api_error\<close> can be handled by a caller; the other two
  propagate to the top unchanged.
\<close>

datatype failure = Api_error sdk_error | Fatal string | Panic string

text \<open>
  The elements of a list of strings joined by a separator, the shape of Go's
  \<^verbatim>\<open>strings.Join\<close>.
\<close>

fun join_with :: "string \<Rightarrow> string list \<Rightarrow> string" where
  "join_with sep [] = []"
| "join_with sep [s] = s"
| "join_with sep (s # ss) = s @ sep @ join_with sep ss"

definition lift_api :: "(sdk_error + 'a) option \<Rightarrow> (failure + 'a) option" where
  "lift_api r = map_option (map_sum Api_error id) r"

lemma lift_api_simps [simp]:
  "lift_api None = None"
  "lift_api (Some (Inl e)) = Some (Inl (Api_error e))"
  "lift_api (Some (Inr x)) = Some (Inr x)"
  by (simp_all add: lift_api_def)

lemma lift_api_eq_Some_Inr [simp]:
  "lift_api r = Some (Inr x) \<longleftrightarrow> r = Some (Inr x)"
proof (cases r)
  case (Some v)
  then show ?thesis by (cases v) simp_all
qed simp

lemma lift_api_eq_None [simp]: "lift_api r = None \<longleftrightarrow> r = None"
  by (simp add: lift_api_def)

text \<open>Prefixing the items of a successful listing: the shape of Go's \<^verbatim>\<open>append\<close>.\<close>

fun prepend_ok :: "'a list \<Rightarrow> 'e + 'a list \<Rightarrow> 'e + 'a list" where
  "prepend_ok xs (Inl e) = Inl e"
| "prepend_ok xs (Inr ys) = Inr (xs @ ys)"

lemma prepend_ok_Nil [simp]: "prepend_ok [] r = r"
  by (cases r) simp_all

lemma prepend_ok_append [simp]: "prepend_ok xs (prepend_ok ys r) = prepend_ok (xs @ ys) r"
  by (cases r) simp_all

lemma prepend_ok_Inl_iff [simp]: "prepend_ok xs r = Inl e \<longleftrightarrow> r = Inl e"
  by (cases r) simp_all

lemma prepend_ok_Inr_iff: "prepend_ok xs r = Inr ys \<longleftrightarrow> (\<exists>zs. r = Inr zs \<and> ys = xs @ zs)"
  by (cases r) auto

lemma join_with_Cons: "ss \<noteq> [] \<Longrightarrow> join_with sep (s # ss) = s @ sep @ join_with sep ss"
  by (cases ss) simp_all

lemma join_with_Nil_iff: "\<forall>w\<in>set es. w \<noteq> [] \<Longrightarrow> join_with sep es = [] \<longleftrightarrow> es = []"
  by (induction sep es rule: join_with.induct) auto

lemma join_with_hd: "es \<noteq> [] \<Longrightarrow> hd es \<noteq> [] \<Longrightarrow> take 1 (join_with sep es) = take 1 (hd es)"
  by (induction sep es rule: join_with.induct) (auto simp: neq_Nil_conv)

lemma map_eq_transfer:
  assumes "map f xs = map f ys" and "\<And>x y. f x = f y \<Longrightarrow> g x = g y"
  shows "map g xs = map g ys"
  using assms(1)
proof (induction xs arbitrary: ys)
  case Nil then show ?case by simp
next
  case (Cons x xs)
  then obtain y ys' where ys: "ys = y # ys'" "f x = f y" "map f xs = map f ys'" by (cases ys) auto
  from Cons.IH [OF ys(3)] assms(2) [OF ys(2)] ys(1) show ?case by simp
qed

end
