(* ===== verification/Pagination.thy ===== *)
theory Pagination
  imports Prelude
begin

text \<open>
  The cursor-based pagination loop that every \<^verbatim>\<open>ListAll*\<close> function of
  \<^verbatim>\<open>src/functions/functions.go\<close> repeats. Every OCI SDK list request has a
  \<^verbatim>\<open>Page\<close> field and every list response carries \<^verbatim>\<open>Items\<close> and
  \<^verbatim>\<open>OpcNextPage\<close>; here the request types are the extensions of the record
  \<open>paged_request\<close>, and a remote listing endpoint is any function from a
  request to an error or a page. The endpoint is a function of the request: the
  backing data do not change during a run (the listing is read-only), which is
  also what makes two enumerations with the same endpoint agree.

  \<open>paginate\<close> is the loop as the code writes it. It is a
  \<^theory_text>\<open>partial_function (option)\<close>: a provider whose cursors never run out makes
  the loop run forever, and that is the value \<open>None\<close>. \<open>page_run\<close> is the
  specification of one enumeration as an inductive relation: the requests
  issued, in order, and the outcome. The main theorems are that \<open>paginate\<close>
  implements \<open>page_run\<close> exactly (\<open>paginate_refines_page_run\<close>), that
  on a finite paged source the loop returns and yields the concatenation of the
  pages, that a fetch refused after some pages makes the loop return that error
  and nothing else (\<open>failing_source\<close>), and what a successful or single-page
  enumeration returns and requests.
\<close>

record paged_request =
  page :: "cursor option"

record 'a page_response =
  items :: "'a list"
  opc_next_page :: "cursor option"

type_synonym ('r, 'a) list_call = "'r paged_request_scheme \<Rightarrow> sdk_error + 'a page_response"

section \<open>The loop\<close>

text \<open>
  \<^verbatim>\<open>for { response, err := client.ListX(ctx, request); if err != nil { return nil, err };
  xs = append(xs, response.Items...); if response.OpcNextPage == nil { break };
  request.Page = response.OpcNextPage }\<close>
\<close>

partial_function (option) paginate ::
  "('r, 'a) list_call \<Rightarrow> 'r paged_request_scheme \<Rightarrow> 'a list \<Rightarrow> (sdk_error + 'a list) option"
where
  "paginate call request acc =
     (case call request of
        Inl err \<Rightarrow> Some (Inl err)
      | Inr response \<Rightarrow>
          (case opc_next_page response of
             None \<Rightarrow> Some (Inr (acc @ items response))
           | Some c \<Rightarrow> paginate call (request\<lparr>page := Some c\<rparr>) (acc @ items response)))"

declare paginate.simps [code]

section \<open>Specification: the run of an enumeration\<close>

text \<open>
  \<open>page_run call r rs res\<close>: started with request \<open>r\<close>, the enumeration
  issues exactly the requests \<open>rs\<close> (in order) and ends with \<open>res\<close>. A failed
  request ends the run with its error; a page without a cursor ends it with that
  page's items; a page with a cursor is followed by the run from the same
  request with that cursor in its \<open>page\<close> field, and its items come first.
\<close>

inductive page_run ::
  "('r, 'a) list_call \<Rightarrow> 'r paged_request_scheme \<Rightarrow> 'r paged_request_scheme list \<Rightarrow>
   sdk_error + 'a list \<Rightarrow> bool"
  for call :: "('r, 'a) list_call"
where
  failed: "call r = Inl e \<Longrightarrow> page_run call r [r] (Inl e)"
| last_page: "call r = Inr p \<Longrightarrow> opc_next_page p = None \<Longrightarrow> page_run call r [r] (Inr (items p))"
| next_page: "call r = Inr p \<Longrightarrow> opc_next_page p = Some c \<Longrightarrow>
     page_run call (r\<lparr>page := Some c\<rparr>) rs res \<Longrightarrow>
     page_run call r (r # rs) (prepend_ok (items p) res)"

inductive_cases page_run_elim: "page_run call r rs res"

section \<open>A finite paged source\<close>

text \<open>
  A provider backed by a fixed list of pages: the first request (no cursor) gets
  page 0, the request carrying token \<open>toks ! i\<close> gets page \<open>i\<close>, and every page
  but the last names the token of the next one. An unknown token is refused.
\<close>

definition paged_source :: "cursor list \<Rightarrow> 'a list list \<Rightarrow> ('r, 'a) list_call" where
  "paged_source toks pages r =
     (case (case page r of None \<Rightarrow> Some 0 | Some c \<Rightarrow> map_of (zip toks [0..<length toks]) c) of
        None \<Rightarrow> Inl ''invalid page token''
      | Some i \<Rightarrow> Inr \<lparr>items = pages ! i,
                      opc_next_page = (if Suc i < length pages then Some (toks ! Suc i) else None)\<rparr>)"

text \<open>
  The same source with the fetch of page \<open>k\<close> refused with error \<open>e\<close>: the
  pages before it are served, each naming the next cursor.
\<close>

definition failing_source :: "cursor list \<Rightarrow> 'a list list \<Rightarrow> nat \<Rightarrow> sdk_error \<Rightarrow> ('r, 'a) list_call" where
  "failing_source toks pages k e r =
     (if page r = (if k = 0 then None else Some (toks ! k)) then Inl e else paged_source toks pages r)"

section \<open>The loop implements the specification\<close>

lemma paginate_complete:
  "page_run call r rs res \<Longrightarrow> paginate call r acc = Some (prepend_ok acc res)"
proof (induction arbitrary: acc rule: page_run.induct)
  case (failed r e)
  then show ?case by (simp add: paginate.simps)
next
  case (last_page r p)
  then show ?case by (simp add: paginate.simps)
next
  case (next_page r p c rs res)
  then show ?case by (simp add: paginate.simps)
qed

lemma paginate_sound:
  assumes "paginate call r acc = Some res"
  shows "\<exists>rs res'. page_run call r rs res' \<and> res = prepend_ok acc res'"
proof (rule paginate.raw_induct [where P = "\<lambda>call r acc res. \<exists>rs res'. page_run call r rs res' \<and> res = prepend_ok acc res'", OF _ assms])
  fix f :: "('r, 'a) list_call \<Rightarrow> 'r paged_request_scheme \<Rightarrow> 'a list \<Rightarrow> (sdk_error + 'a list) option"
    and call r acc res
  assume IH: "\<And>call r acc res. f call r acc = Some res \<Longrightarrow>
      \<exists>rs res'. page_run call r rs res' \<and> res = prepend_ok acc res'"
    and step: "(case call r of Inl err \<Rightarrow> Some (Inl err)
      | Inr response \<Rightarrow> (case opc_next_page response of None \<Rightarrow> Some (Inr (acc @ items response))
          | Some c \<Rightarrow> f call (r\<lparr>page := Some c\<rparr>) (acc @ items response))) = Some res"
  show "\<exists>rs res'. page_run call r rs res' \<and> res = prepend_ok acc res'"
  proof (cases "call r")
    case (Inl e)
    with step have "res = Inl e" by simp
    then have "res = prepend_ok acc (Inl e)" by simp
    moreover from Inl have "page_run call r [r] (Inl e)" by (rule page_run.failed)
    ultimately show ?thesis by blast
  next
    case (Inr p)
    show ?thesis
    proof (cases "opc_next_page p")
      case None
      with Inr step have "res = prepend_ok acc (Inr (items p))" by simp
      moreover from Inr None have "page_run call r [r] (Inr (items p))" by (rule page_run.last_page)
      ultimately show ?thesis by blast
    next
      case (Some c)
      with Inr step have "f call (r\<lparr>page := Some c\<rparr>) (acc @ items p) = Some res" by simp
      then obtain rs res' where run: "page_run call (r\<lparr>page := Some c\<rparr>) rs res'"
        and res: "res = prepend_ok (acc @ items p) res'"
        using IH by blast
      from Inr Some run have "page_run call r (r # rs) (prepend_ok (items p) res')"
        by (rule page_run.next_page)
      moreover from res have "res = prepend_ok acc (prepend_ok (items p) res')" by simp
      ultimately show ?thesis by blast
    qed
  qed
qed

section \<open>Properties of a run\<close>

lemma page_run_nonempty: "page_run call r rs res \<Longrightarrow> rs \<noteq> [] \<and> hd rs = r"
  by (induction rule: page_run.induct) auto

lemma page_run_threads_cursor:
  "page_run call r rs res \<Longrightarrow> Suc i < length rs \<Longrightarrow>
   \<exists>p c. call (rs ! i) = Inr p \<and> opc_next_page p = Some c \<and> rs ! Suc i = (rs ! i)\<lparr>page := Some c\<rparr>"
proof (induction arbitrary: i rule: page_run.induct)
  case (next_page r p c rs res)
  show ?case
  proof (cases i)
    case 0
    from next_page.hyps(3) have "rs \<noteq> [] \<and> hd rs = r\<lparr>page := Some c\<rparr>"
      by (rule page_run_nonempty)
    with 0 next_page.hyps(1,2) show ?thesis by (cases rs) auto
  next
    case (Suc j)
    with next_page.prems next_page.IH [of j] show ?thesis by simp
  qed
qed simp_all

lemma page_run_keeps_fields: "page_run call r rs res \<Longrightarrow> q \<in> set rs \<Longrightarrow> q = r\<lparr>page := page q\<rparr>"
  by (induction rule: page_run.induct) auto

lemma page_run_failure:
  "page_run call r rs res \<Longrightarrow> res = Inl e \<Longrightarrow>
   call (last rs) = Inl e \<and> (\<forall>q \<in> set (butlast rs). \<exists>p. call q = Inr p \<and> opc_next_page p \<noteq> None)"
proof (induction rule: page_run.induct)
  case (next_page r p c rs res)
  from next_page.hyps(3) have "rs \<noteq> []" using page_run_nonempty by blast
  with next_page show ?case by (simp add: last_ConsR)
qed simp_all

lemma page_run_success:
  "page_run call r rs res \<Longrightarrow> res = Inr xs \<Longrightarrow>
   \<exists>ps. list_all2 (\<lambda>q p. call q = Inr p) rs ps \<and> xs = concat (map items ps) \<and>
        opc_next_page (last ps) = None"
proof (induction arbitrary: xs rule: page_run.induct)
  case (last_page r p)
  then show ?case by (intro exI [of _ "[p]"]) simp
next
  case (next_page r p c rs res)
  from next_page.prems obtain ys where res: "res = Inr ys" and xs: "xs = items p @ ys"
    by (cases res) auto
  from next_page.IH [OF res] obtain ps where ps: "list_all2 (\<lambda>q p. call q = Inr p) rs ps"
    and ys: "ys = concat (map items ps)" and lst: "opc_next_page (last ps) = None" by blast
  from next_page.hyps(3) have "rs \<noteq> []" using page_run_nonempty by blast
  with ps have "ps \<noteq> []" by (auto simp: list_all2_conv_all_nth)
  with next_page.hyps(1) ps xs ys lst show ?case
    by (intro exI [of _ "p # ps"]) simp
qed simp

lemma paged_source_at:
  assumes "distinct toks" "length toks = length pages" "i < length pages"
  shows "paged_source toks pages (r\<lparr>page := Some (toks ! i)\<rparr>) =
    Inr \<lparr>items = pages ! i, opc_next_page = (if Suc i < length pages then Some (toks ! Suc i) else None)\<rparr>"
  using assms map_of_zip_nth [of toks "[0..<length toks]" i] by (simp add: paged_source_def)

lemma page_run_paged_source_from:
  assumes "distinct toks" "length toks = length pages" "i < length pages"
  shows "page_run (paged_source toks pages) (r\<lparr>page := Some (toks ! i)\<rparr>)
           (map (\<lambda>j. r\<lparr>page := Some (toks ! j)\<rparr>) [i..<length pages]) (Inr (concat (drop i pages)))"
  using assms(3)
proof (induction "length pages - i" arbitrary: i)
  case 0
  then show ?case by simp
next
  case (Suc k)
  show ?case
  proof (cases "Suc i < length pages")
    case True
    with Suc have run: "page_run (paged_source toks pages) (r\<lparr>page := Some (toks ! Suc i)\<rparr>)
        (map (\<lambda>j. r\<lparr>page := Some (toks ! j)\<rparr>) [Suc i..<length pages]) (Inr (concat (drop (Suc i) pages)))"
      by simp
    let ?p = "\<lparr>items = pages ! i, opc_next_page = Some (toks ! Suc i)\<rparr>"
    from assms(1,2) Suc.prems True have call: "paged_source toks pages (r\<lparr>page := Some (toks ! i)\<rparr>) = Inr ?p"
      by (simp add: paged_source_at)
    from run have run': "page_run (paged_source toks pages) (r\<lparr>page := Some (toks ! i), page := Some (toks ! Suc i)\<rparr>)
        (map (\<lambda>j. r\<lparr>page := Some (toks ! j)\<rparr>) [Suc i..<length pages]) (Inr (concat (drop (Suc i) pages)))"
      by simp
    have "page_run (paged_source toks pages) (r\<lparr>page := Some (toks ! i)\<rparr>)
        (r\<lparr>page := Some (toks ! i)\<rparr> # map (\<lambda>j. r\<lparr>page := Some (toks ! j)\<rparr>) [Suc i..<length pages])
        (prepend_ok (items ?p) (Inr (concat (drop (Suc i) pages))))"
      by (rule page_run.next_page [OF call _ run']) simp
    moreover from Suc.prems have "drop i pages = pages ! i # drop (Suc i) pages"
      by (simp add: Cons_nth_drop_Suc)
    ultimately show ?thesis using Suc.prems by (simp add: upt_conv_Cons)
  next
    case False
    with Suc.prems have i: "Suc i = length pages" by simp
    have "page_run (paged_source toks pages) (r\<lparr>page := Some (toks ! i)\<rparr>)
        [r\<lparr>page := Some (toks ! i)\<rparr>] (Inr (items \<lparr>items = pages ! i, opc_next_page = None\<rparr>))"
      by (rule page_run.last_page) (use assms(1,2) Suc.prems False paged_source_at [of toks pages i] in simp_all)
    moreover from Suc.prems i have "drop i pages = [pages ! i]"
      by (metis Cons_nth_drop_Suc drop_all order_refl)
    ultimately show ?thesis using i by (simp add: upt_conv_Cons)
  qed
qed

lemma page_run_paged_source:
  assumes "distinct toks" "length toks = length pages" "pages \<noteq> []" "page r = None"
  shows "page_run (paged_source toks pages) r
           (r # map (\<lambda>j. r\<lparr>page := Some (toks ! j)\<rparr>) [1..<length pages]) (Inr (concat pages))"
proof -
  let ?src = "paged_source toks pages"
  have call: "?src r = Inr \<lparr>items = pages ! 0,
      opc_next_page = (if 1 < length pages then Some (toks ! 1) else None)\<rparr>"
    using assms(4) by (simp add: paged_source_def)
  show ?thesis
  proof (cases "1 < length pages")
    case True
    from assms(1,2) True have tail: "page_run ?src (r\<lparr>page := Some (toks ! 1)\<rparr>)
        (map (\<lambda>j. r\<lparr>page := Some (toks ! j)\<rparr>) [1..<length pages]) (Inr (concat (drop 1 pages)))"
      by (rule page_run_paged_source_from)
    have "page_run ?src r (r # map (\<lambda>j. r\<lparr>page := Some (toks ! j)\<rparr>) [1..<length pages])
        (prepend_ok (pages ! 0) (Inr (concat (drop 1 pages))))"
      using page_run.next_page [OF call _ tail] True by simp
    moreover from assms(3) have "pages = pages ! 0 # drop 1 pages"
      by (cases pages) simp_all
    ultimately show ?thesis by (metis concat.simps(2) prepend_ok.simps(2))
  next
    case False
    with assms(3) have one: "pages = [pages ! 0]" by (cases pages) auto
    from call False have "page_run ?src r [r] (Inr (pages ! 0))"
      using page_run.last_page [of ?src r] by simp
    moreover from False have "[1..<length pages] = []" by simp
    moreover have "concat pages = pages ! 0" by (subst one) simp
    ultimately show ?thesis by (simp only: list.map(1))
  qed
qed

lemma page_run_ends:
  "page_run call r rs res \<Longrightarrow>
   \<exists>q \<in> set rs. (\<exists>e. call q = Inl e) \<or> (\<exists>p. call q = Inr p \<and> opc_next_page p = None)"
  by (induction rule: page_run.induct) auto

lemma paginate_failing_source_from:
  assumes "distinct toks" "length toks = length pages" "k < length pages" "0 < i" "i \<le> k"
  shows "paginate (failing_source toks pages k e) (r\<lparr>page := Some (toks ! i)\<rparr>) acc = Some (Inl e)"
  using assms(4,5)
proof (induction "k - i" arbitrary: i acc)
  case 0
  then have "i = k" by simp
  with 0 show ?case by (simp add: paginate.simps failing_source_def)
next
  case (Suc n)
  then have ik: "i < k" "Suc i \<le> k" by simp_all
  have ne: "toks ! i \<noteq> toks ! k"
    using assms(1-3) ik by (simp add: nth_eq_iff_index_eq)
  have src: "failing_source toks pages k e (r\<lparr>page := Some (toks ! i)\<rparr>) =
      Inr \<lparr>items = pages ! i, opc_next_page = Some (toks ! Suc i)\<rparr>"
    using ne ik assms(1-3) Suc.prems paged_source_at [of toks pages i r]
    by (simp add: failing_source_def)
  have "paginate (failing_source toks pages k e) (r\<lparr>page := Some (toks ! Suc i)\<rparr>) (acc @ pages ! i) =
      Some (Inl e)"
    using Suc.hyps(1) [of "Suc i"] Suc.hyps(2) ik by simp
  with src show ?case by (simp add: paginate.simps)
qed

section \<open>Claims on the pagination loop\<close>

text \<open>
  C1 (refinement). The loop written in the code implements the specification of an
  enumeration exactly: \<open>paginate\<close> returns a result iff the run from the
  request ends, and the result is the run's outcome after the items already
  accumulated.
\<close>

theorem paginate_refines_page_run:
  "paginate call r acc = Some res \<longleftrightarrow> (\<exists>rs res'. page_run call r rs res' \<and> res = prepend_ok acc res')"
  using paginate_sound paginate_complete by blast

theorem paginate_refines_page_run_witness:
  "paginate (paged_source [''a'', ''b''] [[1, 2], [3 :: nat]]) \<lparr>page = None\<rparr> [] = Some (Inr [1, 2, 3]) \<and>
   (\<exists>rs res'. page_run (paged_source [''a'', ''b''] [[1, 2], [3 :: nat]]) \<lparr>page = None\<rparr> rs res' \<and>
      Inr [1, 2, 3] = prepend_ok [] res')"
proof -
  have "paginate (paged_source [''a'', ''b''] [[1, 2], [3 :: nat]]) \<lparr>page = None\<rparr> [] = Some (Inr [1, 2, 3])"
    by (simp add: paginate.simps paged_source_def)
  with paginate_refines_page_run show ?thesis by blast
qed

text \<open>
  C2 (functional, termination). On a provider holding finitely many pages, linked by
  distinct cursors, the enumeration from a request without a cursor returns, issues
  one request per page (the first without a cursor, then one per token in order),
  and yields the concatenation of the pages in page order: its length is the sum of
  the page sizes.
\<close>

theorem paginate_paged_source:
  assumes "distinct toks" "length toks = length pages" "pages \<noteq> []" "page r = None"
  shows "page_run (paged_source toks pages) r
           (r # map (\<lambda>j. r\<lparr>page := Some (toks ! j)\<rparr>) [1..<length pages]) (Inr (concat pages)) \<and>
         paginate (paged_source toks pages) r [] = Some (Inr (concat pages))"
  using page_run_paged_source [OF assms] paginate_complete [where acc = "[]"] by fastforce

theorem paginate_paged_source_witness:
  "paginate (paged_source [''p0'', ''p1'', ''p2''] [[''i1'', ''i2''], [''i3'', ''i4''], [''i5'']])
      \<lparr>page = None\<rparr> [] = Some (Inr [''i1'', ''i2'', ''i3'', ''i4'', ''i5''])"
  using paginate_paged_source [of "[''p0'', ''p1'', ''p2'']" "[[''i1'', ''i2''], [''i3'', ''i4''], [''i5'']]"
      "\<lparr>page = None\<rparr>"]
  by simp

text \<open>
  C3 (error). A failed page fetch aborts the enumeration with that error: on a
  paged source whose fetch of page \<open>k\<close> fails, after the pages before it were
  served with their cursors, the loop returns the error itself, with no items
  (no partial result, no retry, the error not swallowed).
\<close>

theorem paginate_error_aborts:
  assumes "distinct toks" and "length toks = length pages" and "k < length pages" and "page r = None"
  shows "paginate (failing_source toks pages k e) r acc = Some (Inl e)"
proof (cases k)
  case 0
  with assms(4) show ?thesis by (simp add: paginate.simps failing_source_def)
next
  case (Suc j)
  then have k1: "1 \<le> k" "1 < length pages" using assms(3) by simp_all
  have src: "failing_source toks pages k e r = Inr \<lparr>items = pages ! 0, opc_next_page = Some (toks ! 1)\<rparr>"
    using assms(4) Suc k1 by (simp add: failing_source_def paged_source_def)
  have "paginate (failing_source toks pages k e) (r\<lparr>page := Some (toks ! 1)\<rparr>) (acc @ pages ! 0) = Some (Inl e)"
    using paginate_failing_source_from [OF assms(1-3), of 1] k1 by simp
  with src show ?thesis by (simp add: paginate.simps)
qed

theorem paginate_error_aborts_witness:
  "paginate (failing_source [''p0'', ''p1'', ''p2''] [[1 :: nat], [2], [3]] 2 ''throttled'')
     \<lparr>page = None\<rparr> [] = Some (Inl ''throttled'')"
  using paginate_error_aborts [of "[''p0'', ''p1'', ''p2'']" "[[1 :: nat], [2], [3]]" 2 "\<lparr>page = None\<rparr>"]
  by simp

text \<open>
  C4 (functional). A successful enumeration returns the items of the pages it
  received, concatenated in the order the pages arrived; every request of the run
  succeeded and the last page named no next cursor.
\<close>

theorem paginate_success_items:
  assumes "paginate call r [] = Some (Inr xs)"
  shows "\<exists>rs ps. page_run call r rs (Inr xs) \<and> list_all2 (\<lambda>q p. call q = Inr p) rs ps \<and>
           xs = concat (map items ps) \<and> opc_next_page (last ps) = None"
proof -
  from paginate_sound [OF assms] obtain rs res' where run: "page_run call r rs res'"
    and res: "Inr xs = prepend_ok [] res'" by blast
  from res have "res' = Inr xs" by simp
  with run page_run_success [OF run] show ?thesis by blast
qed

theorem paginate_success_items_witness:
  "paginate (paged_source [''a'', ''b''] [[1 :: nat, 2], [3]]) \<lparr>page = None\<rparr> [] = Some (Inr [1, 2, 3]) \<and>
   (\<exists>rs (ps :: nat page_response list).
      page_run (paged_source [''a'', ''b''] [[1 :: nat, 2], [3]]) \<lparr>page = None\<rparr> rs (Inr [1, 2, 3]) \<and>
      [1, 2, 3] = concat (map items ps))"
proof -
  have ret: "paginate (paged_source [''a'', ''b''] [[1 :: nat, 2], [3]]) \<lparr>page = None\<rparr> [] = Some (Inr [1, 2, 3])"
    by (simp add: paginate.simps paged_source_def)
  with paginate_success_items [OF ret] show ?thesis by blast
qed

text \<open>
  C5 (termination). When the first response carries no next cursor the enumeration
  issues exactly one request and returns that page's items.
\<close>

theorem single_page_one_request:
  assumes "call r = Inr p" "opc_next_page p = None"
  shows "(page_run call r rs res \<longleftrightarrow> rs = [r] \<and> res = Inr (items p)) \<and>
         paginate call r acc = Some (Inr (acc @ items p))"
proof -
  have "page_run call r rs res \<longleftrightarrow> rs = [r] \<and> res = Inr (items p)"
  proof
    assume "page_run call r rs res"
    then show "rs = [r] \<and> res = Inr (items p)"
      by (cases rule: page_run.cases) (use assms in auto)
  next
    assume "rs = [r] \<and> res = Inr (items p)"
    with assms show "page_run call r rs res" by (auto intro: page_run.last_page)
  qed
  moreover from assms have "paginate call r acc = Some (Inr (acc @ items p))"
    by (simp add: paginate.simps)
  ultimately show ?thesis ..
qed

theorem single_page_one_request_witness:
  "page_run (paged_source [''a''] [[7 :: nat]]) \<lparr>page = None\<rparr> [\<lparr>page = None\<rparr>] (Inr [7]) \<and>
   paginate (paged_source [''a''] [[7 :: nat]]) \<lparr>page = None\<rparr> [] = Some (Inr [7])"
  using single_page_one_request [of "paged_source [''a''] [[7 :: nat]]" "\<lparr>page = None\<rparr>"
      "\<lparr>items = [7], opc_next_page = None\<rparr>" "[\<lparr>page = None\<rparr>]" "Inr [7]" "[]"]
  by (simp add: paged_source_def)

end
