(* ===== verification/Oci_Sdk.thy ===== *)
theory Oci_Sdk
  imports Pagination
begin

text \<open>
  The boundary with the OCI Go SDK, which the program only calls. The records
  hold the fields of the SDK's resource summaries that \<^verbatim>\<open>src/main.go\<close> reads
  and the fields of the requests that \<^verbatim>\<open>src/functions/functions.go\<close> sets;
  every list request extends \<open>paged_request\<close>, so the generic loop of
  \<open>Pagination\<close> runs on all of them. The record \<open>oci\<close> is the remote side: one
  function per SDK call the program makes, and \<open>new_client\<close>, the outcome of
  the \<^verbatim>\<open>New*ClientWithConfigurationProvider\<close> constructors. A run of the
  program is parametric in this record: any provider behaviour is covered.

  Pointer fields that the code dereferences (\<^verbatim>\<open>*instance.DisplayName\<close>) are
  modelled as plain values: the SDK marks them mandatory. The one dereference
  whose nil case the code reaches through its own logic, the namespace of
  \<^verbatim>\<open>ListAllBuckets\<close>, is modelled in \<open>Enumerators\<close>.
\<close>

section \<open>Resources\<close>

record shape_config =
  processor_description :: string
  ocpus :: real
  memory_in_gbs :: real

record compute_instance =
  instance_id :: ocid
  instance_display_name :: string
  instance_shape :: string
  instance_lifecycle_state :: string
  shape_config :: shape_config

record boot_volume =
  boot_volume_id :: ocid
  boot_volume_display_name :: string

record load_balancer =
  lb_display_name :: string
  lb_shape_name :: string
  lb_lifecycle_state :: string

record db_system_summary =
  db_display_name :: string
  database_edition :: string
  db_lifecycle_state :: string

record bucket_summary =
  bucket_name :: string
  created_by :: string
  bucket_time_created :: sdk_time

record availability_domain =
  ad_name :: string
  ad_id :: ocid

record file_system_summary =
  fs_id :: ocid
  fs_display_name :: string
  metered_bytes :: int
  fs_lifecycle_state :: string

record snapshot_summary =
  snapshot_name :: string
  snapshot_time_created :: sdk_time
  snapshot_lifecycle_state :: string

record usage_summary =
  usage_time_started :: sdk_time
  computed_quantity :: real

section \<open>Requests\<close>

text \<open>
  \<^verbatim>\<open>ListInstancesRequest\<close>, \<^verbatim>\<open>ListLoadBalancersRequest\<close>,
  \<^verbatim>\<open>ListAvailabilityDomainsRequest\<close> and \<^verbatim>\<open>ListDbSystemsRequest\<close> are set
  with a compartment only; boot volumes and file systems add an availability
  domain; buckets add a namespace; snapshots are listed by file system; the usage
  request carries the tenant and a date range.
\<close>

record compartment_request = paged_request +
  compartment_id :: ocid

record ad_scoped_request = compartment_request +
  availability_domain :: string

record list_buckets_request = compartment_request +
  namespace_name :: string

record list_snapshots_request = paged_request +
  file_system_id :: ocid

datatype granularity = Hourly | Daily | Monthly | Total

record usage_request = paged_request +
  tenant_id :: ocid
  time_usage_started :: sdk_time
  time_usage_ended :: sdk_time
  usage_granularity :: granularity

record get_namespace_request =
  namespace_compartment_id :: ocid

section \<open>Monitoring\<close>

record aggregated_datapoint =
  dp_timestamp :: sdk_time
  dp_value :: real

record metric_data =
  aggregated_datapoints :: "aggregated_datapoint list"

record summarize_metrics_request =
  metrics_compartment_id :: ocid
  metric_namespace :: string
  metric_query_text :: string
  start_time :: sdk_time

section \<open>The remote side\<close>

datatype service =
  Compute | Blockstorage | Load_balancing | Object_storage | Identity
  | File_storage | Database | Usage_api | Monitoring

record oci =
  new_client :: "service \<Rightarrow> sdk_error option"
  list_instances :: "compartment_request \<Rightarrow> sdk_error + compute_instance page_response"
  list_boot_volumes :: "ad_scoped_request \<Rightarrow> sdk_error + boot_volume page_response"
  list_load_balancers :: "compartment_request \<Rightarrow> sdk_error + load_balancer page_response"
  get_namespace :: "get_namespace_request \<Rightarrow> sdk_error + string"
  list_buckets :: "list_buckets_request \<Rightarrow> sdk_error + bucket_summary page_response"
  list_availability_domains :: "compartment_request \<Rightarrow> sdk_error + availability_domain page_response"
  list_file_systems :: "ad_scoped_request \<Rightarrow> sdk_error + file_system_summary page_response"
  list_snapshots :: "list_snapshots_request \<Rightarrow> sdk_error + snapshot_summary page_response"
  list_db_systems :: "compartment_request \<Rightarrow> sdk_error + db_system_summary page_response"
  request_summarized_usages :: "usage_request \<Rightarrow> sdk_error + usage_summary page_response"
  summarize_metrics_data :: "summarize_metrics_request \<Rightarrow> sdk_error + metric_data list"

text \<open>
  A provider for concrete runs of the model: every client is created, every
  listing answers with one empty page, the namespace resolves, and every metric
  query returns no series. Concrete scenarios update the fields they need.
\<close>

definition empty_page :: "'r \<Rightarrow> sdk_error + 'a page_response" where
  "empty_page r = Inr \<lparr>items = [], opc_next_page = None\<rparr>"

definition quiet_oci :: oci where
  "quiet_oci =
     \<lparr>new_client = (\<lambda>_. None), list_instances = empty_page, list_boot_volumes = empty_page,
      list_load_balancers = empty_page, get_namespace = (\<lambda>_. Inr ''namespace''),
      list_buckets = empty_page, list_availability_domains = empty_page,
      list_file_systems = empty_page, list_snapshots = empty_page, list_db_systems = empty_page,
      request_summarized_usages = empty_page, summarize_metrics_data = (\<lambda>_. Inr [])\<rparr>"

definition test_instance :: "ocid \<Rightarrow> string \<Rightarrow> string \<Rightarrow> compute_instance" where
  "test_instance iid name state =
     \<lparr>instance_id = iid, instance_display_name = name, instance_shape = ''VM.Standard.E4.Flex'',
      instance_lifecycle_state = state,
      shape_config = \<lparr>processor_description = ''AMD EPYC'', ocpus = 1, memory_in_gbs = 16\<rparr>\<rparr>"

definition test_ad :: availability_domain where
  "test_ad = \<lparr>ad_name = ''AD-1'', ad_id = ''ocid1.availabilitydomain''\<rparr>"

definition test_fs :: file_system_summary where
  "test_fs = \<lparr>fs_id = ''ocid1.filesystem'', fs_display_name = ''share'', metered_bytes = 4096,
     fs_lifecycle_state = ''ACTIVE''\<rparr>"

definition test_snapshot :: snapshot_summary where
  "test_snapshot = \<lparr>snapshot_name = ''nightly'', snapshot_time_created = 0,
     snapshot_lifecycle_state = ''ACTIVE''\<rparr>"

definition test_bucket :: bucket_summary where
  "test_bucket = \<lparr>bucket_name = ''backups'', created_by = ''ocid1.user'', bucket_time_created = 0\<rparr>"

end
