(* ===== verification/Enumerators.thy ===== *)
theory Enumerators
  imports Oci_Sdk
begin

text \<open>
  The nine listing functions of \<^verbatim>\<open>src/functions/functions.go\<close>. Each creates
  its SDK client and ends the process through \<^verbatim>\<open>log.Fatalf\<close> when that fails
  (\<open>with_client\<close>), builds its request with \<open>page = None\<close>, and runs the
  pagination loop of \<open>Pagination\<close> on its endpoint, returning an SDK error as
  \<open>Api_error\<close>. Two functions differ from that pattern and are modelled on
  their own: \<^verbatim>\<open>ListAllBuckets\<close> first resolves the object-storage namespace
  and discards the error of that call, so a failed resolution dereferences a nil
  pointer; \<^verbatim>\<open>ListAvailabilityDomains\<close> has the line that threads the cursor
  commented out, so it repeats its first request for as long as the response
  names a next page.

  The results are \<open>(failure + 'a list) option\<close>: \<open>None\<close> is an enumeration that
  never returns.
\<close>

definition with_client ::
  "oci \<Rightarrow> service \<Rightarrow> string \<Rightarrow> (failure + 'a) option \<Rightarrow> (failure + 'a) option"
where
  "with_client p s msg body =
     (case new_client p s of Some err \<Rightarrow> Some (Inl (Fatal (msg @ err))) | None \<Rightarrow> body)"

definition list_all_instances :: "oci \<Rightarrow> ocid \<Rightarrow> (failure + compute_instance list) option" where
  "list_all_instances p tenancy_id =
     with_client p Compute ''Error creating OCI client: ''
       (lift_api (paginate (list_instances p) \<lparr>page = None, compartment_id = tenancy_id\<rparr> []))"

definition list_all_boot_volumes :: "oci \<Rightarrow> ocid \<Rightarrow> string \<Rightarrow> (failure + boot_volume list) option" where
  "list_all_boot_volumes p tenancy_id ad =
     with_client p Blockstorage ''Error creating OCI client: ''
       (lift_api (paginate (list_boot_volumes p)
          \<lparr>page = None, compartment_id = tenancy_id, availability_domain = ad\<rparr> []))"

definition list_all_load_balancers :: "oci \<Rightarrow> ocid \<Rightarrow> (failure + load_balancer list) option" where
  "list_all_load_balancers p tenancy_id =
     with_client p Load_balancing ''Error creating Load Balancer client: ''
       (lift_api (paginate (list_load_balancers p) \<lparr>page = None, compartment_id = tenancy_id\<rparr> []))"

text \<open>
  \<^verbatim>\<open>namespace, _ := GetNamespace(...)\<close> drops the error; on a failed call the
  response's \<^verbatim>\<open>Value\<close> is nil and \<^verbatim>\<open>*namespace.Value\<close> panics.
\<close>

definition nil_dereference :: string where
  "nil_dereference = ''runtime error: invalid memory address or nil pointer dereference''"

definition list_all_buckets :: "oci \<Rightarrow> ocid \<Rightarrow> (failure + bucket_summary list) option" where
  "list_all_buckets p tenancy_id =
     with_client p Object_storage ''Error creating Object Storage client: ''
       (case get_namespace p \<lparr>namespace_compartment_id = tenancy_id\<rparr> of
          Inl _ \<Rightarrow> Some (Inl (Panic nil_dereference))
        | Inr ns \<Rightarrow> lift_api (paginate (list_buckets p)
            \<lparr>page = None, compartment_id = tenancy_id, namespace_name = ns\<rparr> []))"

text \<open>
  The loop of \<^verbatim>\<open>ListAvailabilityDomains\<close>: \<^verbatim>\<open>// request.Page = response.OpcNextPage\<close>
  is commented out, so a response with a next cursor is followed by the same
  request again.
\<close>

partial_function (option) availability_domains_loop ::
  "oci \<Rightarrow> compartment_request \<Rightarrow> availability_domain list \<Rightarrow>
   (sdk_error + availability_domain list) option"
where
  "availability_domains_loop p request acc =
     (case list_availability_domains p request of
        Inl err \<Rightarrow> Some (Inl err)
      | Inr response \<Rightarrow>
          (case opc_next_page response of
             None \<Rightarrow> Some (Inr (acc @ items response))
           | Some _ \<Rightarrow> availability_domains_loop p request (acc @ items response)))"

declare availability_domains_loop.simps [code]

definition list_availability_domains_fn :: "oci \<Rightarrow> ocid \<Rightarrow> (failure + availability_domain list) option" where
  "list_availability_domains_fn p tenancy_id =
     with_client p Identity ''Error creating Object Storage client: ''
       (lift_api (availability_domains_loop p \<lparr>page = None, compartment_id = tenancy_id\<rparr> []))"

definition list_all_file_systems :: "oci \<Rightarrow> ocid \<Rightarrow> string \<Rightarrow> (failure + file_system_summary list) option" where
  "list_all_file_systems p tenancy_id ad =
     with_client p File_storage ''Error creating Object Storage client: ''
       (lift_api (paginate (list_file_systems p)
          \<lparr>page = None, compartment_id = tenancy_id, availability_domain = ad\<rparr> []))"

definition list_file_storage_snapshots :: "oci \<Rightarrow> ocid \<Rightarrow> (failure + snapshot_summary list) option" where
  "list_file_storage_snapshots p file_system_id' =
     with_client p File_storage ''Error creating Object Storage client: ''
       (lift_api (paginate (list_snapshots p) \<lparr>page = None, file_system_id = file_system_id'\<rparr> []))"

definition list_all_databases :: "oci \<Rightarrow> ocid \<Rightarrow> (failure + db_system_summary list) option" where
  "list_all_databases p tenancy_id =
     with_client p Database ''Error creating Object Storage client: ''
       (lift_api (paginate (list_db_systems p) \<lparr>page = None, compartment_id = tenancy_id\<rparr> []))"

definition get_billing_report ::
  "oci \<Rightarrow> ocid \<Rightarrow> sdk_time \<Rightarrow> sdk_time \<Rightarrow> (failure + usage_summary list) option"
where
  "get_billing_report p tenancy_id start_date end_date =
     with_client p Usage_api ''Error creating Usage API client: ''
       (lift_api (paginate (request_summarized_usages p)
          \<lparr>page = None, tenant_id = tenancy_id, time_usage_started = start_date,
           time_usage_ended = end_date, usage_granularity = Daily\<rparr> []))"

lemmas enumerator_defs [model_defs] =
  with_client_def list_all_instances_def list_all_boot_volumes_def list_all_load_balancers_def
  list_all_buckets_def list_availability_domains_fn_def list_all_file_systems_def
  list_file_storage_snapshots_def list_all_databases_def get_billing_report_def

section \<open>The listing functions run the pagination loop\<close>

lemma lift_api_paginate:
  "lift_api (paginate call r []) = Some res \<longleftrightarrow>
   (\<exists>rs res'. page_run call r rs res' \<and> res = map_sum Api_error id res')"
proof
  assume "lift_api (paginate call r []) = Some res"
  then obtain res' where "paginate call r [] = Some res'" and "res = map_sum Api_error id res'"
    by (auto simp: lift_api_def)
  with paginate_sound show "\<exists>rs res'. page_run call r rs res' \<and> res = map_sum Api_error id res'"
    by fastforce
next
  assume "\<exists>rs res'. page_run call r rs res' \<and> res = map_sum Api_error id res'"
  then obtain rs res' where "page_run call r rs res'" and res: "res = map_sum Api_error id res'"
    by blast
  then have "paginate call r [] = Some res'" using paginate_complete [where acc = "[]"] by simp
  with res show "lift_api (paginate call r []) = Some res" by (simp add: lift_api_def)
qed

lemma with_client_created [simp]: "new_client p s = None \<Longrightarrow> with_client p s msg body = body"
  by (simp add: with_client_def)

lemma with_client_failed [simp]:
  "new_client p s = Some e \<Longrightarrow> with_client p s msg body = Some (Inl (Fatal (msg @ e)))"
  by (simp add: with_client_def)

section \<open>The availability-domain loop\<close>

lemma availability_domains_loop_diverges:
  assumes c: "list_availability_domains p req = Inr resp" and n: "opc_next_page resp \<noteq> None"
  shows "availability_domains_loop p req acc = None"
proof (rule ccontr)
  assume "availability_domains_loop p req acc \<noteq> None"
  then obtain y where ret: "availability_domains_loop p req acc = Some y" by blast
  have "\<not> (p' = p \<and> req' = req)" if "availability_domains_loop p' req' acc' = Some y'" for p' req' acc' y'
  proof (rule availability_domains_loop.raw_induct
      [where P = "\<lambda>p' r a y. \<not> (p' = p \<and> r = req)", OF _ that])
    fix f p' r a y
    assume IH: "\<And>p' r a y. f p' r a = Some y \<Longrightarrow> \<not> (p' = p \<and> r = req)"
      and eq: "(case list_availability_domains p' r of Inl err \<Rightarrow> Some (Inl err)
        | Inr response \<Rightarrow> (case opc_next_page response of None \<Rightarrow> Some (Inr (a @ items response))
            | Some _ \<Rightarrow> f p' r (a @ items response))) = Some y"
    show "\<not> (p' = p \<and> r = req)"
    proof
      assume pr: "p' = p \<and> r = req"
      with c n eq have "f p' r (a @ items resp) = Some y"
        by (auto split: option.splits)
      with IH pr show False by blast
    qed
  qed
  with ret show False by blast
qed

section \<open>Claims on the listing functions\<close>

text \<open>
  C6 (termination). \<^verbatim>\<open>ListAvailabilityDomains\<close> never returns when the first
  response names a next page: the cursor is not written back into the request,
  so the same request is issued again and again and the same page is appended
  each time. (The spec says the function stops after one page.)
\<close>

theorem list_availability_domains_never_returns:
  assumes "new_client p Identity = None"
    and "list_availability_domains p \<lparr>page = None, compartment_id = t\<rparr> = Inr resp"
    and "opc_next_page resp \<noteq> None"
  shows "list_availability_domains_fn p t = None"
  using assms availability_domains_loop_diverges [OF assms(2,3)]
  by (simp add: list_availability_domains_fn_def)

theorem list_availability_domains_never_returns_witness:
  "list_availability_domains_fn
     (quiet_oci\<lparr>list_availability_domains := (\<lambda>_. Inr \<lparr>items = [\<lparr>ad_name = ''AD-1'', ad_id = ''ocid1.ad''\<rparr>],
        opc_next_page = Some ''page2''\<rparr>)\<rparr>) ''ocid1.tenancy'' = None"
  by (rule list_availability_domains_never_returns
      [where resp = "\<lparr>items = [\<lparr>ad_name = ''AD-1'', ad_id = ''ocid1.ad''\<rparr>], opc_next_page = Some ''page2''\<rparr>"])
    (simp_all add: quiet_oci_def)

text \<open>
  C7 (safety). \<^verbatim>\<open>ListAllBuckets\<close> resolves the namespace before listing, and every
  list request it issues carries that namespace, unchanged, and the tenancy as
  compartment; the buckets returned are the outcome of that enumeration.
\<close>

theorem list_all_buckets_uses_namespace:
  assumes "new_client p Object_storage = None"
    and "get_namespace p \<lparr>namespace_compartment_id = t\<rparr> = Inr ns"
    and "list_all_buckets p t = Some (Inr bs)"
  shows "\<exists>rs. page_run (list_buckets p) \<lparr>page = None, compartment_id = t, namespace_name = ns\<rparr> rs (Inr bs) \<and>
           (\<forall>q \<in> set rs. namespace_name q = ns \<and> compartment_id q = t)"
proof -
  let ?r = "\<lparr>page = None, compartment_id = t, namespace_name = ns\<rparr>"
  from assms have "lift_api (paginate (list_buckets p) ?r []) = Some (Inr bs)"
    by (simp add: list_all_buckets_def)
  then obtain rs res' where run: "page_run (list_buckets p) ?r rs res'"
    and res: "Inr bs = map_sum Api_error id res'"
    using lift_api_paginate by blast
  from res have "res' = Inr bs" by (cases res') simp_all
  moreover have "\<forall>q \<in> set rs. namespace_name q = ns \<and> compartment_id q = t"
  proof
    fix q assume "q \<in> set rs"
    with run have "q = ?r\<lparr>page := page q\<rparr>" by (rule page_run_keeps_fields)
    then show "namespace_name q = ns \<and> compartment_id q = t"
      by (metis list_buckets_request.select_convs(1) list_buckets_request.update_convs(1)
          compartment_request.select_convs(1) compartment_request.update_convs(1)
          paged_request.update_convs(1))
  qed
  ultimately show ?thesis using run by blast
qed

theorem list_all_buckets_uses_namespace_witness:
  "\<exists>rs. page_run (list_buckets (quiet_oci\<lparr>get_namespace := (\<lambda>_. Inr ''axaxnpcrorw5'')\<rparr>))
      \<lparr>page = None, compartment_id = ''ocid1.tenancy'', namespace_name = ''axaxnpcrorw5''\<rparr> rs (Inr []) \<and>
      (\<forall>q \<in> set rs. namespace_name q = ''axaxnpcrorw5'')"
proof -
  let ?p = "quiet_oci\<lparr>get_namespace := (\<lambda>_. Inr ''axaxnpcrorw5'')\<rparr>"
  have "list_all_buckets ?p ''ocid1.tenancy'' = Some (Inr [])"
    by (simp add: list_all_buckets_def quiet_oci_def empty_page_def paginate.simps)
  from list_all_buckets_uses_namespace [OF _ _ this] show ?thesis
    by (fastforce simp: quiet_oci_def)
qed

text \<open>
  C8 (error). When the namespace cannot be resolved, \<^verbatim>\<open>ListAllBuckets\<close> does not
  return the error: it discards it, dereferences the nil namespace and panics,
  before any bucket listing request is issued.
\<close>

theorem list_all_buckets_namespace_failure:
  assumes "new_client p Object_storage = None"
    and "get_namespace p \<lparr>namespace_compartment_id = t\<rparr> = Inl e"
  shows "list_all_buckets p t = Some (Inl (Panic nil_dereference)) \<and>
         list_all_buckets (p\<lparr>list_buckets := f\<rparr>) t = list_all_buckets p t"
  using assms by (simp add: list_all_buckets_def)

theorem list_all_buckets_namespace_failure_witness:
  "list_all_buckets (quiet_oci\<lparr>get_namespace := (\<lambda>_. Inl ''NotAuthorizedOrNotFound'')\<rparr>) ''ocid1.tenancy'' =
     Some (Inl (Panic ''runtime error: invalid memory address or nil pointer dereference''))"
  using list_all_buckets_namespace_failure [of "quiet_oci\<lparr>get_namespace := (\<lambda>_. Inl ''NotAuthorizedOrNotFound'')\<rparr>"
      "''ocid1.tenancy''" "''NotAuthorizedOrNotFound''"]
  by (simp add: quiet_oci_def nil_dereference_def)

text \<open>
  C9 (refinement). With their clients created, the seven listing functions that
  follow the common pattern (instances, boot volumes, load balancers, file
  systems, snapshots, databases, billing usage) each return exactly the outcome of
  the enumeration run from their initial request (\<open>page = None\<close> and the
  function's filters), an SDK error becoming \<open>Api_error\<close>.
\<close>

theorem enumerators_refine_page_run:
  assumes "\<forall>s. new_client p s = None"
  shows
    "(list_all_instances p t = Some r1 \<longleftrightarrow>
        (\<exists>rs r'. page_run (list_instances p) \<lparr>page = None, compartment_id = t\<rparr> rs r' \<and>
                 r1 = map_sum Api_error id r')) \<and>
     (list_all_boot_volumes p t ad = Some r2 \<longleftrightarrow>
        (\<exists>rs r'. page_run (list_boot_volumes p)
                   \<lparr>page = None, compartment_id = t, availability_domain = ad\<rparr> rs r' \<and>
                 r2 = map_sum Api_error id r')) \<and>
     (list_all_load_balancers p t = Some r3 \<longleftrightarrow>
        (\<exists>rs r'. page_run (list_load_balancers p) \<lparr>page = None, compartment_id = t\<rparr> rs r' \<and>
                 r3 = map_sum Api_error id r')) \<and>
     (list_all_file_systems p t ad = Some r4 \<longleftrightarrow>
        (\<exists>rs r'. page_run (list_file_systems p)
                   \<lparr>page = None, compartment_id = t, availability_domain = ad\<rparr> rs r' \<and>
                 r4 = map_sum Api_error id r')) \<and>
     (list_file_storage_snapshots p fs = Some r5 \<longleftrightarrow>
        (\<exists>rs r'. page_run (list_snapshots p) \<lparr>page = None, file_system_id = fs\<rparr> rs r' \<and>
                 r5 = map_sum Api_error id r')) \<and>
     (list_all_databases p t = Some r6 \<longleftrightarrow>
        (\<exists>rs r'. page_run (list_db_systems p) \<lparr>page = None, compartment_id = t\<rparr> rs r' \<and>
                 r6 = map_sum Api_error id r')) \<and>
     (get_billing_report p t d1 d2 = Some r7 \<longleftrightarrow>
        (\<exists>rs r'. page_run (request_summarized_usages p)
                   \<lparr>page = None, tenant_id = t, time_usage_started = d1, time_usage_ended = d2,
                    usage_granularity = Daily\<rparr> rs r' \<and>
                 r7 = map_sum Api_error id r'))"
  using assms by (simp add: enumerator_defs lift_api_paginate)

theorem enumerators_refine_page_run_witness:
  "list_all_instances
     (quiet_oci\<lparr>list_instances := paged_source [''p0'', ''p1'', ''p2'']
        [[test_instance ''i1'' ''web-1'' ''RUNNING'', test_instance ''i2'' ''web-2'' ''RUNNING''],
         [test_instance ''i3'' ''db-1'' ''STOPPED'', test_instance ''i4'' ''db-2'' ''RUNNING''],
         [test_instance ''i5'' ''batch'' ''RUNNING'']]\<rparr>) ''ocid1.tenancy'' =
     Some (Inr [test_instance ''i1'' ''web-1'' ''RUNNING'', test_instance ''i2'' ''web-2'' ''RUNNING'',
                test_instance ''i3'' ''db-1'' ''STOPPED'', test_instance ''i4'' ''db-2'' ''RUNNING'',
                test_instance ''i5'' ''batch'' ''RUNNING''])"
proof -
  let ?pages = "[[test_instance ''i1'' ''web-1'' ''RUNNING'', test_instance ''i2'' ''web-2'' ''RUNNING''],
         [test_instance ''i3'' ''db-1'' ''STOPPED'', test_instance ''i4'' ''db-2'' ''RUNNING''],
         [test_instance ''i5'' ''batch'' ''RUNNING'']]"
  let ?p = "quiet_oci\<lparr>list_instances := paged_source [''p0'', ''p1'', ''p2''] ?pages\<rparr>"
  have clients: "\<forall>s. new_client ?p s = None" by (simp add: quiet_oci_def)
  have run: "page_run (list_instances ?p) \<lparr>page = None, compartment_id = ''ocid1.tenancy''\<rparr>
      [\<lparr>page = None, compartment_id = ''ocid1.tenancy''\<rparr>,
       \<lparr>page = Some ''p1'', compartment_id = ''ocid1.tenancy''\<rparr>,
       \<lparr>page = Some ''p2'', compartment_id = ''ocid1.tenancy''\<rparr>]
      (Inr (concat ?pages))"
    using page_run_paged_source [of "[''p0'', ''p1'', ''p2'']" ?pages "\<lparr>page = None, compartment_id = ''ocid1.tenancy''\<rparr>"]
    by simp
  have iff: "list_all_instances ?p ''ocid1.tenancy'' = Some (Inr (concat ?pages)) \<longleftrightarrow>
      (\<exists>rs r'. page_run (list_instances ?p) \<lparr>page = None, compartment_id = ''ocid1.tenancy''\<rparr> rs r' \<and>
               Inr (concat ?pages) = map_sum Api_error id r')"
    by (rule conjunct1 [OF enumerators_refine_page_run [OF clients]])
  have "\<exists>rs r'. page_run (list_instances ?p) \<lparr>page = None, compartment_id = ''ocid1.tenancy''\<rparr> rs r' \<and>
      Inr (concat ?pages) = map_sum Api_error id r'"
    by (rule exI, rule exI, rule conjI, rule run) simp
  with iff have "list_all_instances ?p ''ocid1.tenancy'' = Some (Inr (concat ?pages))" by (rule iffD2)
  then show ?thesis by (simp only: concat.simps append.simps)
qed

end
