(* ===== verification/Metrics.thy ===== *)
theory Metrics
  imports Enumerators "HOL-Library.Multiset"
begin

text \<open>
  \<^verbatim>\<open>GetInstanceMetrics\<close> of \<^verbatim>\<open>src/functions/functions.go\<close>: for one instance it
  builds a Go map from four metric names to monitoring queries, and for each
  entry, in the map's iteration order, sets the metric to 0, asks the monitoring
  service for the one-minute window ending now, and overwrites the metric with
  the last datapoint of each returned series whose last value is not zero. A
  failed query returns the error and no map; a series without datapoints makes
  the index \<^verbatim>\<open>len - 1\<close> out of range, a panic.

  Go leaves the iteration order of a map unspecified (and randomises it): the
  model takes it as a parameter \<open>map_range\<close>, a function that returns some
  permutation of the map's entries, and proves the result independent of it.
  \<^verbatim>\<open>time.Now()\<close> is read once per query, so the clock is a function of the
  metric being queried. Go's \<^verbatim>\<open>map[string]float64\<close> is a map
  \<open>string \<rightharpoonup> real\<close>; floats are reals (NaN is not modelled; \<^verbatim>\<open>-0.0 != 0\<close> is
  false in Go as \<open>- 0 \<noteq> 0\<close> is in HOL).

  \<open>metric_value\<close> and \<open>last_nonzero\<close> are the reference specification of one
  metric (the spec's "last point wins unless zero"); the theorems relate the
  loop to them.
\<close>

type_synonym metrics = "string \<rightharpoonup> real"
type_synonym map_order = "(string \<times> string) list \<Rightarrow> (string \<times> string) list"

definition metric_queries :: "ocid \<Rightarrow> (string \<times> string) list" where
  \<open>metric_queries iid =
     [(''CpuUtilization'', ''CpuUtilization[1m]{resourceID =~ "'' @ iid @ ''"}.max()''),
      (''MemoryUtilization'', ''MemoryUtilization[1m]{resourceID =~ "'' @ iid @ ''"}.max()''),
      (''DiskBytesRead'', ''DiskBytesRead[1m]{resourceID =~ "'' @ iid @ ''"}.max()''),
      (''DiskBytesWritten'', ''DiskBytesWritten[1m]{resourceID =~ "'' @ iid @ ''"}.max()'')]\<close>

definition minute :: sdk_time where
  "minute = 60 * 1000000000"

definition metrics_request :: "ocid \<Rightarrow> sdk_time \<Rightarrow> string \<Rightarrow> summarize_metrics_request" where
  "metrics_request tenancy_id now q =
     \<lparr>metrics_compartment_id = tenancy_id, metric_namespace = ''oci_computeagent'',
      metric_query_text = q, start_time = now - minute\<rparr>"

definition index_out_of_range :: string where
  "index_out_of_range = ''runtime error: index out of range [-1]''"

text \<open>
  \<^verbatim>\<open>for _, metricValues := range response.Items { lastIndex := len(...) - 1;
  if *...[lastIndex].Value != 0 { metrics[metric] = *...[lastIndex].Value } }\<close>
\<close>

fun fold_series :: "string \<Rightarrow> metrics \<Rightarrow> metric_data list \<Rightarrow> failure + metrics" where
  "fold_series metric ms [] = Inr ms"
| "fold_series metric ms (mv # mvs) =
     (if aggregated_datapoints mv = [] then Inl (Panic index_out_of_range)
      else (let v = dp_value (last (aggregated_datapoints mv))
            in fold_series metric (if v \<noteq> 0 then ms(metric \<mapsto> v) else ms) mvs))"

text \<open>The body of \<^verbatim>\<open>for metric, metricQuery := range metricQueries\<close>, over the entries in iteration order.\<close>

fun metrics_loop ::
  "oci \<Rightarrow> ocid \<Rightarrow> (string \<Rightarrow> sdk_time) \<Rightarrow> (string \<times> string) list \<Rightarrow> metrics \<Rightarrow> failure + metrics"
where
  "metrics_loop p tenancy_id clock [] ms = Inr ms"
| "metrics_loop p tenancy_id clock ((metric, q) # rest) ms =
     (case summarize_metrics_data p (metrics_request tenancy_id (clock metric) q) of
        Inl err \<Rightarrow> Inl (Api_error err)
      | Inr response \<Rightarrow>
          (case fold_series metric (ms(metric \<mapsto> 0)) response of
             Inl f \<Rightarrow> Inl f
           | Inr ms' \<Rightarrow> metrics_loop p tenancy_id clock rest ms'))"

definition get_instance_metrics ::
  "oci \<Rightarrow> ocid \<Rightarrow> (string \<Rightarrow> sdk_time) \<Rightarrow> map_order \<Rightarrow> ocid \<Rightarrow> failure + metrics"
where
  "get_instance_metrics p tenancy_id clock map_range iid =
     (case new_client p Monitoring of
        Some err \<Rightarrow> Inl (Fatal (''Error creating monitoring client: '' @ err))
      | None \<Rightarrow> metrics_loop p tenancy_id clock (map_range (metric_queries iid)) Map.empty)"

section \<open>Reference specification of one metric\<close>

definition last_nonzero :: "real list \<Rightarrow> real option" where
  "last_nonzero vs = (case filter (\<lambda>v. v \<noteq> 0) vs of [] \<Rightarrow> None | ws \<Rightarrow> Some (last ws))"

definition metric_value :: "metric_data list \<Rightarrow> failure + real" where
  "metric_value response =
     (if list_all (\<lambda>mv. aggregated_datapoints mv \<noteq> []) response
      then Inr (case last_nonzero (map (\<lambda>mv. dp_value (last (aggregated_datapoints mv))) response) of
                  None \<Rightarrow> 0 | Some v \<Rightarrow> v)
      else Inl (Panic index_out_of_range))"

definition query_metric :: "oci \<Rightarrow> ocid \<Rightarrow> (string \<Rightarrow> sdk_time) \<Rightarrow> string \<times> string \<Rightarrow> failure + real" where
  "query_metric p tenancy_id clock mq =
     (case summarize_metrics_data p (metrics_request tenancy_id (clock (fst mq)) (snd mq)) of
        Inl err \<Rightarrow> Inl (Api_error err)
      | Inr response \<Rightarrow> metric_value response)"

text \<open>A series of datapoints, oldest first, for concrete runs.\<close>

definition series :: "real list \<Rightarrow> metric_data" where
  "series vs = \<lparr>aggregated_datapoints = map (\<lambda>v. \<lparr>dp_timestamp = 0, dp_value = v\<rparr>) vs\<rparr>"

section \<open>The loop against the reference\<close>

lemma last_nonzero_Cons:
  "last_nonzero (v # vs) = (case last_nonzero vs of None \<Rightarrow> (if v \<noteq> 0 then Some v else None) | Some w \<Rightarrow> Some w)"
  by (auto simp: last_nonzero_def split: list.splits)

lemma fold_series_eq:
  "fold_series m ms mvs =
     (if list_all (\<lambda>mv. aggregated_datapoints mv \<noteq> []) mvs
      then Inr (case last_nonzero (map (\<lambda>mv. dp_value (last (aggregated_datapoints mv))) mvs) of
                  None \<Rightarrow> ms | Some v \<Rightarrow> ms(m \<mapsto> v))
      else Inl (Panic index_out_of_range))"
proof (induction mvs arbitrary: ms)
  case Nil
  then show ?case by (simp add: last_nonzero_def)
next
  case (Cons mv mvs)
  then show ?case by (auto simp: Let_def last_nonzero_Cons split: option.splits)
qed

lemma fold_series_from_zero:
  "fold_series m (ms(m \<mapsto> 0)) mvs = map_sum id (\<lambda>v. ms(m \<mapsto> v)) (metric_value mvs)"
  by (simp add: fold_series_eq metric_value_def split: option.splits)

lemma metrics_loop_eq:
  "metrics_loop p t clock qs ms =
     (case List.find (\<lambda>e. isl (query_metric p t clock e)) qs of
        Some e \<Rightarrow> Inl (projl (query_metric p t clock e))
      | None \<Rightarrow> Inr (fold (\<lambda>e f. f(fst e \<mapsto> projr (query_metric p t clock e))) qs ms))"
proof (induction qs arbitrary: ms)
  case Nil
  then show ?case by simp
next
  case (Cons e qs)
  obtain m q where e: "e = (m, q)" by fastforce
  show ?case
  proof (cases "summarize_metrics_data p (metrics_request t (clock m) q)")
    case (Inl err)
    with e show ?thesis by (simp add: query_metric_def)
  next
    case (Inr response)
    show ?thesis
    proof (cases "metric_value response")
      case (Inl f)
      with e Inr show ?thesis by (simp add: query_metric_def fold_series_from_zero)
    next
      case (Inr v)
      note resp = \<open>summarize_metrics_data p (metrics_request t (clock m) q) = Inr response\<close>
      from e resp Inr have qm: "query_metric p t clock e = Inr v"
        by (simp add: query_metric_def)
      from e resp Inr have loop: "metrics_loop p t clock (e # qs) ms = metrics_loop p t clock qs (ms(m \<mapsto> v))"
        by (simp add: fold_series_from_zero)
      let ?F = "\<lambda>e f. f(fst e \<mapsto> projr (query_metric p t clock e))"
      from qm e have f: "fold ?F (e # qs) ms = fold ?F qs (ms(m \<mapsto> v))" by simp
      from qm have find: "List.find (\<lambda>e. isl (query_metric p t clock e)) (e # qs) =
          List.find (\<lambda>e. isl (query_metric p t clock e)) qs" by simp
      show ?thesis unfolding f find loop by (rule Cons.IH)
    qed
  qed
qed

lemma metric_queries_distinct: "distinct (map fst (metric_queries iid))"
  by (simp add: metric_queries_def)

lemma fold_store_at:
  "distinct (map fst qs) \<Longrightarrow>
   fold (\<lambda>e f. f(fst e \<mapsto> g e)) qs ms m = (case map_of qs m of None \<Rightarrow> ms m | Some q \<Rightarrow> Some (g (m, q)))"
proof (induction qs arbitrary: ms)
  case Nil
  then show ?case by simp
next
  case (Cons e qs)
  then have "fst e \<notin> fst ` set qs" by simp
  then have "map_of qs (fst e) = None" by (simp add: map_of_eq_None_iff)
  with Cons show ?case by (cases e) (auto split: option.splits)
qed

lemma permuted_queries:
  assumes "mset qs' = mset qs" "distinct (map fst qs)"
  shows "distinct (map fst qs') \<and> set qs' = set qs \<and> map_of qs' = map_of qs"
proof -
  from assms(1) have "mset (map fst qs') = mset (map fst qs)" by simp
  with assms(2) have d: "distinct (map fst qs')" using mset_eq_imp_distinct_iff by blast
  from assms(1) have s: "set qs' = set qs" by (rule mset_eq_setD)
  with d assms(2) have "map_of qs' = map_of qs" by (simp add: map_of_inject_set)
  with d s show ?thesis by blast
qed

lemma metrics_loop_permuted:
  assumes "mset qs1 = mset qs" "mset qs2 = mset qs" "distinct (map fst qs)"
  shows "(\<exists>ms'. metrics_loop p t clock qs1 ms = Inr ms' \<and> metrics_loop p t clock qs2 ms = Inr ms') \<or>
         (isl (metrics_loop p t clock qs1 ms) \<and> isl (metrics_loop p t clock qs2 ms))"
proof -
  let ?P = "\<lambda>e. isl (query_metric p t clock e)"
  let ?g = "\<lambda>e. projr (query_metric p t clock e)"
  from permuted_queries [OF assms(1,3)] have d1: "distinct (map fst qs1)" and s1: "set qs1 = set qs"
    and m1: "map_of qs1 = map_of qs" by blast+
  from permuted_queries [OF assms(2,3)] have d2: "distinct (map fst qs2)" and s2: "set qs2 = set qs"
    and m2: "map_of qs2 = map_of qs" by blast+
  have same_find: "List.find ?P qs1 = None \<longleftrightarrow> List.find ?P qs2 = None"
    using s1 s2 by (simp add: find_None_iff)
  show ?thesis
  proof (cases "List.find ?P qs1")
    case None
    with same_find have None2: "List.find ?P qs2 = None" by simp
    have "fold (\<lambda>e f. f(fst e \<mapsto> ?g e)) qs1 ms = fold (\<lambda>e f. f(fst e \<mapsto> ?g e)) qs2 ms"
    proof
      fix m
      show "fold (\<lambda>e f. f(fst e \<mapsto> ?g e)) qs1 ms m = fold (\<lambda>e f. f(fst e \<mapsto> ?g e)) qs2 ms m"
        using fold_store_at [OF d1, of ?g ms m] fold_store_at [OF d2, of ?g ms m] m1 m2 by simp
    qed
    with None None2 show ?thesis by (simp add: metrics_loop_eq)
  next
    case (Some e)
    with same_find obtain e2 where "List.find ?P qs2 = Some e2" by fastforce
    with Some show ?thesis by (simp add: metrics_loop_eq)
  qed
qed

section \<open>Claims on the metrics aggregator\<close>

text \<open>
  C10 (functional). When \<^verbatim>\<open>GetInstanceMetrics\<close> returns a map, every one of the four
  queries succeeded and the map holds exactly the four metric names, each with the
  reference value of its query: the last datapoint of the last series whose last
  datapoint is not zero, and 0 when there is none (a zero last point does not
  overwrite, earlier points are ignored).
\<close>

theorem get_instance_metrics_values:
  assumes "mset (map_range (metric_queries iid)) = mset (metric_queries iid)"
    and "get_instance_metrics p t clock map_range iid = Inr ms"
  shows "ms = (\<lambda>m. map_option (\<lambda>q. projr (query_metric p t clock (m, q))) (map_of (metric_queries iid) m)) \<and>
         list_all (\<lambda>e. \<not> isl (query_metric p t clock e)) (metric_queries iid)"
proof -
  let ?qs = "map_range (metric_queries iid)"
  let ?P = "\<lambda>e. isl (query_metric p t clock e)"
  let ?g = "\<lambda>e. projr (query_metric p t clock e)"
  from permuted_queries [OF assms(1) metric_queries_distinct] have d: "distinct (map fst ?qs)"
    and s: "set ?qs = set (metric_queries iid)" and m: "map_of ?qs = map_of (metric_queries iid)" by blast+
  from assms(2) have client: "new_client p Monitoring = None"
    by (auto simp: get_instance_metrics_def split: option.splits)
  with assms(2) have loop: "metrics_loop p t clock ?qs Map.empty = Inr ms"
    by (simp add: get_instance_metrics_def)
  then have none: "List.find ?P ?qs = None" and ms: "ms = fold (\<lambda>e f. f(fst e \<mapsto> ?g e)) ?qs Map.empty"
    by (auto simp: metrics_loop_eq split: option.splits)
  have "ms x = map_option (\<lambda>q. projr (query_metric p t clock (x, q))) (map_of (metric_queries iid) x)" for x
    using fold_store_at [OF d, of ?g Map.empty x] m ms by (simp split: option.splits)
  moreover from none s have "list_all (\<lambda>e. \<not> isl (query_metric p t clock e)) (metric_queries iid)"
    by (auto simp: find_None_iff list_all_iff)
  ultimately show ?thesis by blast
qed

theorem get_instance_metrics_values_witness:
  \<open>\<exists>ms. get_instance_metrics
      (quiet_oci\<lparr>summarize_metrics_data := (\<lambda>req.
         if metric_query_text req = ''CpuUtilization[1m]{resourceID =~ "ocid1.instance"}.max()''
         then Inr [series [5, 0, 0]] else Inr [series [0, 0, 7]])\<rparr>)
      ''ocid1.tenancy'' (\<lambda>_. 0) rev ''ocid1.instance'' = Inr ms \<and>
    ms ''CpuUtilization'' = Some 0 \<and> ms ''MemoryUtilization'' = Some 7 \<and>
    ms ''DiskBytesWritten'' = Some 7 \<and> ms ''NetworkBytesIn'' = None\<close>
proof -
  let ?p = \<open>quiet_oci\<lparr>summarize_metrics_data := (\<lambda>req.
         if metric_query_text req = ''CpuUtilization[1m]{resourceID =~ "ocid1.instance"}.max()''
         then Inr [series [5, 0, 0]] else Inr [series [0, 0, 7]])\<rparr>\<close>
  have perm: "mset (rev (metric_queries ''ocid1.instance'')) = mset (metric_queries ''ocid1.instance'')"
    by simp
  have "\<exists>ms. get_instance_metrics ?p ''ocid1.tenancy'' (\<lambda>_. 0) rev ''ocid1.instance'' = Inr ms"
    by (simp add: get_instance_metrics_def metric_queries_def metrics_request_def quiet_oci_def
        series_def Let_def)
  then obtain ms where g: "get_instance_metrics ?p ''ocid1.tenancy'' (\<lambda>_. 0) rev ''ocid1.instance'' = Inr ms"
    by blast
  from get_instance_metrics_values [OF perm g]
  have "ms = (\<lambda>m. map_option (\<lambda>q. projr (query_metric ?p ''ocid1.tenancy'' (\<lambda>_. 0) (m, q)))
      (map_of (metric_queries ''ocid1.instance'') m))" by blast
  then have "ms ''CpuUtilization'' = Some 0 \<and> ms ''MemoryUtilization'' = Some 7 \<and>
      ms ''DiskBytesWritten'' = Some 7 \<and> ms ''NetworkBytesIn'' = None"
    by (simp add: query_metric_def metric_value_def last_nonzero_def metrics_request_def
        metric_queries_def series_def)
  with g show ?thesis by blast
qed

text \<open>
  C11 (error). A monitoring response holding a series without datapoints makes
  \<^verbatim>\<open>GetInstanceMetrics\<close> index \<^verbatim>\<open>AggregatedDatapoints[-1]\<close> and panic; it does not
  default the metric to zero as the spec says of empty series.
\<close>

theorem get_instance_metrics_empty_series_panics:
  assumes "new_client p Monitoring = None"
    and "map_range (metric_queries iid) \<noteq> []"
    and "\<forall>req. summarize_metrics_data p req = Inr [series []]"
  shows "get_instance_metrics p t clock map_range iid = Inl (Panic index_out_of_range)"
proof -
  from assms(2) obtain e rest where qs: "map_range (metric_queries iid) = e # rest"
    by (cases "map_range (metric_queries iid)") auto
  from assms(3) have "query_metric p t clock e = Inl (Panic index_out_of_range)"
    by (simp add: query_metric_def metric_value_def series_def)
  with assms(1) qs show ?thesis by (simp add: get_instance_metrics_def metrics_loop_eq)
qed

theorem get_instance_metrics_empty_series_panics_witness:
  "get_instance_metrics (quiet_oci\<lparr>summarize_metrics_data := (\<lambda>_. Inr [series []])\<rparr>)
     ''ocid1.tenancy'' (\<lambda>_. 0) id ''ocid1.instance'' =
   Inl (Panic ''runtime error: index out of range [-1]'')"
  using get_instance_metrics_empty_series_panics
      [of "quiet_oci\<lparr>summarize_metrics_data := (\<lambda>_. Inr [series []])\<rparr>" id "''ocid1.instance''"
        "''ocid1.tenancy''" "\<lambda>_. 0"]
  by (simp add: quiet_oci_def metric_queries_def index_out_of_range_def)

text \<open>
  C12 (equivalence). The result of \<^verbatim>\<open>GetInstanceMetrics\<close> does not depend on the
  order in which Go iterates over the query map: for any two iteration orders,
  either both calls return the same map or both fail.
\<close>

theorem get_instance_metrics_order_independent:
  assumes "mset (range1 (metric_queries iid)) = mset (metric_queries iid)"
    and "mset (range2 (metric_queries iid)) = mset (metric_queries iid)"
  shows "(\<exists>ms. get_instance_metrics p t clock range1 iid = Inr ms \<and>
              get_instance_metrics p t clock range2 iid = Inr ms) \<or>
         (isl (get_instance_metrics p t clock range1 iid) \<and> isl (get_instance_metrics p t clock range2 iid))"
proof (cases "new_client p Monitoring")
  case None
  with metrics_loop_permuted [OF assms metric_queries_distinct] show ?thesis
    by (simp add: get_instance_metrics_def)
next
  case (Some err)
  then show ?thesis by (simp add: get_instance_metrics_def)
qed

theorem get_instance_metrics_order_independent_witness:
  "get_instance_metrics (quiet_oci\<lparr>summarize_metrics_data := (\<lambda>_. Inr [series [3, 4]])\<rparr>)
     ''ocid1.tenancy'' (\<lambda>_. 0) rev ''ocid1.instance'' =
   get_instance_metrics (quiet_oci\<lparr>summarize_metrics_data := (\<lambda>_. Inr [series [3, 4]])\<rparr>)
     ''ocid1.tenancy'' (\<lambda>_. 0) id ''ocid1.instance''"
proof -
  let ?p = "quiet_oci\<lparr>summarize_metrics_data := (\<lambda>_. Inr [series [3, 4]])\<rparr>"
  have ok: "\<not> isl (get_instance_metrics ?p ''ocid1.tenancy'' (\<lambda>_. 0) rev ''ocid1.instance'')"
    by (simp add: get_instance_metrics_def metric_queries_def quiet_oci_def series_def Let_def)
  have "mset (rev (metric_queries ''ocid1.instance'')) = mset (metric_queries ''ocid1.instance'')"
    by simp
  moreover have "mset (id (metric_queries ''ocid1.instance'')) = mset (metric_queries ''ocid1.instance'')"
    by simp
  ultimately have "(\<exists>ms. get_instance_metrics ?p ''ocid1.tenancy'' (\<lambda>_. 0) rev ''ocid1.instance'' = Inr ms \<and>
        get_instance_metrics ?p ''ocid1.tenancy'' (\<lambda>_. 0) id ''ocid1.instance'' = Inr ms) \<or>
      (isl (get_instance_metrics ?p ''ocid1.tenancy'' (\<lambda>_. 0) rev ''ocid1.instance'') \<and>
       isl (get_instance_metrics ?p ''ocid1.tenancy'' (\<lambda>_. 0) id ''ocid1.instance''))"
    by (rule get_instance_metrics_order_independent)
  with ok show ?thesis by (elim disjE exE conjE) simp_all
qed

text \<open>
  C13 (error). A failed monitoring query aborts the aggregation: whichever of the
  four queries fails, and in whatever order the map is iterated, no metric map is
  returned.
\<close>

theorem get_instance_metrics_query_failure:
  assumes "mset (map_range (metric_queries iid)) = mset (metric_queries iid)"
    and "(m, q) \<in> set (metric_queries iid)"
    and "summarize_metrics_data p (metrics_request t (clock m) q) = Inl e"
  shows "isl (get_instance_metrics p t clock map_range iid)"
proof (cases "new_client p Monitoring")
  case None
  let ?P = "\<lambda>e. isl (query_metric p t clock e)"
  from assms(1) have "set (map_range (metric_queries iid)) = set (metric_queries iid)"
    by (rule mset_eq_setD)
  moreover from assms(3) have "?P (m, q)" by (simp add: query_metric_def)
  ultimately have "List.find ?P (map_range (metric_queries iid)) \<noteq> None"
    using assms(2) by (auto simp: find_None_iff)
  with None show ?thesis by (auto simp: get_instance_metrics_def metrics_loop_eq split: option.splits)
next
  case (Some err)
  then show ?thesis by (simp add: get_instance_metrics_def)
qed

theorem get_instance_metrics_query_failure_witness:
  \<open>isl (get_instance_metrics
     (quiet_oci\<lparr>summarize_metrics_data := (\<lambda>req.
        if metric_query_text req = ''DiskBytesRead[1m]{resourceID =~ "ocid1.instance"}.max()''
        then Inl ''TooManyRequests'' else Inr [series [1]])\<rparr>)
     ''ocid1.tenancy'' (\<lambda>_. 0) rev ''ocid1.instance'')\<close>
  by (rule get_instance_metrics_query_failure
      [where m = "''DiskBytesRead''" and q = \<open>''DiskBytesRead[1m]{resourceID =~ "ocid1.instance"}.max()''\<close>
        and e = "''TooManyRequests''"])
    (simp_all add: metric_queries_def metrics_request_def)

end
