(* ===== verification/Config.thy ===== *)
theory Config
  imports Prelude
begin

text \<open>
  The start of \<^verbatim>\<open>main\<close> in \<^verbatim>\<open>src/main.go\<close>, lines 19--36: the settings
  file \<^verbatim>\<open>.env\<close> is loaded into the process environment, the working directory
  is read, and the path of the private key, \<^verbatim>\<open>filepath.Join(currentDir,
  "/config/", os.Getenv("OCI_CONFIG_private_key_filename"))\<close>, is stored in
  \<^verbatim>\<open>OCI_CONFIG_private_key_path\<close>, where the SDK's configuration provider
  reads it. The environment is a map from names to values: \<^verbatim>\<open>os.Getenv\<close> reads
  an unset name as the empty string, \<^verbatim>\<open>os.Setenv\<close> overwrites, and
  \<^verbatim>\<open>godotenv.Load\<close> adds the file's variables without overriding those the
  process already has. What the file holds (or why it cannot be read) and what
  \<^verbatim>\<open>os.Getwd\<close> returns are inputs.

  \<^verbatim>\<open>filepath.Join\<close> drops the leading empty elements, joins the rest with
  \<^verbatim>\<open>/\<close> and cleans the result lexically as \<^verbatim>\<open>filepath.Clean\<close> does:
  repeated slashes collapse, \<^verbatim>\<open>.\<close> elements go, a \<^verbatim>\<open>..\<close> element removes
  the element before it (at the root it is dropped, at the start of a relative
  path it stays), and an empty result is \<^verbatim>\<open>.\<close>. \<open>clean_path\<close> does this on
  the list of elements with a stack.
\<close>

type_synonym environment = "string \<rightharpoonup> string"

definition getenv :: "environment \<Rightarrow> string \<Rightarrow> string" where
  "getenv vars k = (case vars k of None \<Rightarrow> [] | Some v \<Rightarrow> v)"

definition setenv :: "environment \<Rightarrow> string \<Rightarrow> string \<Rightarrow> environment" where
  "setenv vars k v = vars(k \<mapsto> v)"

definition load_dotenv :: "sdk_error + environment \<Rightarrow> environment \<Rightarrow> sdk_error + environment" where
  "load_dotenv file vars = (case file of Inl err \<Rightarrow> Inl err | Inr kvs \<Rightarrow> Inr (kvs ++ vars))"

fun split_path :: "string \<Rightarrow> string list" where
  "split_path [] = [[]]"
| "split_path (c # cs) =
     (let ws = split_path cs in if c = CHR ''/'' then [] # ws else (c # hd ws) # tl ws)"

definition clean_step :: "bool \<Rightarrow> string list \<Rightarrow> string \<Rightarrow> string list" where
  "clean_step rooted stack e =
     (if e = [] \<or> e = ''.'' then stack
      else if e = ''..'' then
        (case stack of
           [] \<Rightarrow> if rooted then [] else [''..'']
         | x # st \<Rightarrow> if x = ''..'' then ''..'' # stack else st)
      else e # stack)"

definition clean_path :: "string \<Rightarrow> string" where
  "clean_path p =
     (let rooted = (take 1 p = ''/'');
          s = join_with ''/'' (rev (foldl (clean_step rooted) [] (split_path p)))
      in if rooted then ''/'' @ s else if s = [] then ''.'' else s)"

definition join_path :: "string list \<Rightarrow> string" where
  "join_path elems = (case dropWhile (\<lambda>e. e = []) elems of [] \<Rightarrow> [] | es \<Rightarrow> clean_path (join_with ''/'' es))"

definition private_key_path :: "string \<Rightarrow> string \<Rightarrow> string" where
  "private_key_path current_dir filename = join_path [current_dir, ''/config/'', filename]"

definition plain_elem :: "string \<Rightarrow> bool" where
  "plain_elem e \<longleftrightarrow> e \<noteq> [] \<and> e \<noteq> ''.'' \<and> e \<noteq> ''..'' \<and> CHR ''/'' \<notin> set e"

text \<open>Lines 19--36 of \<^verbatim>\<open>main\<close>: the environment the SDK's configuration provider reads, or the message of the \<^verbatim>\<open>log.Fatalf\<close> that ends the process.\<close>

definition startup_vars ::
  "sdk_error + environment \<Rightarrow> environment \<Rightarrow> string + string \<Rightarrow> string + environment"
where
  "startup_vars dotenv vars0 wd_result =
     (case load_dotenv dotenv vars0 of
        Inl err \<Rightarrow> Inl (''Error loading .env file: '' @ err)
      | Inr vars1 \<Rightarrow>
          (case wd_result of
             Inl err \<Rightarrow> Inl (''Error fetching working dir: '' @ err)
           | Inr current_dir \<Rightarrow>
               Inr (setenv vars1 ''OCI_CONFIG_private_key_path''
                 (private_key_path current_dir (getenv vars1 ''OCI_CONFIG_private_key_filename'')))))"

section \<open>Lemmas on paths\<close>

lemma split_path_ne: "split_path s \<noteq> []"
  by (induction s) (simp_all add: Let_def)

lemma split_path_word: "CHR ''/'' \<notin> set w \<Longrightarrow> split_path w = [w]"
  by (induction w) (auto simp: Let_def)

lemma split_path_slash: "split_path (xs @ CHR ''/'' # ys) = split_path xs @ split_path ys"
proof (induction xs)
  case (Cons c xs)
  then show ?case using split_path_ne [of xs] by (cases "split_path xs") (simp_all add: Let_def)
qed simp

lemma split_join: "\<forall>e\<in>set es. CHR ''/'' \<notin> set e \<Longrightarrow> es \<noteq> [] \<Longrightarrow> split_path (join_with ''/'' es) = es"
proof (induction es)
  case (Cons e es)
  then show ?case
    by (cases "es = []") (simp_all add: split_path_word join_with_Cons split_path_slash)
qed simp

lemma foldl_clean_filter:
  "\<forall>e\<in>set xs. e = [] \<or> plain_elem e \<Longrightarrow>
   foldl (clean_step r) st xs = rev (filter (\<lambda>e. e \<noteq> []) xs) @ st"
  by (induction xs arbitrary: st) (auto simp: clean_step_def plain_elem_def)

lemma split_join_plain:
  "list_all plain_elem ds \<Longrightarrow>
   (\<forall>e\<in>set (split_path (join_with ''/'' ds)). e = [] \<or> plain_elem e) \<and>
   filter (\<lambda>e. e \<noteq> []) (split_path (join_with ''/'' ds)) = ds"
proof (cases "ds = []")
  case False
  assume "list_all plain_elem ds"
  moreover then have "\<forall>e\<in>set ds. CHR ''/'' \<notin> set e" by (auto simp: list_all_iff plain_elem_def)
  ultimately show ?thesis using False by (auto simp: split_join list_all_iff plain_elem_def)
qed simp

lemma key_path_split:
  "CHR ''/'' \<notin> set name \<Longrightarrow>
   split_path (join_with ''/'' [''/'' @ join_with ''/'' ds, ''/config/'', name]) =
     [] # split_path (join_with ''/'' ds) @ [[], ''config'', [], name]"
  by (simp add: Let_def split_path_slash split_path_word)

lemma private_key_path_elems:
  assumes "list_all plain_elem ds" and "name = [] \<or> plain_elem name"
  shows "private_key_path (''/'' @ join_with ''/'' ds) name =
    ''/'' @ join_with ''/'' (ds @ [''config''] @ filter (\<lambda>e. e \<noteq> []) [name])"
proof -
  have n: "CHR ''/'' \<notin> set name" using assms(2) by (auto simp: plain_elem_def)
  have c: "plain_elem ''config''" by (simp add: plain_elem_def)
  note sj = split_join_plain [OF assms(1)]
  have "foldl (clean_step True) [] (split_path (join_with ''/'' [''/'' @ join_with ''/'' ds, ''/config/'', name])) =
      rev (ds @ [''config''] @ filter (\<lambda>e. e \<noteq> []) [name])"
    unfolding key_path_split [OF n] using sj assms(2) c
    by (subst foldl_clean_filter) auto
  then show ?thesis by (simp add: private_key_path_def join_path_def clean_path_def)
qed

section \<open>Properties of the start-up\<close>

text \<open>
  C26. With an absolute, clean working directory and a plain file name in
  \<^verbatim>\<open>OCI_CONFIG_private_key_filename\<close>, the private key path is the file of
  that name in the \<^verbatim>\<open>config\<close> directory under the working directory.
\<close>

theorem private_key_path_in_config:
  assumes "list_all plain_elem ds" and "plain_elem name"
  shows "private_key_path (''/'' @ join_with ''/'' ds) name = ''/'' @ join_with ''/'' (ds @ [''config'', name])"
  using private_key_path_elems [OF assms(1) disjI2 [OF assms(2)]] assms(2) by (simp add: plain_elem_def)

theorem private_key_path_in_config_witness:
  "private_key_path ''/app'' ''oci_api_key.pem'' = ''/app/config/oci_api_key.pem''"
  using private_key_path_in_config [of "[''app'']" "''oci_api_key.pem''"]
  by (simp add: plain_elem_def)

text \<open>
  C27. When \<^verbatim>\<open>OCI_CONFIG_private_key_filename\<close> is set neither in the process
  environment nor in \<^verbatim>\<open>.env\<close>, nothing reports it: the start-up succeeds and
  stores the \<^verbatim>\<open>config\<close> directory itself as the private key path
  (\<^verbatim>\<open>filepath.Join(currentDir, "/config/", "")\<close>, line 35).
\<close>

theorem private_key_path_unset:
  assumes "list_all plain_elem ds"
    and "vars0 ''OCI_CONFIG_private_key_filename'' = None"
    and "kvs ''OCI_CONFIG_private_key_filename'' = None"
  shows "\<exists>vars. startup_vars (Inr kvs) vars0 (Inr (''/'' @ join_with ''/'' ds)) = Inr vars \<and>
           vars ''OCI_CONFIG_private_key_path'' = Some (''/'' @ join_with ''/'' (ds @ [''config'']))"
proof -
  have "getenv (kvs ++ vars0) ''OCI_CONFIG_private_key_filename'' = []"
    using assms(2,3) by (simp add: getenv_def map_add_def)
  moreover have "private_key_path (''/'' @ join_with ''/'' ds) [] = ''/'' @ join_with ''/'' (ds @ [''config''])"
    using private_key_path_elems [OF assms(1), of "[]"] by simp
  ultimately show ?thesis by (simp add: startup_vars_def load_dotenv_def setenv_def)
qed

theorem private_key_path_unset_witness:
  "\<exists>vars. startup_vars (Inr Map.empty) Map.empty (Inr ''/app'') = Inr vars \<and>
     vars ''OCI_CONFIG_private_key_path'' = Some ''/app/config''"
  using private_key_path_unset [of "[''app'']" Map.empty Map.empty] by (simp add: plain_elem_def)

text \<open>
  C28. The variables the SDK reads after the start-up: the tenancy id is the
  process environment's \<^verbatim>\<open>OCI_CONFIG_tenancy_ocid\<close> when it is set, else the
  one of \<^verbatim>\<open>.env\<close>, else empty; the private key path is always the one
  \<^verbatim>\<open>main\<close> computes, whatever the environment or the file said, from the file
  name the environment gives, else the file.
\<close>

theorem startup_variables:
  assumes "startup_vars (Inr kvs) vars0 (Inr current_dir) = Inr vars"
  shows "getenv vars ''OCI_CONFIG_tenancy_ocid'' =
           (case vars0 ''OCI_CONFIG_tenancy_ocid'' of Some v \<Rightarrow> v
            | None \<Rightarrow> getenv kvs ''OCI_CONFIG_tenancy_ocid'') \<and>
         vars ''OCI_CONFIG_private_key_path'' =
           Some (private_key_path current_dir
             (case vars0 ''OCI_CONFIG_private_key_filename'' of Some v \<Rightarrow> v
              | None \<Rightarrow> getenv kvs ''OCI_CONFIG_private_key_filename''))"
  using assms
  by (auto simp: startup_vars_def load_dotenv_def setenv_def getenv_def map_add_def split: option.splits)

theorem startup_variables_witness:
  "\<exists>vars. startup_vars (Inr [''OCI_CONFIG_tenancy_ocid'' \<mapsto> ''ocid1.tenancy.file'',
                      ''OCI_CONFIG_private_key_filename'' \<mapsto> ''key.pem'',
                      ''OCI_CONFIG_private_key_path'' \<mapsto> ''/elsewhere/key.pem''])
       [''OCI_CONFIG_tenancy_ocid'' \<mapsto> ''ocid1.tenancy.env''] (Inr ''/app'') = Inr vars \<and>
     getenv vars ''OCI_CONFIG_tenancy_ocid'' = ''ocid1.tenancy.env'' \<and>
     vars ''OCI_CONFIG_private_key_path'' = Some ''/app/config/key.pem''"
proof -
  let ?kvs = "[''OCI_CONFIG_tenancy_ocid'' \<mapsto> ''ocid1.tenancy.file'',
               ''OCI_CONFIG_private_key_filename'' \<mapsto> ''key.pem'',
               ''OCI_CONFIG_private_key_path'' \<mapsto> ''/elsewhere/key.pem'']"
  let ?v0 = "[''OCI_CONFIG_tenancy_ocid'' \<mapsto> ''ocid1.tenancy.env'']"
  have "\<exists>vars. startup_vars (Inr ?kvs) ?v0 (Inr ''/app'') = Inr vars"
    by (simp add: startup_vars_def load_dotenv_def)
  then obtain vars where run: "startup_vars (Inr ?kvs) ?v0 (Inr ''/app'') = Inr vars" ..
  have p: "private_key_path ''/app'' ''key.pem'' = ''/app/config/key.pem''"
    by (simp add: private_key_path_def join_path_def clean_path_def clean_step_def)
  show ?thesis
    using run startup_variables [OF run] p by (simp add: getenv_def)
qed

end
