(* ===== verification/Report.thy ===== *)
theory Report
  imports Metrics Config
begin

text \<open>
  The report driver, \<^verbatim>\<open>main\<close> of \<^verbatim>\<open>src/main.go\<close>. It loads the settings,
  checks the configuration, and then runs seven sections in a fixed order
  (instances with the metrics of each running instance, load balancers,
  databases, buckets, availability domains, file systems with their snapshots per
  availability domain, billing), printing as it goes. Every error ends the
  process at once through \<^verbatim>\<open>log.Fatalf\<close>.

  The observable behaviour of a run is the list of lines printed and how the
  process ends. A run of a part of the driver has type \<open>'a run\<close>: \<open>None\<close> when it
  never returns (an enumeration that loops), otherwise the lines it printed and
  either the value it computed or the exit status that ended the process
  (\<open>Exit_fatal\<close> for \<^verbatim>\<open>log.Fatalf\<close>, exit status 1; \<open>Exit_panic\<close> for a runtime
  panic). \<open>bind_run\<close> sequences two parts: output accumulates, an exit stops
  everything after it. A printed line is kept as the call that printed it, the
  format string (without its trailing newline) and the arguments, so that which
  value is printed where is part of the model; the text \<^verbatim>\<open>fmt\<close> makes of
  each call is given by \<open>Format.render_line\<close>.

  The inputs of a run are the record \<open>env\<close>: what \<^verbatim>\<open>godotenv.Load\<close> reads
  from \<^verbatim>\<open>.env\<close> (or why it fails), the process environment, the outcome of
  \<^verbatim>\<open>os.Getwd\<close>, and, as functions of the environment the configuration
  provider reads, the remote side (\<open>sdk\<close>) and the verdict of
  \<^verbatim>\<open>IsConfigurationProviderValid\<close>; with the clock read by each metric
  query and the iteration order Go picks for each instance's query map. The
  sections run on a \<open>driver\<close>: the configuration provider, the tenancy id, the
  clock and the iteration order that \<^verbatim>\<open>main\<close> has set up.
\<close>

datatype fmt_arg =
    S string
  | F real
  | T sdk_time
  | Ptr_int int \<comment> \<open>a \<^verbatim>\<open>*int64\<close> passed to \<^verbatim>\<open>%d\<close>: fmt prints the pointer, not the value\<close>
  | Val_load_balancer load_balancer
  | Val_database db_system_summary
  | Val_bucket bucket_summary

datatype line = Println "fmt_arg list" | Printf string "fmt_arg list"

datatype exit_status = Exit_fatal string | Exit_panic string

type_synonym 'a run = "(line list \<times> (exit_status + 'a)) option"

record driver =
  tenancy_ocid :: ocid
  provider :: oci
  metric_clock :: "ocid \<Rightarrow> string \<Rightarrow> sdk_time"
  iteration_order :: "ocid \<Rightarrow> map_order"

record env =
  dotenv_file :: "sdk_error + environment"
  process_env :: environment
  getwd_result :: "string + string"
  sdk :: "environment \<Rightarrow> oci"
  config_valid_for :: "environment \<Rightarrow> bool"
  run_clock :: "ocid \<Rightarrow> string \<Rightarrow> sdk_time"
  run_order :: "ocid \<Rightarrow> map_order"

section \<open>Sequencing\<close>

definition ret :: "'a \<Rightarrow> 'a run" where
  "ret x = Some ([], Inr x)"

definition emit :: "line list \<Rightarrow> unit run" where
  "emit ls = Some (ls, Inr ())"

definition fatal :: "string \<Rightarrow> 'a run" where
  "fatal msg = Some ([], Inl (Exit_fatal msg))"

definition bind_run :: "'a run \<Rightarrow> ('a \<Rightarrow> 'b run) \<Rightarrow> 'b run" where
  "bind_run m f =
     (case m of
        None \<Rightarrow> None
      | Some (out, Inl s) \<Rightarrow> Some (out, Inl s)
      | Some (out, Inr x) \<Rightarrow> (case f x of None \<Rightarrow> None | Some (out', r) \<Rightarrow> Some (out @ out', r)))"

text \<open>
  \<^verbatim>\<open>if err != nil { log.Fatalf("<context>%v", err) }\<close> after a call of the
  functions package. A \<^verbatim>\<open>log.Fatalf\<close> or a panic inside the call has already
  ended the process and passes through unchanged.
\<close>

definition check_err :: "string \<Rightarrow> (failure + 'a) option \<Rightarrow> 'a run" where
  "check_err ctx r =
     (case r of
        None \<Rightarrow> None
      | Some (Inr x) \<Rightarrow> ret x
      | Some (Inl (Api_error err)) \<Rightarrow> fatal (ctx @ err)
      | Some (Inl (Fatal msg)) \<Rightarrow> fatal msg
      | Some (Inl (Panic msg)) \<Rightarrow> Some ([], Inl (Exit_panic msg)))"

primrec for_each :: "('a \<Rightarrow> unit run) \<Rightarrow> 'a list \<Rightarrow> unit run" where
  "for_each f [] = ret ()"
| "for_each f (x # xs) = bind_run (f x) (\<lambda>_. for_each f xs)"

section \<open>Sections of the report\<close>

definition instance_lines :: "compute_instance \<Rightarrow> line list" where
  "instance_lines i =
     [Printf ''  Name: %s, Shape: %s, State: %s''
        [S (instance_display_name i), S (instance_shape i), S (instance_lifecycle_state i)],
      Printf ''    Shape Details:'' [],
      Printf ''      Processor: %s'' [S (processor_description (shape_config i))],
      Printf ''      Cores: %.0f'' [F (ocpus (shape_config i))],
      Printf ''      Memory: %.0f Gb'' [F (memory_in_gbs (shape_config i))]]"

text \<open>Reading a Go map at a missing key gives the zero value.\<close>

definition metric_of :: "metrics \<Rightarrow> string \<Rightarrow> real" where
  "metric_of ms k = (case ms k of None \<Rightarrow> 0 | Some v \<Rightarrow> v)"

definition metric_lines :: "metrics \<Rightarrow> line list" where
  "metric_lines ms =
     [Printf ''    Metrics:'' [],
      Printf ''      CpuUtilization: %.2f %%'' [F (metric_of ms ''CpuUtilization'')],
      Printf ''      MemoryUtilization: %.2f %%'' [F (metric_of ms ''MemoryUtilization'')],
      Printf ''      DiskBytesRead: %f Mb'' [F (metric_of ms ''DiskBytesRead'' / (1024 * 1024))],
      Printf ''      DiskBytesWritten: %f Mb'' [F (metric_of ms ''DiskBytesWritten'' / (1024 * 1024))]]"

definition report_instance :: "driver \<Rightarrow> compute_instance \<Rightarrow> unit run" where
  "report_instance e i =
     bind_run (emit (instance_lines i)) (\<lambda>_.
       if instance_lifecycle_state i = ''RUNNING'' then
         bind_run (check_err (''Error fetching instance '' @ instance_display_name i @ '' metrics: '')
             (Some (get_instance_metrics (provider e) (tenancy_ocid e) (metric_clock e (instance_id i))
                (iteration_order e (instance_id i)) (instance_id i))))
           (\<lambda>ms. emit (metric_lines ms))
       else ret ())"

definition report_instances :: "driver \<Rightarrow> unit run" where
  "report_instances e =
     bind_run (emit [Println [S ''Instances:'']]) (\<lambda>_.
       bind_run (check_err ''Error fetching instances: '' (list_all_instances (provider e) (tenancy_ocid e)))
         (for_each (report_instance e)))"

definition report_load_balancers :: "driver \<Rightarrow> unit run" where
  "report_load_balancers e =
     bind_run (emit [Println [S ''Load Balancers:'']]) (\<lambda>_.
       bind_run (check_err ''Error fetching Load Balancers: ''
           (list_all_load_balancers (provider e) (tenancy_ocid e)))
         (for_each (\<lambda>lb. emit [Println [Val_load_balancer lb],
            Printf ''  Name: %s, Shape: %s, State: %s''
              [S (lb_display_name lb), S (lb_shape_name lb), S (lb_lifecycle_state lb)]])))"

definition report_databases :: "driver \<Rightarrow> unit run" where
  "report_databases e =
     bind_run (emit [Println [S ''Databases:'']]) (\<lambda>_.
       bind_run (check_err ''Error fetching Databases: '' (list_all_databases (provider e) (tenancy_ocid e)))
         (for_each (\<lambda>db. emit [Println [Val_database db],
            Printf ''  Name: %s, DB: %s, State: %s''
              [S (db_display_name db), S (database_edition db), S (db_lifecycle_state db)]])))"

definition report_buckets :: "driver \<Rightarrow> unit run" where
  "report_buckets e =
     bind_run (emit [Println [S ''Buckets:'']]) (\<lambda>_.
       bind_run (check_err ''Error fetching Buckets: '' (list_all_buckets (provider e) (tenancy_ocid e)))
         (for_each (\<lambda>b. emit [Println [Val_bucket b],
            Printf ''  Name: %s, Created by: %s, Creation Date: %s''
              [S (bucket_name b), S (created_by b), T (bucket_time_created b)]])))"

definition report_availability_domains :: "driver \<Rightarrow> availability_domain list run" where
  "report_availability_domains e =
     bind_run (emit [Println [S ''Availability Domains:'']]) (\<lambda>_.
       bind_run (check_err ''Error fetching Buckets: ''
           (list_availability_domains_fn (provider e) (tenancy_ocid e))) (\<lambda>ads.
         bind_run (for_each (\<lambda>ad. emit [Printf ''  Name: %s, ID: %s'' [S (ad_name ad), S (ad_id ad)]]) ads)
           (\<lambda>_. ret ads)))"

definition report_file_system :: "driver \<Rightarrow> availability_domain \<Rightarrow> file_system_summary \<Rightarrow> unit run" where
  "report_file_system e ad fs =
     bind_run (emit [Printf ''  Name: %s, Size: %d Bytes, Availability Domain: %s, State: %s''
         [S (fs_display_name fs), Ptr_int (metered_bytes fs), S (ad_name ad), S (fs_lifecycle_state fs)]]) (\<lambda>_.
       bind_run (check_err (''Error fetching File System ('' @ fs_id fs @ '') snapshots: '')
           (list_file_storage_snapshots (provider e) (fs_id fs))) (\<lambda>snapshots.
         bind_run (emit [Println [S ''    Snapshots:'']]) (\<lambda>_.
           for_each (\<lambda>sn. emit [Printf ''  Name: %s, Creation Date: %s Bytes, State: %s''
               [S (snapshot_name sn), T (snapshot_time_created sn), S (snapshot_lifecycle_state sn)]])
             snapshots)))"

definition report_file_systems :: "driver \<Rightarrow> availability_domain list \<Rightarrow> unit run" where
  "report_file_systems e ads =
     bind_run (emit [Println [S ''File Systems:'']]) (\<lambda>_.
       for_each (\<lambda>ad.
           bind_run (check_err ''Error fetching File Systems: ''
               (list_all_file_systems (provider e) (tenancy_ocid e) (ad_name ad)))
             (for_each (report_file_system e ad)))
         ads)"

text \<open>\<^verbatim>\<open>time.Date(2024, time.May, 01, ...)\<close> and \<^verbatim>\<open>time.Date(2024, time.May, 31, ...)\<close>, UTC.\<close>

definition billing_start :: sdk_time where
  "billing_start = 1714521600 * 1000000000"

definition billing_end :: sdk_time where
  "billing_end = 1717113600 * 1000000000"

definition report_billing :: "driver \<Rightarrow> unit run" where
  "report_billing e =
     bind_run (emit [Println [S ''Billing:'']]) (\<lambda>_.
       bind_run (check_err ''Error fetching Buckets: ''
           (get_billing_report (provider e) (tenancy_ocid e) billing_start billing_end))
         (for_each (\<lambda>u. emit [Printf ''   Date: %s, Comp. Qty: %f''
            [T (usage_time_started u), F (computed_quantity u)]])))"

definition report :: "driver \<Rightarrow> unit run" where
  "report e =
     bind_run (report_instances e) (\<lambda>_.
     bind_run (report_load_balancers e) (\<lambda>_.
     bind_run (report_databases e) (\<lambda>_.
     bind_run (report_buckets e) (\<lambda>_.
     bind_run (report_availability_domains e) (\<lambda>ads.
     bind_run (report_file_systems e ads) (\<lambda>_.
     report_billing e))))))"

text \<open>
  The else branch of \<^verbatim>\<open>if isConfigValid\<close> calls \<^verbatim>\<open>log.Fatalf\<close> first, so the
  diagnostic lines after it are never printed.
\<close>

text \<open>
  Lines 39--46: the configuration provider is built from the environment and the
  tenancy id is read from it.
\<close>

definition driver_of :: "env \<Rightarrow> environment \<Rightarrow> driver" where
  "driver_of e vars =
     \<lparr>tenancy_ocid = getenv vars ''OCI_CONFIG_tenancy_ocid'', provider = sdk e vars,
      metric_clock = run_clock e, iteration_order = run_order e\<rparr>"

definition main :: "env \<Rightarrow> unit run" where
  "main e =
     (case startup_vars (dotenv_file e) (process_env e) (getwd_result e) of
        Inl msg \<Rightarrow> fatal msg
      | Inr vars \<Rightarrow>
          if config_valid_for e vars then report (driver_of e vars)
          else fatal ''Error: Config file not valid'')"

section \<open>Laws of the sequencing\<close>

lemma bind_run_ret [simp]: "bind_run (ret x) f = f x"
  by (simp add: bind_run_def ret_def split: option.splits)

lemma bind_run_Some_Inl [simp]: "bind_run (Some (out, Inl s)) f = Some (out, Inl s)"
  by (simp add: bind_run_def)

lemma bind_run_Some_Inr [simp]:
  "bind_run (Some (out, Inr x)) f = (case f x of None \<Rightarrow> None | Some (out', r) \<Rightarrow> Some (out @ out', r))"
  by (simp add: bind_run_def)

lemma bind_run_None [simp]: "bind_run None f = None"
  by (simp add: bind_run_def)

lemma bind_run_fatal [simp]: "bind_run (fatal msg) f = fatal msg"
  by (simp add: fatal_def)

lemma bind_run_assoc: "bind_run (bind_run m f) g = bind_run m (\<lambda>x. bind_run (f x) g)"
  by (auto simp: bind_run_def split: option.splits sum.splits)

lemma emit_Some [simp]: "emit ls = Some (ls, Inr ())"
  by (simp add: emit_def)

lemma ret_Some [simp]: "ret x = Some ([], Inr x)"
  by (simp add: ret_def)

lemma check_err_simps [simp]:
  "check_err ctx None = None"
  "check_err ctx (Some (Inr x)) = Some ([], Inr x)"
  "check_err ctx (Some (Inl (Api_error err))) = fatal (ctx @ err)"
  "check_err ctx (Some (Inl (Fatal msg))) = fatal msg"
  "check_err ctx (Some (Inl (Panic msg))) = Some ([], Inl (Exit_panic msg))"
  by (simp_all add: check_err_def)

lemmas report_section_defs =
  report_instances_def report_load_balancers_def report_databases_def report_buckets_def
  report_availability_domains_def report_file_systems_def report_billing_def

section \<open>Claims on the report driver\<close>

text \<open>
  C14 (functional). A running instance is printed with its name, shape, state and
  shape details, followed by its four metrics as \<^verbatim>\<open>GetInstanceMetrics\<close> returned
  them (disk bytes converted to MiB, a missing metric read as 0).
\<close>

theorem running_instance_reported:
  assumes "instance_lifecycle_state i = ''RUNNING''"
    and "get_instance_metrics (provider e) (tenancy_ocid e) (metric_clock e (instance_id i))
           (iteration_order e (instance_id i)) (instance_id i) = Inr ms"
  shows "report_instance e i = Some (instance_lines i @ metric_lines ms, Inr ())"
  using assms by (simp add: report_instance_def)

theorem running_instance_reported_witness:
  "report_instance
     \<lparr>tenancy_ocid = ''ocid1.tenancy'',
      provider = quiet_oci\<lparr>summarize_metrics_data := (\<lambda>_. Inr [series [85 / 2]])\<rparr>,
      metric_clock = (\<lambda>_ _. 0), iteration_order = (\<lambda>_. id)\<rparr>
     (test_instance ''ocid1.instance'' ''web-1'' ''RUNNING'') =
   Some (instance_lines (test_instance ''ocid1.instance'' ''web-1'' ''RUNNING'') @
         metric_lines [''CpuUtilization'' \<mapsto> 85 / 2, ''MemoryUtilization'' \<mapsto> 85 / 2,
                       ''DiskBytesRead'' \<mapsto> 85 / 2, ''DiskBytesWritten'' \<mapsto> 85 / 2], Inr ())"
  by (rule running_instance_reported)
    (simp_all add: test_instance_def get_instance_metrics_def metric_queries_def quiet_oci_def
      series_def Let_def)

text \<open>
  C15 (safety). Metrics are fetched for running instances only: an instance in any
  other state is printed without metrics, and the monitoring service is not called
  for it.
\<close>

theorem stopped_instance_no_metrics:
  assumes "instance_lifecycle_state i \<noteq> ''RUNNING''"
  shows "report_instance e i = Some (instance_lines i, Inr ()) \<and>
         report_instance (e\<lparr>provider := (provider e)\<lparr>summarize_metrics_data := f\<rparr>\<rparr>) i = report_instance e i"
  using assms by (simp add: report_instance_def)

theorem stopped_instance_no_metrics_witness:
  "report_instance
     \<lparr>tenancy_ocid = ''ocid1.tenancy'',
      provider = quiet_oci, metric_clock = (\<lambda>_ _. 0), iteration_order = (\<lambda>_. id)\<rparr>
     (test_instance ''ocid1.instance'' ''db-1'' ''STOPPED'') =
   Some (instance_lines (test_instance ''ocid1.instance'' ''db-1'' ''STOPPED''), Inr ())"
  using stopped_instance_no_metrics [of "test_instance ''ocid1.instance'' ''db-1'' ''STOPPED''"]
  by (simp add: test_instance_def)

lemma paginate_first_fails: "call r = Inl err \<Longrightarrow> paginate call r acc = Some (Inl err)"
  by (simp add: paginate.simps)

lemma for_each_emit_all:
  "(\<And>x. x \<in> set xs \<Longrightarrow> f x = Some (g x, Inr ())) \<Longrightarrow> for_each f xs = Some (concat (map g xs), Inr ())"
  by (induction xs) auto

lemma report_instance_emit:
  assumes "instance_lifecycle_state i = ''RUNNING'' \<longrightarrow>
    get_instance_metrics (provider e) (tenancy_ocid e) (metric_clock e (instance_id i))
      (iteration_order e (instance_id i)) (instance_id i) = Inr ms"
  shows "report_instance e i =
    Some (instance_lines i @ (if instance_lifecycle_state i = ''RUNNING'' then metric_lines ms else []), Inr ())"
  using assms by (auto simp: report_instance_def)

lemma report_file_system_emit:
  "list_file_storage_snapshots (provider e) (fs_id fs) = Some (Inr sns) \<Longrightarrow>
   report_file_system e ad fs = Some (
     Printf ''  Name: %s, Size: %d Bytes, Availability Domain: %s, State: %s''
       [S (fs_display_name fs), Ptr_int (metered_bytes fs), S (ad_name ad), S (fs_lifecycle_state fs)] #
     Println [S ''    Snapshots:''] #
     map (\<lambda>sn. Printf ''  Name: %s, Creation Date: %s Bytes, State: %s''
       [S (snapshot_name sn), T (snapshot_time_created sn), S (snapshot_lifecycle_state sn)]) sns, Inr ())"
  by (simp add: report_file_system_def for_each_emit_all)

lemma report_file_systems_emit:
  "(\<And>ad. ad \<in> set ads \<Longrightarrow> list_all_file_systems (provider e) (tenancy_ocid e) (ad_name ad) = Some (Inr (fss ad))) \<Longrightarrow>
   (\<And>ad fs. ad \<in> set ads \<Longrightarrow> fs \<in> set (fss ad) \<Longrightarrow> report_file_system e ad fs = Some (g ad fs, Inr ())) \<Longrightarrow>
   report_file_systems e ads =
     Some (Println [S ''File Systems:''] # concat (map (\<lambda>ad. concat (map (g ad) (fss ad))) ads), Inr ())"
  unfolding report_file_systems_def by (simp add: for_each_emit_all)

text \<open>
  C16 (safety). A failed load-balancer listing ends the run: after the instances
  section and the load-balancer header, the process exits with a message naming
  load balancers, and no later section runs, whatever the database, bucket,
  availability-domain, file-storage and usage endpoints would answer.
\<close>

theorem load_balancer_failure_stops:
  assumes "startup_vars (dotenv_file e) (process_env e) (getwd_result e) = Inr vars"
    and "config_valid_for e vars"
    and "report_instances (driver_of e vars) = Some (out, Inr ())"
    and "new_client (sdk e vars) Load_balancing = None"
    and "list_load_balancers (sdk e vars)
           \<lparr>page = None, compartment_id = getenv vars ''OCI_CONFIG_tenancy_ocid''\<rparr> = Inl err"
  shows "main e = Some (out @ [Println [S ''Load Balancers:'']],
                        Inl (Exit_fatal (''Error fetching Load Balancers: '' @ err)))"
proof -
  from assms(4,5) have "report_load_balancers (driver_of e vars) =
      Some ([Println [S ''Load Balancers:'']], Inl (Exit_fatal (''Error fetching Load Balancers: '' @ err)))"
    by (simp add: report_load_balancers_def list_all_load_balancers_def driver_of_def
        paginate_first_fails fatal_def)
  with assms(1-3) show ?thesis by (simp add: main_def report_def)
qed

theorem load_balancer_failure_stops_witness:
  "main \<lparr>dotenv_file = Inr [''OCI_CONFIG_tenancy_ocid'' \<mapsto> ''ocid1.tenancy''], process_env = Map.empty,
         getwd_result = Inr ''/app'',
         sdk = (\<lambda>_. quiet_oci\<lparr>list_load_balancers := (\<lambda>_. Inl ''NotAuthorizedOrNotFound'')\<rparr>),
         config_valid_for = (\<lambda>_. True), run_clock = (\<lambda>_ _. 0), run_order = (\<lambda>_. id)\<rparr> =
   Some ([Println [S ''Instances:''], Println [S ''Load Balancers:'']],
         Inl (Exit_fatal ''Error fetching Load Balancers: NotAuthorizedOrNotFound''))"
proof -
  let ?e = "\<lparr>dotenv_file = Inr [''OCI_CONFIG_tenancy_ocid'' \<mapsto> ''ocid1.tenancy''], process_env = Map.empty,
         getwd_result = Inr ''/app'',
         sdk = (\<lambda>_. quiet_oci\<lparr>list_load_balancers := (\<lambda>_. Inl ''NotAuthorizedOrNotFound'')\<rparr>),
         config_valid_for = (\<lambda>_. True), run_clock = (\<lambda>_ _. 0), run_order = (\<lambda>_. id)\<rparr>"
  have "\<exists>vars. startup_vars (dotenv_file ?e) (process_env ?e) (getwd_result ?e) = Inr vars"
    by (simp add: startup_vars_def load_dotenv_def)
  then obtain vars where v: "startup_vars (dotenv_file ?e) (process_env ?e) (getwd_result ?e) = Inr vars" ..
  have "report_instances (driver_of ?e vars) = Some ([Println [S ''Instances:'']], Inr ())"
    by (simp add: report_instances_def list_all_instances_def driver_of_def quiet_oci_def empty_page_def
        paginate.simps)
  from load_balancer_failure_stops [OF v _ this] show ?thesis by (simp add: quiet_oci_def)
qed

text \<open>
  C17 (error). A startup failure (the settings file cannot be loaded, the working
  directory cannot be read, or the configuration is invalid) ends the process with
  a fatal message before any remote call and before anything is printed on
  standard output; in particular the diagnostic dump of the configuration that
  follows \<^verbatim>\<open>log.Fatalf("Error: Config file not valid")\<close> is never printed.
\<close>

theorem startup_failure_no_report:
  assumes "isl (startup_vars (dotenv_file e) (process_env e) (getwd_result e)) \<or>
    (\<exists>vars. startup_vars (dotenv_file e) (process_env e) (getwd_result e) = Inr vars \<and>
      \<not> config_valid_for e vars)"
  shows "\<exists>msg. main e = Some ([], Inl (Exit_fatal msg)) \<and> main (e\<lparr>sdk := s\<rparr>) = main e"
  using assms by (auto simp: main_def fatal_def split: sum.splits)

theorem startup_failure_no_report_witness:
  "main \<lparr>dotenv_file = Inl ''open .env: no such file or directory'', process_env = Map.empty,
         getwd_result = Inr ''/app'', sdk = (\<lambda>_. quiet_oci), config_valid_for = (\<lambda>_. True),
         run_clock = (\<lambda>_ _. 0), run_order = (\<lambda>_. id)\<rparr> =
   Some ([], Inl (Exit_fatal ''Error loading .env file: open .env: no such file or directory''))"
proof -
  let ?e = "\<lparr>dotenv_file = Inl ''open .env: no such file or directory'', process_env = Map.empty,
         getwd_result = Inr ''/app'', sdk = (\<lambda>_. quiet_oci), config_valid_for = (\<lambda>_. True),
         run_clock = (\<lambda>_ _. 0), run_order = (\<lambda>_. id)\<rparr>"
  have "isl (startup_vars (dotenv_file ?e) (process_env ?e) (getwd_result ?e))"
    by (simp add: startup_vars_def load_dotenv_def)
  from startup_failure_no_report [of ?e, OF disjI1 [OF this]] obtain msg
    where "main ?e = Some ([], Inl (Exit_fatal msg))" by auto
  moreover have "main ?e = fatal ''Error loading .env file: open .env: no such file or directory''"
    by (simp add: main_def startup_vars_def load_dotenv_def)
  ultimately show ?thesis by (simp add: fatal_def)
qed

text \<open>
  C18 (error). A failed availability-domain listing and a failed billing report are
  both reported as \<^verbatim>\<open>Error fetching Buckets\<close>: the message names the wrong step,
  where the spec requires the failing step to be named.
\<close>

theorem mislabelled_fetch_errors:
  assumes "new_client (provider e) Identity = None"
    and "list_availability_domains (provider e) \<lparr>page = None, compartment_id = tenancy_ocid e\<rparr> = Inl err1"
    and "new_client (provider e) Usage_api = None"
    and "request_summarized_usages (provider e)
           \<lparr>page = None, tenant_id = tenancy_ocid e, time_usage_started = billing_start,
            time_usage_ended = billing_end, usage_granularity = Daily\<rparr> = Inl err2"
  shows "report_availability_domains e =
           Some ([Println [S ''Availability Domains:'']], Inl (Exit_fatal (''Error fetching Buckets: '' @ err1))) \<and>
         report_billing e =
           Some ([Println [S ''Billing:'']], Inl (Exit_fatal (''Error fetching Buckets: '' @ err2)))"
  using assms
  by (simp add: report_availability_domains_def list_availability_domains_fn_def
      availability_domains_loop.simps report_billing_def get_billing_report_def paginate_first_fails
      fatal_def)

theorem mislabelled_fetch_errors_witness:
  "report_availability_domains
     \<lparr>tenancy_ocid = ''ocid1.tenancy'',
      provider = quiet_oci\<lparr>list_availability_domains := (\<lambda>_. Inl ''InternalServerError''),
                           request_summarized_usages := (\<lambda>_. Inl ''InternalServerError'')\<rparr>,
      metric_clock = (\<lambda>_ _. 0), iteration_order = (\<lambda>_. id)\<rparr> =
   Some ([Println [S ''Availability Domains:'']], Inl (Exit_fatal ''Error fetching Buckets: InternalServerError''))"
  using mislabelled_fetch_errors
      [of "\<lparr>tenancy_ocid = ''ocid1.tenancy'',
      provider = quiet_oci\<lparr>list_availability_domains := (\<lambda>_. Inl ''InternalServerError''),
                           request_summarized_usages := (\<lambda>_. Inl ''InternalServerError'')\<rparr>,
      metric_clock = (\<lambda>_ _. 0), iteration_order = (\<lambda>_. id)\<rparr>" "''InternalServerError''" "''InternalServerError''"]
  by (simp add: quiet_oci_def)

text \<open>
  C19 (functional). The instances section prints its header, then every listed
  instance in listing order: its description, followed, for a running instance, by
  the metrics returned for it.
\<close>

theorem report_instances_output:
  assumes "list_all_instances (provider e) (tenancy_ocid e) = Some (Inr xs)"
    and "\<forall>i \<in> set xs. instance_lifecycle_state i = ''RUNNING'' \<longrightarrow>
           get_instance_metrics (provider e) (tenancy_ocid e) (metric_clock e (instance_id i))
             (iteration_order e (instance_id i)) (instance_id i) = Inr (ms i)"
  shows "report_instances e =
           Some (Println [S ''Instances:''] #
                 concat (map (\<lambda>i. instance_lines i @
                   (if instance_lifecycle_state i = ''RUNNING'' then metric_lines (ms i) else [])) xs),
                 Inr ())"
proof -
  have "for_each (report_instance e) xs =
      Some (concat (map (\<lambda>i. instance_lines i @
        (if instance_lifecycle_state i = ''RUNNING'' then metric_lines (ms i) else [])) xs), Inr ())"
    using assms(2) by (intro for_each_emit_all report_instance_emit) auto
  with assms(1) show ?thesis by (simp add: report_instances_def)
qed

theorem report_instances_output_witness:
  \<open>report_instances
     \<lparr>tenancy_ocid = ''ocid1.tenancy'',
      provider = quiet_oci\<lparr>list_instances := paged_source [''p0''] [[test_instance ''ocid1.instance'' ''web-1'' ''RUNNING'']],
        summarize_metrics_data := (\<lambda>req.
          if metric_query_text req = ''CpuUtilization[1m]{resourceID =~ "ocid1.instance"}.max()''
          then Inr [series [85 / 2]] else Inr [series [0]])\<rparr>,
      metric_clock = (\<lambda>_ _. 0), iteration_order = (\<lambda>_. id)\<rparr> =
   Some ([Println [S ''Instances:'']] @ instance_lines (test_instance ''ocid1.instance'' ''web-1'' ''RUNNING'') @
         metric_lines [''CpuUtilization'' \<mapsto> 85 / 2, ''MemoryUtilization'' \<mapsto> 0,
                       ''DiskBytesRead'' \<mapsto> 0, ''DiskBytesWritten'' \<mapsto> 0], Inr ())\<close>
proof -
  let ?i = "test_instance ''ocid1.instance'' ''web-1'' ''RUNNING''"
  let ?ms = "[''CpuUtilization'' \<mapsto> 85 / 2, ''MemoryUtilization'' \<mapsto> 0,
              ''DiskBytesRead'' \<mapsto> 0, ''DiskBytesWritten'' \<mapsto> (0 :: real)]"
  let ?p = \<open>quiet_oci\<lparr>list_instances := paged_source [''p0''] [[?i]],
        summarize_metrics_data := (\<lambda>req.
          if metric_query_text req = ''CpuUtilization[1m]{resourceID =~ "ocid1.instance"}.max()''
          then Inr [series [85 / 2]] else Inr [series [0]])\<rparr>\<close>
  let ?e = "\<lparr>tenancy_ocid = ''ocid1.tenancy'', provider = ?p,
      metric_clock = (\<lambda>_ _. 0), iteration_order = (\<lambda>_. id)\<rparr>"
  have l: "list_all_instances (provider ?e) (tenancy_ocid ?e) = Some (Inr [?i])"
    by (simp add: list_all_instances_def quiet_oci_def paginate.simps paged_source_def)
  have m: "get_instance_metrics (provider ?e) (tenancy_ocid ?e) (metric_clock ?e (instance_id ?i))
      (iteration_order ?e (instance_id ?i)) (instance_id ?i) = Inr ?ms"
    by (simp add: get_instance_metrics_def metric_queries_def metrics_request_def quiet_oci_def
        series_def test_instance_def Let_def fun_upd_twist)
  have r: "instance_lifecycle_state ?i = ''RUNNING''" by (simp add: test_instance_def)
  from report_instances_output [OF l, of "\<lambda>_. ?ms"] m r show ?thesis by simp
qed

text \<open>
  C29. The file-system section prints, for each availability domain in turn and
  each of its file systems in the order listed, the file-system line, the
  \<^verbatim>\<open>Snapshots:\<close> header and one line per snapshot of that file system:
  the loops of lines 131--150 nest as the source nests them.
\<close>

theorem report_file_systems_output:
  assumes "\<forall>ad \<in> set ads. list_all_file_systems (provider e) (tenancy_ocid e) (ad_name ad) = Some (Inr (fss ad))"
    and "\<forall>ad \<in> set ads. \<forall>fs \<in> set (fss ad).
           list_file_storage_snapshots (provider e) (fs_id fs) = Some (Inr (sns fs))"
  shows "report_file_systems e ads =
           Some (Println [S ''File Systems:''] #
                 concat (map (\<lambda>ad. concat (map (\<lambda>fs.
                   Printf ''  Name: %s, Size: %d Bytes, Availability Domain: %s, State: %s''
                     [S (fs_display_name fs), Ptr_int (metered_bytes fs), S (ad_name ad), S (fs_lifecycle_state fs)] #
                   Println [S ''    Snapshots:''] #
                   map (\<lambda>sn. Printf ''  Name: %s, Creation Date: %s Bytes, State: %s''
                     [S (snapshot_name sn), T (snapshot_time_created sn), S (snapshot_lifecycle_state sn)]) (sns fs))
                   (fss ad))) ads),
                 Inr ())"
  using assms by (intro report_file_systems_emit report_file_system_emit) auto

theorem report_file_systems_output_witness:
  "report_file_systems
     \<lparr>tenancy_ocid = ''ocid1.tenancy'',
      provider = quiet_oci\<lparr>list_file_systems := paged_source [''p0''] [[test_fs]],
                           list_snapshots := paged_source [''p0''] [[test_snapshot]]\<rparr>,
      metric_clock = (\<lambda>_ _. 0), iteration_order = (\<lambda>_. id)\<rparr> [test_ad] =
   Some ([Println [S ''File Systems:''],
          Printf ''  Name: %s, Size: %d Bytes, Availability Domain: %s, State: %s''
            [S ''share'', Ptr_int 4096, S ''AD-1'', S ''ACTIVE''],
          Println [S ''    Snapshots:''],
          Printf ''  Name: %s, Creation Date: %s Bytes, State: %s''
            [S ''nightly'', T 0, S ''ACTIVE'']], Inr ())"
proof -
  let ?p = "quiet_oci\<lparr>list_file_systems := paged_source [''p0''] [[test_fs]],
                      list_snapshots := paged_source [''p0''] [[test_snapshot]]\<rparr>"
  let ?e = "\<lparr>tenancy_ocid = ''ocid1.tenancy'', provider = ?p,
      metric_clock = (\<lambda>_ _. 0), iteration_order = (\<lambda>_. id)\<rparr>"
  have f: "list_all_file_systems (provider ?e) (tenancy_ocid ?e) (ad_name test_ad) = Some (Inr [test_fs])"
    by (simp add: list_all_file_systems_def quiet_oci_def paginate.simps paged_source_def)
  have s: "list_file_storage_snapshots (provider ?e) (fs_id test_fs) = Some (Inr [test_snapshot])"
    by (simp add: list_file_storage_snapshots_def quiet_oci_def paginate.simps paged_source_def)
  from report_file_systems_output [of "[test_ad]" ?e "\<lambda>_. [test_fs]" "\<lambda>_. [test_snapshot]"] f s
  show ?thesis by (simp add: test_ad_def test_fs_def test_snapshot_def)
qed

text \<open>
  C31. A failure to create the Identity, Database or File Storage client ends the
  run with \<^verbatim>\<open>log.Fatalf\<close> inside the functions package, under the message
  \<^verbatim>\<open>Error creating Object Storage client\<close> whatever the client was; \<^verbatim>\<open>main\<close>'s
  own error check never runs, so the section header is the last line printed.
\<close>

theorem client_failure_mislabelled:
  assumes "new_client (provider e) Identity = Some err1"
    and "new_client (provider e) Database = Some err2"
    and "new_client (provider e) File_storage = Some err3"
  shows "report_availability_domains e =
           Some ([Println [S ''Availability Domains:'']],
                 Inl (Exit_fatal (''Error creating Object Storage client: '' @ err1))) \<and>
         report_databases e =
           Some ([Println [S ''Databases:'']], Inl (Exit_fatal (''Error creating Object Storage client: '' @ err2))) \<and>
         report_file_systems e (ad # ads) =
           Some ([Println [S ''File Systems:'']], Inl (Exit_fatal (''Error creating Object Storage client: '' @ err3)))"
  using assms
  by (simp add: report_availability_domains_def list_availability_domains_fn_def report_databases_def
      list_all_databases_def report_file_systems_def list_all_file_systems_def fatal_def)

theorem client_failure_mislabelled_witness:
  "report_databases
     \<lparr>tenancy_ocid = ''ocid1.tenancy'', provider = quiet_oci\<lparr>new_client := (\<lambda>_. Some ''no such host'')\<rparr>,
      metric_clock = (\<lambda>_ _. 0), iteration_order = (\<lambda>_. id)\<rparr> =
   Some ([Println [S ''Databases:'']], Inl (Exit_fatal ''Error creating Object Storage client: no such host''))"
  using client_failure_mislabelled
      [of "\<lparr>tenancy_ocid = ''ocid1.tenancy'', provider = quiet_oci\<lparr>new_client := (\<lambda>_. Some ''no such host'')\<rparr>,
      metric_clock = (\<lambda>_ _. 0), iteration_order = (\<lambda>_. id)\<rparr>" "''no such host''" "''no such host''" "''no such host''"]
  by simp

end
