(* ===== verification/Run_Laws.thy ===== *)
theory Run_Laws
  imports Report
begin

text \<open>
  Laws of the runs of the report driver that the properties of the whole program
  and of its printed output share: \<open>run_lines P m\<close> says that every line a
  run prints satisfies \<open>P\<close>, with one introduction rule per way of composing a
  run; a completed run of \<^verbatim>\<open>main\<close> splits into completed runs of its seven
  sections; and a run returns (is not \<open>None\<close>) when each listing it issues
  reaches a last page, stated by \<open>provider_ends\<close>. The environment
  \<open>quiet_env\<close> is a concrete run of the program on the provider \<open>quiet_oci\<close>.
\<close>

definition run_lines :: "(line \<Rightarrow> bool) \<Rightarrow> 'a run \<Rightarrow> bool" where
  "run_lines P m = (case m of None \<Rightarrow> True | Some (out, _) \<Rightarrow> list_all P out)"

definition last_page_only :: "sdk_error + 'a page_response \<Rightarrow> bool" where
  "last_page_only r = (case r of Inl _ \<Rightarrow> True | Inr resp \<Rightarrow> opc_next_page resp = None)"

definition listing_ends :: "('r, 'a) list_call \<Rightarrow> bool" where
  "listing_ends call \<longleftrightarrow> (\<forall>r acc. paginate call r acc \<noteq> None)"

definition provider_ends :: "oci \<Rightarrow> bool" where
  "provider_ends p \<longleftrightarrow>
     listing_ends (list_instances p) \<and> listing_ends (list_load_balancers p) \<and>
     listing_ends (list_db_systems p) \<and> listing_ends (list_buckets p) \<and>
     (\<forall>r. last_page_only (list_availability_domains p r)) \<and>
     listing_ends (list_file_systems p) \<and> listing_ends (list_snapshots p) \<and>
     listing_ends (request_summarized_usages p)"

definition quiet_env :: env where
  "quiet_env =
     \<lparr>dotenv_file = Inr [''OCI_CONFIG_tenancy_ocid'' \<mapsto> ''ocid1.tenancy''], process_env = Map.empty,
      getwd_result = Inr ''/app'', sdk = (\<lambda>_. quiet_oci), config_valid_for = (\<lambda>_. True),
      run_clock = (\<lambda>_ _. 0), run_order = (\<lambda>_. id)\<rparr>"

lemma run_lines_bind [intro!]:
  assumes "run_lines P m" "\<And>x. run_lines P (f x)"
  shows "run_lines P (bind_run m f)"
proof (cases m)
  case (Some a)
  obtain out r where a: "a = (out, r)" by fastforce
  show ?thesis
  proof (cases r)
    case (Inr x)
    have "run_lines P (f x)" by (rule assms(2))
    with assms(1) Some a Inr show ?thesis
      by (auto simp: run_lines_def bind_run_def split: option.splits)
  qed (use assms(1) Some a in \<open>simp add: run_lines_def\<close>)
qed (simp add: run_lines_def)

lemma run_lines_for_each [intro!]:
  assumes "\<And>x. run_lines P (f x)"
  shows "run_lines P (for_each f xs)"
proof (induction xs)
  case Nil
  show ?case by (simp add: run_lines_def)
next
  case (Cons a xs)
  show ?case by (simp add: run_lines_bind assms Cons)
qed

lemma run_lines_basic [intro!]:
  "run_lines P (ret x)" "run_lines P (fatal msg)" "run_lines P (check_err ctx r)"
  "list_all P ls \<Longrightarrow> run_lines P (emit ls)"
  by (auto simp: run_lines_def fatal_def check_err_def split: option.splits sum.splits failure.splits)

lemma run_lines_if [intro!]: "run_lines P a \<Longrightarrow> run_lines P b \<Longrightarrow> run_lines P (if c then a else b)"
  by simp

lemma run_lines_mono: "run_lines P m \<Longrightarrow> (\<And>l. P l \<Longrightarrow> Q l) \<Longrightarrow> run_lines Q m"
  by (auto simp: run_lines_def list_all_iff split: option.splits)

lemmas run_lines_intros = run_lines_bind run_lines_for_each run_lines_basic run_lines_if

lemma bind_run_Inr_split:
  "bind_run m f = Some (out, Inr y) \<Longrightarrow>
   \<exists>o1 x o2. m = Some (o1, Inr x) \<and> f x = Some (o2, Inr y) \<and> out = o1 @ o2"
  by (auto simp: bind_run_def split: option.splits sum.splits)

lemma main_completes:
  assumes "main e = Some (out, Inr x)"
  obtains vars where "startup_vars (dotenv_file e) (process_env e) (getwd_result e) = Inr vars"
    "report (driver_of e vars) = Some (out, Inr x)"
  using assms by (auto simp: main_def fatal_def split: sum.splits if_splits)

lemma report_completed_split:
  assumes "report e = Some (out, Inr ())"
  obtains o1 x1 o2 x2 o3 x3 o4 x4 o5 ads o6 x6 o7 where
    "report_instances e = Some (o1, Inr x1)" "report_load_balancers e = Some (o2, Inr x2)"
    "report_databases e = Some (o3, Inr x3)" "report_buckets e = Some (o4, Inr x4)"
    "report_availability_domains e = Some (o5, Inr ads)"
    "report_file_systems e ads = Some (o6, Inr x6)" "report_billing e = Some (o7, Inr ())"
    "out = o1 @ o2 @ o3 @ o4 @ o5 @ o6 @ o7"
  using assms unfolding report_def
  by (blast dest!: bind_run_Inr_split)

lemma bind_run_ends [intro!]:
  assumes "m \<noteq> None" and "\<And>x. f x \<noteq> None"
  shows "bind_run m f \<noteq> None"
proof -
  obtain out r where m: "m = Some (out, r)" using assms(1) by auto
  show ?thesis
  proof (cases r)
    case (Inr x)
    with m assms(2) [of x] show ?thesis by (auto simp: bind_run_def split: option.splits)
  qed (simp add: m bind_run_def)
qed

lemma for_each_ends [intro!]:
  assumes "\<And>x. f x \<noteq> None"
  shows "for_each f xs \<noteq> None"
proof (induction xs)
  case (Cons a xs)
  show ?case by (simp add: bind_run_ends [OF assms Cons.IH])
qed simp

lemma check_err_ends [intro!]: "r \<noteq> None \<Longrightarrow> check_err ctx r \<noteq> None"
  by (auto simp: check_err_def fatal_def split: option.splits sum.splits failure.splits)

lemma with_client_ends [intro!]: "body \<noteq> None \<Longrightarrow> with_client p s msg body \<noteq> None"
  by (simp add: with_client_def split: option.splits)

lemma listing_endsD [dest]: "listing_ends call \<Longrightarrow> paginate call r acc \<noteq> None"
  by (simp add: listing_ends_def)

lemma ad_loop_last_page:
  "last_page_only (list_availability_domains p r) \<Longrightarrow> availability_domains_loop p r acc \<noteq> None"
  by (subst availability_domains_loop.simps)
     (simp add: last_page_only_def split: sum.splits option.splits)

lemma enumerators_end:
  assumes "provider_ends p"
  shows "list_all_instances p t \<noteq> None" "list_all_load_balancers p t \<noteq> None"
    "list_all_databases p t \<noteq> None" "list_all_buckets p t \<noteq> None"
    "list_availability_domains_fn p t \<noteq> None" "list_all_file_systems p t ad \<noteq> None"
    "list_file_storage_snapshots p fs \<noteq> None" "get_billing_report p t a b \<noteq> None"
  using assms unfolding provider_ends_def listing_ends_def list_all_instances_def
    list_all_load_balancers_def list_all_databases_def list_all_buckets_def
    list_availability_domains_fn_def list_all_file_systems_def list_file_storage_snapshots_def
    get_billing_report_def
  by (intro with_client_ends;
      simp del: not_None_eq add: ad_loop_last_page split: sum.splits)+

lemma report_ends:
  assumes "provider_ends (provider e)"
  shows "report e \<noteq> None"
proof -
  note ends = enumerators_end [OF assms]
  have "report_instance e i \<noteq> None" for i
    by (simp add: report_instance_def bind_run_def check_err_def fatal_def
        split: sum.splits failure.splits)
  moreover have "report_file_system e ad fs \<noteq> None" for ad fs
    unfolding report_file_system_def
    by (intro bind_run_ends for_each_ends check_err_ends) (simp_all add: ends)
  ultimately show ?thesis
    unfolding report_def report_instances_def report_load_balancers_def report_databases_def
      report_buckets_def report_availability_domains_def report_file_systems_def report_billing_def
    by (intro bind_run_ends for_each_ends check_err_ends) (simp_all add: ends)
qed

end
