(* ===== verification/Time_Format.thy ===== *)
theory Time_Format
  imports Decimal
begin

text \<open>
  The text of a time as the program prints it. Every time the program prints
  (\<^verbatim>\<open>*bucket.TimeCreated\<close>, \<^verbatim>\<open>snapshot.TimeCreated\<close>,
  \<^verbatim>\<open>*billingReport.TimeUsageStarted\<close>) is a \<^verbatim>\<open>common.SDKTime\<close>, which embeds
  \<^verbatim>\<open>time.Time\<close>; under \<^verbatim>\<open>%s\<close> fmt calls its \<^verbatim>\<open>String\<close> method, the
  layout \<^verbatim>\<open>2006-01-02 15:04:05.999999999 -0700 MST\<close>. The SDK parses the
  service's RFC 3339 times, which end in \<^verbatim>\<open>Z\<close>, into UTC, so the zone prints as
  \<^verbatim>\<open>+0000 UTC\<close>, and parsed times carry no monotonic reading.

  A time of the model is an integer of nanoseconds since 1970-01-01 UTC. The
  seconds, the day and the time of day are taken with floor division, as Go does
  for instants before 1970 too; \<open>civil_of_days\<close> turns a day number into the
  proleptic Gregorian year, month and day by walking the years (from 1970 up, or
  down) and then the months; \<open>year_start\<close>, the day number of the first day
  of a year, is the closed form the year walks are proved against. The lemmas
  show that a date has a month in 1..12 and a day within its month, and that
  \<open>time_string\<close> is injective (the year is read up to its separator, the padded
  fields by their width, the fraction from its trimmed digits), so a printed time
  determines the instant.
\<close>

section \<open>The proleptic Gregorian calendar\<close>

definition leap_year :: "int \<Rightarrow> bool" where
  "leap_year y \<longleftrightarrow> y mod 4 = 0 \<and> (y mod 100 \<noteq> 0 \<or> y mod 400 = 0)"

definition days_in_year :: "int \<Rightarrow> nat" where
  "days_in_year y = (if leap_year y then 366 else 365)"

definition month_lengths :: "int \<Rightarrow> nat list" where
  "month_lengths y = [31, if leap_year y then 29 else 28, 31, 30, 31, 30, 31, 31, 30, 31, 30, 31]"

function years_up :: "int \<Rightarrow> nat \<Rightarrow> int \<times> nat" where
  "years_up y d = (if d < days_in_year y then (y, d) else years_up (y + 1) (d - days_in_year y))"
  by pat_completeness auto

termination years_up
  by (relation "measure (\<lambda>(y, d). d)") (auto simp: days_in_year_def)

function years_down :: "int \<Rightarrow> nat \<Rightarrow> int \<times> nat" where
  "years_down y k =
     (if k \<le> days_in_year (y - 1) then (y - 1, days_in_year (y - 1) - k)
      else years_down (y - 1) (k - days_in_year (y - 1)))"
  by pat_completeness auto

termination years_down
  by (relation "measure (\<lambda>(y, k). k)") (auto simp: days_in_year_def)

declare years_up.simps [simp del] years_down.simps [simp del]

fun month_of :: "nat \<Rightarrow> nat list \<Rightarrow> nat \<Rightarrow> nat \<times> nat" where
  "month_of m [] d = (m, d)"
| "month_of m (l # ls) d = (if d < l then (m, d) else month_of (Suc m) ls (d - l))"

definition civil_of_days :: "int \<Rightarrow> int \<times> nat \<times> nat" where
  "civil_of_days days =
     (let (y, yd) = (if 0 \<le> days then years_up 1970 (nat days) else years_down 1970 (nat (- days)));
          (m, md) = month_of 1 (month_lengths y) yd
      in (y, m, Suc md))"

definition year_start :: "int \<Rightarrow> int" where
  "year_start y =
     (if 1970 \<le> y then (\<Sum>k\<in>{1970..<y}. int (days_in_year k))
      else - (\<Sum>k\<in>{y..<1970}. int (days_in_year k)))"

section \<open>The layout of \<^verbatim>\<open>Time.String\<close>\<close>

text \<open>\<^verbatim>\<open>appendInt(b, x, width)\<close>: the digits of \<open>x\<close>, padded with zeros to \<open>width\<close>.\<close>

definition pad :: "nat \<Rightarrow> nat \<Rightarrow> string" where
  "pad width n = replicate (width - length (digits_of_nat n)) (CHR ''0'') @ digits_of_nat n"

definition year_text :: "int \<Rightarrow> string" where
  "year_text y = (if y < 0 then ''-'' @ pad 4 (nat (- y)) else pad 4 (nat y))"

text \<open>\<^verbatim>\<open>.999999999\<close>: the nanoseconds without trailing zeros, nothing when they are zero.\<close>

definition fraction_text :: "nat \<Rightarrow> string" where
  "fraction_text ns =
     (if ns = 0 then [] else CHR ''.'' # rev (dropWhile (\<lambda>c. c = CHR ''0'') (rev (pad 9 ns))))"

definition time_string :: "sdk_time \<Rightarrow> string" where
  "time_string t =
     (let secs = t div 1000000000;
          ns = nat (t mod 1000000000);
          (y, m, d) = civil_of_days (secs div 86400);
          s = nat (secs mod 86400)
      in year_text y @ ''-'' @ pad 2 m @ ''-'' @ pad 2 d @ '' '' @
         pad 2 (s div 3600) @ '':'' @ pad 2 (s mod 3600 div 60) @ '':'' @ pad 2 (s mod 60) @
         fraction_text ns @ '' +0000 UTC'')"

section \<open>Lemmas on the calendar\<close>

lemma year_start_succ: "year_start (y + 1) = year_start y + int (days_in_year y)"
proof (cases "1970 \<le> y")
  case True
  have "{1970..<y + 1} = insert y {1970..<y}" using True by auto
  then show ?thesis using True by (simp add: year_start_def add.commute)
next
  case False
  then show ?thesis
  proof (cases "y + 1 = 1970")
    case True
    then have "{y..<1970} = {y}" by auto
    then show ?thesis using True by (simp add: year_start_def)
  next
    case False
    have "{y..<1970} = insert y {y + 1..<1970}" using \<open>\<not> 1970 \<le> y\<close> by auto
    then show ?thesis using \<open>\<not> 1970 \<le> y\<close> False by (simp add: year_start_def)
  qed
qed

lemma days_in_year_pos: "0 < days_in_year y"
  by (simp add: days_in_year_def)

lemma years_up_spec:
  "years_up y d = (y', r) \<Longrightarrow> year_start y' + int r = year_start y + int d \<and> r < days_in_year y'"
proof (induction y d rule: years_up.induct)
  case (1 y d)
  show ?case
  proof (cases "d < days_in_year y")
    case True with "1.prems" show ?thesis by (simp add: years_up.simps)
  next
    case False
    with "1.prems" have "years_up (y + 1) (d - days_in_year y) = (y', r)" by (simp add: years_up.simps)
    with "1.IH" [OF False this] False show ?thesis by (simp add: year_start_succ)
  qed
qed

lemma years_down_spec:
  "years_down y k = (y', r) \<Longrightarrow> 0 < k \<Longrightarrow>
   year_start y' + int r = year_start y - int k \<and> r < days_in_year y'"
proof (induction y k rule: years_down.induct)
  case (1 y k)
  have ys: "year_start y = year_start (y - 1) + int (days_in_year (y - 1))"
    using year_start_succ [of "y - 1"] by simp
  show ?case
  proof (cases "k \<le> days_in_year (y - 1)")
    case True with "1.prems" ys show ?thesis by (auto simp: years_down.simps)
  next
    case False
    with "1.prems" have "years_down (y - 1) (k - days_in_year (y - 1)) = (y', r)"
      by (simp add: years_down.simps)
    with "1.IH" [OF False this] False ys show ?thesis by simp
  qed
qed

lemma sum_month_lengths: "sum_list (month_lengths y) = days_in_year y"
  by (simp add: month_lengths_def days_in_year_def)

lemma month_of_spec:
  "month_of m ls d = (m', r) \<Longrightarrow> d < sum_list ls \<Longrightarrow>
   m \<le> m' \<and> m' - m < length ls \<and> sum_list (take (m' - m) ls) + r = d \<and> r < ls ! (m' - m)"
proof (induction m ls d rule: month_of.induct)
  case (2 m l ls d)
  show ?case
  proof (cases "d < l")
    case True with "2.prems" show ?thesis by auto
  next
    case False
    with "2.prems" have "month_of (Suc m) ls (d - l) = (m', r)" "d - l < sum_list ls" by auto
    from "2.IH" [OF False this] have ih: "Suc m \<le> m'" "m' - Suc m < length ls"
      "sum_list (take (m' - Suc m) ls) + r = d - l" "r < ls ! (m' - Suc m)" by auto
    then have "m' - m = Suc (m' - Suc m)" by arith
    with ih False show ?thesis by simp
  qed
qed simp

lemma civil_of_days_spec:
  assumes "civil_of_days n = (y, m, dd)"
  shows "year_start y + int (sum_list (take (m - 1) (month_lengths y))) + int dd - 1 = n \<and>
    1 \<le> m \<and> m \<le> 12 \<and> 1 \<le> dd \<and> dd \<le> month_lengths y ! (m - 1)"
proof -
  obtain yd where y: "(if 0 \<le> n then years_up 1970 (nat n) else years_down 1970 (nat (- n))) = (y, yd)"
    and mo: "month_of 1 (month_lengths y) yd = (m, dd - 1)" and dd: "1 \<le> dd"
    using assms by (auto simp: civil_of_days_def split: prod.splits)
  have "year_start y + int yd = n \<and> yd < days_in_year y"
    using y years_up_spec [of 1970 "nat n" y yd] years_down_spec [of 1970 "nat (- n)" y yd]
    by (auto simp: year_start_def split: if_splits)
  moreover note month_of_spec [OF mo] sum_month_lengths [of y]
  moreover have "length (month_lengths y) = 12" by (simp add: month_lengths_def)
  ultimately show ?thesis using dd by auto
qed

section \<open>Lemmas on the layout\<close>

lemma digits_of_nat_length: "n < 10 ^ w \<Longrightarrow> 0 < w \<Longrightarrow> length (digits_of_nat n) \<le> w"
proof (induction n arbitrary: w rule: digits_of_nat.induct)
  case (1 n)
  show ?case
  proof (cases "n < 10")
    case True then show ?thesis using "1.prems" by (subst digits_of_nat.simps) simp
  next
    case False
    then obtain v where w: "w = Suc v" and v: "0 < v" using "1.prems"
      by (cases w) (auto, cases "w - 1", auto)
    have "n div 10 < 10 ^ v" using "1.prems" w by (simp add: div_less_iff_less_mult mult.commute)
    with "1.IH" [OF False this v] False w show ?thesis by (subst digits_of_nat.simps) simp
  qed
qed

lemma pad_length: "n < 10 ^ w \<Longrightarrow> 0 < w \<Longrightarrow> length (pad w n) = w"
  using digits_of_nat_length [of n w] by (simp add: pad_def)

lemma nat_of_digits_pad: "nat_of_digits (pad w n) = n"
  by (simp add: pad_def nat_of_digits_append nat_of_digits_zeros nat_of_digits_of_nat)

lemma pad_inj: "pad w a = pad w b \<Longrightarrow> a = b"
  by (metis nat_of_digits_pad)

lemma pad_digits: "c \<in> set (pad w n) \<Longrightarrow> is_digit c"
  by (auto simp: pad_def is_digit_def dest: digits_of_nat_digits)

lemma pad_ne: "pad w n \<noteq> []"
  by (simp add: pad_def digits_of_nat_ne)

lemma minus_not_digit: "\<not> is_digit (CHR ''-'')"
  by (simp add: is_digit_def)

lemma append_sep_eq:
  "c \<notin> set xs \<Longrightarrow> c \<notin> set ys \<Longrightarrow> xs @ c # r = ys @ c # r' \<Longrightarrow> xs = ys \<and> r = r'"
proof (induction xs arbitrary: ys)
  case Nil then show ?case by (cases ys) auto
next
  case (Cons x xs) then show ?case by (cases ys) auto
qed

lemma year_text_sep:
  assumes "year_text a @ CHR ''-'' # r = year_text b @ CHR ''-'' # r'"
  shows "a = b \<and> r = r'"
proof -
  have nd: "CHR ''-'' \<notin> set (pad 4 n)" for n using pad_digits minus_not_digit by blast
  have hd: "hd (pad 4 n) \<noteq> CHR ''-''" for n using nd [of n] pad_ne [of 4 n] hd_in_set by metis
  consider "a < 0" "b < 0" | "\<not> a < 0" "\<not> b < 0" | "(a < 0) \<noteq> (b < 0)" by blast
  then show ?thesis
  proof cases
    case 1
    with assms have "pad 4 (nat (- a)) @ CHR ''-'' # r = pad 4 (nat (- b)) @ CHR ''-'' # r'"
      by (simp add: year_text_def)
    from append_sep_eq [OF nd nd this] pad_inj 1 show ?thesis by force
  next
    case 2
    with assms have "pad 4 (nat a) @ CHR ''-'' # r = pad 4 (nat b) @ CHR ''-'' # r'"
      by (simp add: year_text_def)
    from append_sep_eq [OF nd nd this] pad_inj 2 show ?thesis by force
  next
    case 3
    then have "hd (year_text a @ CHR ''-'' # r) \<noteq> hd (year_text b @ CHR ''-'' # r')"
      using hd [of "nat b"] hd [of "nat a"] pad_ne [of 4 "nat a"] pad_ne [of 4 "nat b"]
      by (auto simp: year_text_def hd_append dest: sym)
    with assms show ?thesis by simp
  qed
qed

lemma dropWhile_eq_same_length:
  assumes "length u = length v" and "dropWhile (\<lambda>c. c = x) u = dropWhile (\<lambda>c. c = x) v"
  shows "u = v"
proof -
  have split: "u = replicate (length u - length (dropWhile (\<lambda>c. c = x) u)) x @ dropWhile (\<lambda>c. c = x) u"
    for u :: "'a list"
  proof -
    have "replicate (length (takeWhile (\<lambda>c. c = x) u)) x = takeWhile (\<lambda>c. c = x) u"
      by (rule replicate_length_same) (auto dest: set_takeWhileD)
    moreover have "length (takeWhile (\<lambda>c. c = x) u) = length u - length (dropWhile (\<lambda>c. c = x) u)"
      using length_append [of "takeWhile (\<lambda>c. c = x) u" "dropWhile (\<lambda>c. c = x) u"] by simp
    ultimately show ?thesis by (metis takeWhile_dropWhile_id)
  qed
  show ?thesis using split [of u] split [of v] assms by metis
qed

lemma fraction_text_inj:
  assumes "a < 10 ^ 9" and "b < 10 ^ 9" and "fraction_text a = fraction_text b"
  shows "a = b"
proof (cases "a = 0 \<or> b = 0")
  case True with assms(3) show ?thesis by (auto simp: fraction_text_def split: if_splits)
next
  case False
  with assms(3) have "dropWhile (\<lambda>c. c = CHR ''0'') (rev (pad 9 a)) = dropWhile (\<lambda>c. c = CHR ''0'') (rev (pad 9 b))"
    by (simp add: fraction_text_def)
  moreover have "length (rev (pad 9 a)) = length (rev (pad 9 b))"
    using pad_length [OF assms(1)] pad_length [OF assms(2)] by simp
  ultimately show ?thesis using dropWhile_eq_same_length pad_inj by (metis rev_is_rev_conv)
qed

lemma month_lengths_le: "i < 12 \<Longrightarrow> month_lengths y ! i \<le> 31"
  by (simp add: month_lengths_def nth_Cons' split: nat.splits)

lemma civil_of_days_small:
  assumes "civil_of_days n = (y, m, d)"
  shows "length (pad 2 m) = 2 \<and> length (pad 2 d) = 2"
proof -
  from civil_of_days_spec [OF assms] have "m \<le> 12" "1 \<le> m" "d \<le> month_lengths y ! (m - 1)" by auto
  moreover have "m - 1 < 12" using \<open>m \<le> 12\<close> \<open>1 \<le> m\<close> by arith
  ultimately have "m < 10 ^ 2" "d < 10 ^ 2" using month_lengths_le [of "m - 1" y] by auto
  then show ?thesis using pad_length by auto
qed

lemma clock_small:
  fixes s :: nat assumes "s < 86400"
  shows "length (pad 2 (s div 3600)) = 2 \<and> length (pad 2 (s mod 3600 div 60)) = 2 \<and> length (pad 2 (s mod 60)) = 2"
proof -
  have "s div 3600 < 10 ^ 2" "s mod 3600 div 60 < 10 ^ 2" "s mod 60 < 10 ^ 2" using assms by auto
  then show ?thesis using pad_length by auto
qed

lemma nat_mod_eq: "nat (a mod b) = nat (c mod b) \<Longrightarrow> 0 < (b :: int) \<Longrightarrow> a mod b = c mod b"
  by (simp add: eq_nat_nat_iff)

lemma clock_eq:
  fixes s1 s2 :: nat
  assumes "s1 div 3600 = s2 div 3600" "s1 mod 3600 div 60 = s2 mod 3600 div 60" "s1 mod 60 = s2 mod 60"
  shows "s1 = s2"
proof -
  have "s1 mod 3600 mod 60 = s2 mod 3600 mod 60" using assms(3) by (simp add: mod_mod_cancel)
  then have "s1 mod 3600 = s2 mod 3600" using assms(2) by (metis div_mult_mod_eq)
  with assms(1) show ?thesis by (metis div_mult_mod_eq)
qed

lemma time_string_fields:
  assumes "time_string t1 = time_string t2"
  shows "civil_of_days (t1 div 1000000000 div 86400) = civil_of_days (t2 div 1000000000 div 86400) \<and>
    t1 div 1000000000 mod 86400 = t2 div 1000000000 mod 86400 \<and> t1 mod 1000000000 = t2 mod 1000000000"
proof -
  obtain y1 m1 d1 where c1: "civil_of_days (t1 div 1000000000 div 86400) = (y1, m1, d1)"
    by (cases "civil_of_days (t1 div 1000000000 div 86400)") blast
  obtain y2 m2 d2 where c2: "civil_of_days (t2 div 1000000000 div 86400) = (y2, m2, d2)"
    by (cases "civil_of_days (t2 div 1000000000 div 86400)") blast
  define s1 where "s1 = nat (t1 div 1000000000 mod 86400)"
  define s2 where "s2 = nat (t2 div 1000000000 mod 86400)"
  have s: "s1 < 86400" "s2 < 86400" unfolding s1_def s2_def using nat_less_iff pos_mod_bound by simp_all
  have "year_text y1 @ CHR ''-'' # pad 2 m1 @ CHR ''-'' # pad 2 d1 @ CHR '' '' # pad 2 (s1 div 3600) @
      CHR '':'' # pad 2 (s1 mod 3600 div 60) @ CHR '':'' # pad 2 (s1 mod 60) @
      fraction_text (nat (t1 mod 1000000000)) @ '' +0000 UTC'' =
    year_text y2 @ CHR ''-'' # pad 2 m2 @ CHR ''-'' # pad 2 d2 @ CHR '' '' # pad 2 (s2 div 3600) @
      CHR '':'' # pad 2 (s2 mod 3600 div 60) @ CHR '':'' # pad 2 (s2 mod 60) @
      fraction_text (nat (t2 mod 1000000000)) @ '' +0000 UTC''"
    using assms by (simp add: time_string_def c1 c2 s1_def s2_def Let_def)
  from year_text_sep [OF this] civil_of_days_small [OF c1] civil_of_days_small [OF c2]
    clock_small [OF s(1)] clock_small [OF s(2)]
  have "y1 = y2 \<and> pad 2 m1 = pad 2 m2 \<and> pad 2 d1 = pad 2 d2 \<and> pad 2 (s1 div 3600) = pad 2 (s2 div 3600) \<and>
      pad 2 (s1 mod 3600 div 60) = pad 2 (s2 mod 3600 div 60) \<and> pad 2 (s1 mod 60) = pad 2 (s2 mod 60) \<and>
      fraction_text (nat (t1 mod 1000000000)) = fraction_text (nat (t2 mod 1000000000))"
    by simp
  then have f: "y1 = y2" "m1 = m2" "d1 = d2" "s1 div 3600 = s2 div 3600" "s1 mod 3600 div 60 = s2 mod 3600 div 60"
    "s1 mod 60 = s2 mod 60" "nat (t1 mod 1000000000) = nat (t2 mod 1000000000)"
    using pad_inj fraction_text_inj [of "nat (t1 mod 1000000000)" "nat (t2 mod 1000000000)"] by auto
  have "s1 = s2" using clock_eq f(4-6) by blast
  then have "t1 div 1000000000 mod 86400 = t2 div 1000000000 mod 86400"
    unfolding s1_def s2_def by (rule nat_mod_eq) simp
  moreover have "t1 mod 1000000000 = t2 mod 1000000000" using f(7) by (rule nat_mod_eq) simp
  moreover have "civil_of_days (t1 div 1000000000 div 86400) = civil_of_days (t2 div 1000000000 div 86400)"
    using c1 c2 f(1-3) by (simp only:)
  ultimately show ?thesis by blast
qed

section \<open>The layout determines the time\<close>

lemma time_string_injective: "inj time_string"
proof (rule injI)
  fix t1 t2 assume "time_string t1 = time_string t2"
  note f = time_string_fields [OF this]
  obtain y m d where c: "civil_of_days (t1 div 1000000000 div 86400) = (y, m, d)" by (metis prod_cases3)
  have "t1 div 1000000000 div 86400 = t2 div 1000000000 div 86400"
    using civil_of_days_spec [OF c] civil_of_days_spec [of "t2 div 1000000000 div 86400" y m d] c f by simp
  with f show "t1 = t2"
    by (metis div_mult_mod_eq)
qed

lemma pad_no_comma: "CHR '','' \<notin> set (pad w n)"
  using pad_digits [of "CHR '',''" w n] by (auto simp: is_digit_def)

lemma time_string_no_comma: "CHR '','' \<notin> set (time_string t)"
  using pad_no_comma
  by (auto simp: time_string_def Let_def year_text_def fraction_text_def split: prod.splits
      dest: set_dropWhileD)

end
