(* ===== verification/Format.thy ===== *)
theory Format
  imports Run_Laws Time_Format
begin

text \<open>
  How \<^verbatim>\<open>fmt\<close> turns the program's print calls into text. A printed line of
  the model is the call that printed it (\<open>Printf\<close> with its format string
  without the trailing newline, or \<open>Println\<close>) and its arguments;
  \<open>render_line\<close> is the text \<^verbatim>\<open>fmt.Printf\<close> / \<^verbatim>\<open>fmt.Println\<close>
  writes for it. The format string is cut into segments as \<^verbatim>\<open>doPrintf\<close>
  does (\<^verbatim>\<open>%%\<close>, a verb with an optional precision \<^verbatim>\<open>.n\<close>, a
  missing verb), and each verb is applied to its argument with fmt's error
  markers \<^verbatim>\<open>%!v(MISSING)\<close>, \<^verbatim>\<open>%!(EXTRA ...)\<close>,
  \<^verbatim>\<open>%!(NOVERB)\<close> and \<^verbatim>\<open>%!v(type=value)\<close>. A float under
  \<^verbatim>\<open>%f\<close> / \<^verbatim>\<open>%.nf\<close> is printed by \<open>format_fixed\<close>, the
  \<^verbatim>\<open>strconv\<close> 'f' format: the exact value rounded to \<open>n\<close> decimals, ties to
  even, a minus sign for every negative value. The \<open>real\<close> of the model is the
  exact value of the float the program holds. A time under \<^verbatim>\<open>%s\<close> is
  printed by \<open>Time_Format.time_string\<close>.

  Not modelled, and a parameter \<open>fmt_env\<close> instead: the address a pointer
  prints as, which the runtime chooses, and \<^verbatim>\<open>%v\<close> of structs and floats. Flags, widths, \<^verbatim>\<open>*\<close> and
  argument indexes, which the program never uses, give \<open>None\<close>.
\<close>

section \<open>The fixed-point format\<close>

definition round_half_even :: "real \<Rightarrow> int" where
  "round_half_even y =
     (let n = \<lfloor>y\<rfloor> in
      if y - of_int n < 1/2 then n
      else if y - of_int n > 1/2 then n + 1
      else if even n then n else n + 1)"

definition fixed_digits :: "nat \<Rightarrow> nat \<Rightarrow> string" where
  "fixed_digits prec m =
     (let ds = digits_of_nat m;
          ds' = replicate (Suc prec - length ds) (CHR ''0'') @ ds;
          k = length ds' - prec
      in take k ds' @ (if prec = 0 then [] else CHR ''.'' # drop k ds'))"

definition format_fixed :: "nat \<Rightarrow> real \<Rightarrow> string" where
  "format_fixed prec x =
     (if x < 0 then ''-'' else []) @ fixed_digits prec (nat (round_half_even (\<bar>x\<bar> * 10 ^ prec)))"

definition parse_fixed :: "string \<Rightarrow> real option" where
  "parse_fixed s =
     (let (sg, r) = (case s of c # t \<Rightarrow> if c = CHR ''-'' then (-1, t) else (1, s) | [] \<Rightarrow> (1, s));
          ip = takeWhile is_digit r
      in if ip = [] then None
         else case dropWhile is_digit r of
           [] \<Rightarrow> Some (sg * of_nat (nat_of_digits ip))
         | c # fp \<Rightarrow>
             if c = CHR ''.'' \<and> fp \<noteq> [] \<and> list_all is_digit fp
             then Some (sg * (of_nat (nat_of_digits ip) + of_nat (nat_of_digits fp) / 10 ^ length fp))
             else None)"

section \<open>Format strings and verbs\<close>

record fmt_env =
  show_pointer :: "int \<Rightarrow> string"
  show_value :: "fmt_arg \<Rightarrow> string"

datatype segment = Lit char | Percent | Verb "nat option" char | No_verb

function segments :: "string \<Rightarrow> segment list" where
  "segments [] = []"
| "segments (c # cs) =
     (if c \<noteq> CHR ''%'' then Lit c # segments cs
      else case cs of
        [] \<Rightarrow> [No_verb]
      | d # r \<Rightarrow>
          if d = CHR ''%'' then Percent # segments r
          else if d = CHR ''.'' then
            (case dropWhile is_digit r of
               [] \<Rightarrow> [No_verb]
             | v # r' \<Rightarrow> Verb (Some (nat_of_digits (takeWhile is_digit r))) v # segments r')
          else Verb None d # segments r)"
  by pat_completeness auto

termination segments
proof (relation "measure length")
  fix c cs d r v r'
  assume "dropWhile is_digit r = v # r'"
  then have "length (v # r') \<le> length r" by (metis length_dropWhile_le)
  then show "(r', c # cs) \<in> measure length" if "cs = d # r" using that by simp
qed auto

fun type_name :: "fmt_arg \<Rightarrow> string" where
  "type_name (S _) = ''string''"
| "type_name (F _) = ''float64''"
| "type_name (T _) = ''common.SDKTime''"
| "type_name (Ptr_int _) = ''*int64''"
| "type_name (Val_load_balancer _) = ''loadbalancer.LoadBalancer''"
| "type_name (Val_database _) = ''database.DbSystemSummary''"
| "type_name (Val_bucket _) = ''objectstorage.BucketSummary''"

definition show_v :: "fmt_env \<Rightarrow> fmt_arg \<Rightarrow> string" where
  "show_v fe a = (case a of S s \<Rightarrow> s | T t \<Rightarrow> time_string t | _ \<Rightarrow> show_value fe a)"

definition bad_verb :: "fmt_env \<Rightarrow> char \<Rightarrow> fmt_arg \<Rightarrow> string" where
  "bad_verb fe v a = ''%!'' @ [v] @ ''('' @ type_name a @ ''='' @ show_v fe a @ '')''"

fun render_arg :: "fmt_env \<Rightarrow> nat option \<Rightarrow> char \<Rightarrow> fmt_arg \<Rightarrow> string option" where
  "render_arg fe p v (S s) =
     (if v = CHR ''s'' \<or> v = CHR ''v'' then Some (case p of None \<Rightarrow> s | Some n \<Rightarrow> take n s)
      else if v = CHR ''f'' \<or> v = CHR ''d'' then Some (bad_verb fe v (S s)) else None)"
| "render_arg fe p v (F x) =
     (if v = CHR ''f'' then Some (format_fixed (case p of None \<Rightarrow> 6 | Some n \<Rightarrow> n) x)
      else if v = CHR ''s'' \<or> v = CHR ''d'' then Some (bad_verb fe v (F x)) else None)"
| "render_arg fe p v (T t) =
     (if (v = CHR ''s'' \<or> v = CHR ''v'') \<and> p = None then Some (time_string t) else None)"
| "render_arg fe p v (Ptr_int i) =
     (if v = CHR ''d'' \<and> p = None then Some (show_pointer fe i)
      else if v = CHR ''v'' \<and> p = None then Some (show_value fe (Ptr_int i))
      else if v = CHR ''s'' \<or> v = CHR ''f'' then Some (bad_verb fe v (Ptr_int i)) else None)"
| "render_arg fe p v a = (if v = CHR ''v'' \<and> p = None then Some (show_value fe a) else None)"

fun render_segments :: "fmt_env \<Rightarrow> segment list \<Rightarrow> fmt_arg list \<Rightarrow> string option" where
  "render_segments fe [] [] = Some []"
| "render_segments fe [] args =
     Some (''%!(EXTRA '' @ join_with '', '' (map (\<lambda>a. type_name a @ ''='' @ show_v fe a) args) @ '')'')"
| "render_segments fe (Lit c # ss) args = map_option (Cons c) (render_segments fe ss args)"
| "render_segments fe (Percent # ss) args = map_option (Cons (CHR ''%'')) (render_segments fe ss args)"
| "render_segments fe (No_verb # ss) args = map_option (append ''%!(NOVERB)'') (render_segments fe ss args)"
| "render_segments fe (Verb p v # ss) [] =
     map_option (append (''%!'' @ [v] @ ''(MISSING)'')) (render_segments fe ss [])"
| "render_segments fe (Verb p v # ss) (a # args) =
     (case render_arg fe p v a of
        None \<Rightarrow> None
      | Some s \<Rightarrow> map_option (append s) (render_segments fe ss args))"

fun render_line :: "fmt_env \<Rightarrow> line \<Rightarrow> string option" where
  "render_line fe (Printf f args) = render_segments fe (segments (f @ ''\<newline>'')) args"
| "render_line fe (Println args) = Some (join_with '' '' (map (show_v fe) args) @ ''\<newline>'')"

fun verbs :: "segment list \<Rightarrow> (nat option \<times> char) list" where
  "verbs [] = []"
| "verbs (Verb p v # ss) = (p, v) # verbs ss"
| "verbs (_ # ss) = verbs ss"

fun verb_fits :: "nat option \<times> char \<Rightarrow> fmt_arg \<Rightarrow> bool" where
  "verb_fits (p, v) (S _) = (v = CHR ''s'' \<or> v = CHR ''v'')"
| "verb_fits (p, v) (F _) = (v = CHR ''f'')"
| "verb_fits (p, v) (T _) = ((v = CHR ''s'' \<or> v = CHR ''v'') \<and> p = None)"
| "verb_fits (p, v) (Ptr_int _) = (v = CHR ''d'' \<and> p = None)"
| "verb_fits (p, v) _ = (v = CHR ''v'' \<and> p = None)"

definition printf_typed :: "string \<Rightarrow> fmt_arg list \<Rightarrow> bool" where
  "printf_typed f args \<longleftrightarrow> No_verb \<notin> set (segments f) \<and> list_all2 verb_fits (verbs (segments f)) args"

fun line_typed :: "line \<Rightarrow> bool" where
  "line_typed (Printf f args) = printf_typed (f @ ''\<newline>'') args"
| "line_typed (Println args) = True"

fun arg_text :: "fmt_env \<Rightarrow> nat option \<Rightarrow> fmt_arg \<Rightarrow> string" where
  "arg_text fe p (S s) = (case p of None \<Rightarrow> s | Some n \<Rightarrow> take n s)"
| "arg_text fe p (F x) = format_fixed (case p of None \<Rightarrow> 6 | Some n \<Rightarrow> n) x"
| "arg_text fe p (T t) = time_string t"
| "arg_text fe p (Ptr_int i) = show_pointer fe i"
| "arg_text fe p a = show_value fe a"

fun fill :: "fmt_env \<Rightarrow> segment list \<Rightarrow> fmt_arg list \<Rightarrow> string" where
  "fill fe (Lit c # ss) args = c # fill fe ss args"
| "fill fe (Percent # ss) args = CHR ''%'' # fill fe ss args"
| "fill fe (Verb p v # ss) (a # args) = arg_text fe p a @ fill fe ss args"
| "fill fe _ _ = []"

fun line_text :: "fmt_env \<Rightarrow> line \<Rightarrow> string" where
  "line_text fe (Printf f args) = fill fe (segments (f @ ''\<newline>'')) args"
| "line_text fe (Println args) = join_with '' '' (map (show_v fe) args) @ ''\<newline>''"

section \<open>Lemmas on the fixed-point format\<close>

lemma round_half_even_nonneg: "0 \<le> y \<Longrightarrow> 0 \<le> round_half_even y"
  by (simp add: round_half_even_def Let_def)

lemma fixed_digits_parts:
  obtains ip fp where
    "fixed_digits p m = ip @ (if p = 0 then [] else CHR ''.'' # fp)"
    "ip \<noteq> []" "\<forall>c\<in>set ip. is_digit c" "\<forall>c\<in>set fp. is_digit c" "length fp = p"
    "nat_of_digits ip * 10 ^ p + nat_of_digits fp = m"
proof -
  define ds' where "ds' = replicate (Suc p - length (digits_of_nat m)) (CHR ''0'') @ digits_of_nat m"
  define k where "k = length ds' - p"
  have len: "Suc p \<le> length ds'" by (simp add: ds'_def)
  have dig: "\<forall>c\<in>set ds'. is_digit c"
    by (auto simp: ds'_def dest: zeros_digits digits_of_nat_digits)
  have val: "nat_of_digits ds' = m"
    by (simp add: ds'_def nat_of_digits_append nat_of_digits_zeros nat_of_digits_of_nat)
  have split: "nat_of_digits (take k ds') * 10 ^ p + nat_of_digits (drop k ds') = nat_of_digits ds'"
    using nat_of_digits_append [of "take k ds'" "drop k ds'"] len by (simp add: k_def)
  show ?thesis
  proof (rule that)
    show "fixed_digits p m = take k ds' @ (if p = 0 then [] else CHR ''.'' # drop k ds')"
      by (simp add: fixed_digits_def ds'_def k_def Let_def)
    have "ds' \<noteq> []" using len by auto
    then show "take k ds' \<noteq> []" using len by (simp add: k_def)
    show "\<forall>c\<in>set (take k ds'). is_digit c" "\<forall>c\<in>set (drop k ds'). is_digit c"
      using dig by (auto dest: in_set_takeD in_set_dropD)
    show "length (drop k ds') = p" using len by (simp add: k_def)
    show "nat_of_digits (take k ds') * 10 ^ p + nat_of_digits (drop k ds') = m"
      using split val by simp
  qed
qed

lemma not_digit_dot: "\<not> is_digit (CHR ''.'')" "\<not> is_digit (CHR ''-'')"
  by (simp_all add: is_digit_def)

lemma parse_fixed_parts:
  assumes "ip \<noteq> []" "\<forall>c\<in>set ip. is_digit c" "\<forall>c\<in>set fp. is_digit c" "length fp = p"
  shows "parse_fixed ((if neg then ''-'' else []) @ ip @ (if p = 0 then [] else CHR ''.'' # fp)) =
    Some ((if neg then -1 else 1) * (of_nat (nat_of_digits ip) + of_nat (nat_of_digits fp) / 10 ^ p))"
proof -
  obtain c t where ip: "ip = c # t" using assms(1) by (cases ip) auto
  have c: "c \<noteq> CHR ''-''" using assms(2) not_digit_dot(2) ip by auto
  have tw: "takeWhile is_digit (ip @ (if p = 0 then [] else CHR ''.'' # fp)) = ip"
    using assms(2) by (simp add: takeWhile_append2 not_digit_dot)
  have dw: "dropWhile is_digit (ip @ (if p = 0 then [] else CHR ''.'' # fp)) =
      (if p = 0 then [] else CHR ''.'' # fp)"
    using assms(2) by (simp add: dropWhile_append2 not_digit_dot)
  have "list_all is_digit fp" using assms(3) by (simp add: list_all_iff)
  then show ?thesis
    using assms(1,4) tw dw c by (cases neg) (auto simp: parse_fixed_def ip Let_def nat_of_digits_Nil takeWhile_eq_all_conv [THEN iffD2])
qed

lemma parse_sign_fixed_digits:
  "parse_fixed ((if neg then ''-'' else []) @ fixed_digits p m) =
     Some ((if neg then -1 else 1) * of_nat m / 10 ^ p)"
proof -
  obtain ip fp where f: "fixed_digits p m = ip @ (if p = 0 then [] else CHR ''.'' # fp)"
    and h: "ip \<noteq> []" "\<forall>c\<in>set ip. is_digit c" "\<forall>c\<in>set fp. is_digit c" "length fp = p"
    and v: "nat_of_digits ip * 10 ^ p + nat_of_digits fp = m"
    by (rule fixed_digits_parts)
  have "(of_nat (nat_of_digits ip) + of_nat (nat_of_digits fp) / 10 ^ p :: real) =
      of_nat (nat_of_digits ip * 10 ^ p + nat_of_digits fp) / 10 ^ p"
    by (simp add: field_simps)
  then show ?thesis by (simp add: f parse_fixed_parts [OF h] v)
qed

lemma parse_format_fixed:
  "parse_fixed (format_fixed p x) =
     Some ((if x < 0 then -1 else 1) * of_int (round_half_even (\<bar>x\<bar> * 10 ^ p)) / 10 ^ p)"
  using round_half_even_nonneg [of "\<bar>x\<bar> * 10 ^ p"]
  by (simp add: format_fixed_def parse_sign_fixed_digits)

lemma round_half_even_bound: "\<bar>of_int (round_half_even y) - y\<bar> \<le> 1 / 2"
proof -
  define n where "n = \<lfloor>y\<rfloor>"
  have b: "of_int n \<le> y" "y < of_int n + 1" by (simp_all add: n_def)
  show ?thesis
    unfolding round_half_even_def Let_def n_def [symmetric] using b
    by (auto simp: abs_le_iff)
qed

lemma format_fixed_error_bound:
  "\<exists>v. parse_fixed (format_fixed p x) = Some v \<and> \<bar>v - x\<bar> \<le> 1 / (2 * 10 ^ p)"
proof -
  define y where "y = \<bar>x\<bar> * 10 ^ p"
  define v :: real where "v = (if x < 0 then -1 else 1) * of_int (round_half_even y) / 10 ^ p"
  have "v - x = (if x < 0 then -1 else 1) * (of_int (round_half_even y) - y) / 10 ^ p"
    by (simp add: v_def y_def field_simps)
  then have "\<bar>v - x\<bar> = \<bar>of_int (round_half_even y) - y\<bar> / 10 ^ p"
    by (simp add: abs_mult)
  also have "\<dots> \<le> (1 / 2) / 10 ^ p"
    by (rule divide_right_mono) (use round_half_even_bound [of y] in simp_all)
  finally show ?thesis by (auto simp: parse_format_fixed v_def y_def)
qed

lemma render_arg_fits: "verb_fits (p, v) a \<Longrightarrow> render_arg fe p v a = Some (arg_text fe p a)"
  by (cases a) (auto split: option.splits)

lemma render_segments_typed:
  "No_verb \<notin> set ss \<Longrightarrow> list_all2 verb_fits (verbs ss) args \<Longrightarrow>
   render_segments fe ss args = Some (fill fe ss args)"
proof (induction fe ss args rule: render_segments.induct)
  case (7 fe p v ss a args)
  then show ?case by (simp add: render_arg_fits)
qed auto

lemma render_line_typed: "line_typed l \<Longrightarrow> render_line fe l = Some (line_text fe l)"
  by (cases l) (simp_all add: printf_typed_def render_segments_typed)

section \<open>Typed print calls\<close>

lemmas printf_eval = printf_typed_def is_digit_def nat_of_digits_def digit_value_def

lemma report_lines_typed: "run_lines line_typed (report e)"
  unfolding report_def report_instances_def report_load_balancers_def report_databases_def
    report_buckets_def report_availability_domains_def report_file_systems_def report_billing_def
    report_instance_def report_file_system_def
  by (intro run_lines_intros; simp add: printf_eval instance_lines_def metric_lines_def)

lemma main_lines_typed: "run_lines line_typed (main e)"
  using report_lines_typed by (simp add: main_def run_lines_basic split: option.splits sum.splits)

lemma billing_line_text:
  "render_line fe (Printf ''   Date: %s, Comp. Qty: %f'' [T t, F q]) =
     Some (''   Date: '' @ time_string t @ '', Comp. Qty: '' @ format_fixed 6 q @ ''\<newline>'')"
  by (simp add: printf_eval)

section \<open>Properties of the printed text\<close>

text \<open>
  C23. What the metric lines of a running instance print (lines 67--71), for every
  metrics map: the CPU and memory figures with two decimals followed by
  \<^verbatim>\<open>%\<close> (the format's \<^verbatim>\<open>%%\<close>), the disk figures in MiB with
  \<^verbatim>\<open>%f\<close>'s six decimals, a missing metric as 0; and each percentage read
  back from the line is within 0.005 of the metric.
\<close>

theorem metric_lines_rendered:
  "map (render_line fe) (metric_lines ms) =
     [Some ''    Metrics:\<newline>'',
      Some (''      CpuUtilization: '' @ format_fixed 2 (metric_of ms ''CpuUtilization'') @ '' %\<newline>''),
      Some (''      MemoryUtilization: '' @ format_fixed 2 (metric_of ms ''MemoryUtilization'') @ '' %\<newline>''),
      Some (''      DiskBytesRead: '' @ format_fixed 6 (metric_of ms ''DiskBytesRead'' / (1024 * 1024)) @
            '' Mb\<newline>''),
      Some (''      DiskBytesWritten: '' @ format_fixed 6 (metric_of ms ''DiskBytesWritten'' / (1024 * 1024)) @
            '' Mb\<newline>'')] \<and>
   (\<exists>v. parse_fixed (format_fixed 2 (metric_of ms ''CpuUtilization'')) = Some v \<and>
        \<bar>v - metric_of ms ''CpuUtilization''\<bar> \<le> 1 / 200) \<and>
   (\<exists>v. parse_fixed (format_fixed 2 (metric_of ms ''MemoryUtilization'')) = Some v \<and>
        \<bar>v - metric_of ms ''MemoryUtilization''\<bar> \<le> 1 / 200)"
proof (intro conjI)
  show "map (render_line fe) (metric_lines ms) = [Some ''    Metrics:\<newline>'',
      Some (''      CpuUtilization: '' @ format_fixed 2 (metric_of ms ''CpuUtilization'') @ '' %\<newline>''),
      Some (''      MemoryUtilization: '' @ format_fixed 2 (metric_of ms ''MemoryUtilization'') @ '' %\<newline>''),
      Some (''      DiskBytesRead: '' @ format_fixed 6 (metric_of ms ''DiskBytesRead'' / (1024 * 1024)) @
            '' Mb\<newline>''),
      Some (''      DiskBytesWritten: '' @ format_fixed 6 (metric_of ms ''DiskBytesWritten'' / (1024 * 1024)) @
            '' Mb\<newline>'')]"
    by (simp add: metric_lines_def printf_eval)
qed (use format_fixed_error_bound [of 2] in simp_all)

text \<open>
  C24. Every print call the program makes, in every run, has as many arguments
  as its format has verbs and an argument of a type its verb accepts, so
  \<^verbatim>\<open>fmt\<close> prints each line as its format with each verb replaced by its
  argument and never one of its error markers (\<^verbatim>\<open>%!v(MISSING)\<close>,
  \<^verbatim>\<open>%!(EXTRA ...)\<close>, \<^verbatim>\<open>%!(NOVERB)\<close>, \<^verbatim>\<open>%!v(type=value)\<close>).
\<close>

theorem main_output_well_formatted:
  "run_lines (\<lambda>l. render_line fe l = Some (line_text fe l)) (main e)"
  using main_lines_typed by (rule run_lines_mono) (rule render_line_typed)

text \<open>
  C25. The billing section determines the usage dates: for any two runs whose
  billing queries succeed, if the printed billing sections are the same text, the
  reports have the same \<^verbatim>\<open>TimeUsageStarted\<close>, in the same order. The
  date is printed through \<^verbatim>\<open>%s\<close> of the \<^verbatim>\<open>SDKTime\<close> (line 162), whose text
  contains no comma and determines the instant.
\<close>

theorem billing_lines_tell_dates:
  assumes "get_billing_report (provider d1) (tenancy_ocid d1) billing_start billing_end = Some (Inr us1)"
    and "get_billing_report (provider d2) (tenancy_ocid d2) billing_start billing_end = Some (Inr us2)"
  shows "\<exists>o1 o2. report_billing d1 = Some (o1, Inr ()) \<and> report_billing d2 = Some (o2, Inr ()) \<and>
           (map (render_line fe) o1 = map (render_line fe) o2 \<longrightarrow>
            map usage_time_started us1 = map usage_time_started us2)"
proof (intro exI conjI impI)
  let ?line = "\<lambda>u. Printf ''   Date: %s, Comp. Qty: %f'' [T (usage_time_started u), F (computed_quantity u)]"
  show "report_billing d1 = Some (Println [S ''Billing:''] # map ?line us1, Inr ())"
    using assms(1) by (simp add: report_billing_def for_each_emit_all)
  show "report_billing d2 = Some (Println [S ''Billing:''] # map ?line us2, Inr ())"
    using assms(2) by (simp add: report_billing_def for_each_emit_all)
  assume "map (render_line fe) (Println [S ''Billing:''] # map ?line us1) =
    map (render_line fe) (Println [S ''Billing:''] # map ?line us2)"
  then have "map (render_line fe \<circ> ?line) us1 = map (render_line fe \<circ> ?line) us2" by simp
  then show "map usage_time_started us1 = map usage_time_started us2"
  proof (rule map_eq_transfer)
    fix u1 u2 assume "(render_line fe \<circ> ?line) u1 = (render_line fe \<circ> ?line) u2"
    then have "time_string (usage_time_started u1) @ CHR '','' # '' Comp. Qty: '' @ format_fixed 6 (computed_quantity u1) @ ''\<newline>'' =
        time_string (usage_time_started u2) @ CHR '','' # '' Comp. Qty: '' @ format_fixed 6 (computed_quantity u2) @ ''\<newline>''"
      by (simp add: billing_line_text)
    from append_sep_eq [OF time_string_no_comma time_string_no_comma this]
    show "usage_time_started u1 = usage_time_started u2"
      using time_string_injective by (auto dest: injD)
  qed
qed

theorem billing_lines_tell_dates_witness:
  "\<exists>o1 o2. report_billing \<lparr>tenancy_ocid = ''ocid1.tenancy'',
       provider = quiet_oci\<lparr>request_summarized_usages := paged_source [''p0'']
         [[\<lparr>usage_time_started = billing_start, computed_quantity = 25 / 2\<rparr>]]\<rparr>,
       metric_clock = (\<lambda>_ _. 0), iteration_order = (\<lambda>_. id)\<rparr> = Some (o1, Inr ()) \<and>
     report_billing \<lparr>tenancy_ocid = ''ocid1.tenancy'', provider = quiet_oci,
       metric_clock = (\<lambda>_ _. 0), iteration_order = (\<lambda>_. id)\<rparr> = Some (o2, Inr ()) \<and>
     (map (render_line \<lparr>show_pointer = (\<lambda>_. ''0xc000012345''), show_value = (\<lambda>_. ''{}'')\<rparr>) o1 =
      map (render_line \<lparr>show_pointer = (\<lambda>_. ''0xc000012345''), show_value = (\<lambda>_. ''{}'')\<rparr>) o2 \<longrightarrow>
      map usage_time_started [\<lparr>usage_time_started = billing_start, computed_quantity = 25 / 2\<rparr>] =
      map usage_time_started [])"
proof -
  let ?u = "\<lparr>usage_time_started = billing_start, computed_quantity = 25 / 2 :: real\<rparr>"
  let ?d1 = "\<lparr>tenancy_ocid = ''ocid1.tenancy'',
       provider = quiet_oci\<lparr>request_summarized_usages := paged_source [''p0''] [[?u]]\<rparr>,
       metric_clock = (\<lambda>_ _. 0), iteration_order = (\<lambda>_. id)\<rparr>"
  let ?d2 = "\<lparr>tenancy_ocid = ''ocid1.tenancy'', provider = quiet_oci,
       metric_clock = (\<lambda>_ _. 0), iteration_order = (\<lambda>_. id)\<rparr>"
  have g1: "get_billing_report (provider ?d1) (tenancy_ocid ?d1) billing_start billing_end = Some (Inr [?u])"
    by (simp add: get_billing_report_def quiet_oci_def paged_source_def paginate.simps)
  have g2: "get_billing_report (provider ?d2) (tenancy_ocid ?d2) billing_start billing_end = Some (Inr [])"
    by (simp add: get_billing_report_def quiet_oci_def empty_page_def paginate.simps)
  from billing_lines_tell_dates [OF g1 g2, of "\<lparr>show_pointer = (\<lambda>_. ''0xc000012345''), show_value = (\<lambda>_. ''{}'')\<rparr>"]
  show ?thesis by simp
qed

end
