(* ===== verification/Report_Output.thy ===== *)
theory Report_Output
  imports Report
begin

text \<open>
  The whole standard output of a run of \<^verbatim>\<open>main\<close> when nothing fails. The
  SDK's answers for one tenancy are collected in a record \<open>inventory\<close>; the
  predicate \<open>sdk_answers\<close> says that every listing function \<^verbatim>\<open>main\<close> calls,
  and \<^verbatim>\<open>GetInstanceMetrics\<close> for each running instance, returns them; and
  \<open>report_output\<close> is the text the seven sections of \<^verbatim>\<open>main.go\<close> are
  expected to print for them, written section by section as the loops of lines
  48--164 nest. The theorem of this theory composes the sections: \<open>main\<close>
  prints exactly that output and completes.
\<close>

section \<open>The answers of the SDK\<close>

record inventory =
  inv_instances :: "compute_instance list"
  inv_metrics :: "compute_instance \<Rightarrow> metrics"
  inv_load_balancers :: "load_balancer list"
  inv_databases :: "db_system_summary list"
  inv_buckets :: "bucket_summary list"
  inv_domains :: "availability_domain list"
  inv_file_systems :: "availability_domain \<Rightarrow> file_system_summary list"
  inv_snapshots :: "file_system_summary \<Rightarrow> snapshot_summary list"
  inv_usages :: "usage_summary list"

definition sdk_answers :: "driver \<Rightarrow> inventory \<Rightarrow> bool" where
  "sdk_answers d ans \<longleftrightarrow>
     list_all_instances (provider d) (tenancy_ocid d) = Some (Inr (inv_instances ans)) \<and>
     (\<forall>i \<in> set (inv_instances ans). instance_lifecycle_state i = ''RUNNING'' \<longrightarrow>
        get_instance_metrics (provider d) (tenancy_ocid d) (metric_clock d (instance_id i))
          (iteration_order d (instance_id i)) (instance_id i) = Inr (inv_metrics ans i)) \<and>
     list_all_load_balancers (provider d) (tenancy_ocid d) = Some (Inr (inv_load_balancers ans)) \<and>
     list_all_databases (provider d) (tenancy_ocid d) = Some (Inr (inv_databases ans)) \<and>
     list_all_buckets (provider d) (tenancy_ocid d) = Some (Inr (inv_buckets ans)) \<and>
     list_availability_domains_fn (provider d) (tenancy_ocid d) = Some (Inr (inv_domains ans)) \<and>
     (\<forall>ad \<in> set (inv_domains ans).
        list_all_file_systems (provider d) (tenancy_ocid d) (ad_name ad) = Some (Inr (inv_file_systems ans ad))) \<and>
     (\<forall>ad \<in> set (inv_domains ans). \<forall>fs \<in> set (inv_file_systems ans ad).
        list_file_storage_snapshots (provider d) (fs_id fs) = Some (Inr (inv_snapshots ans fs))) \<and>
     get_billing_report (provider d) (tenancy_ocid d) billing_start billing_end = Some (Inr (inv_usages ans))"

section \<open>The expected output, section by section\<close>

definition instances_section :: "inventory \<Rightarrow> line list" where
  "instances_section ans =
     Println [S ''Instances:''] #
     concat (map (\<lambda>i. instance_lines i @
       (if instance_lifecycle_state i = ''RUNNING'' then metric_lines (inv_metrics ans i) else []))
       (inv_instances ans))"

definition load_balancers_section :: "inventory \<Rightarrow> line list" where
  "load_balancers_section ans =
     Println [S ''Load Balancers:''] #
     concat (map (\<lambda>lb. [Println [Val_load_balancer lb],
       Printf ''  Name: %s, Shape: %s, State: %s''
         [S (lb_display_name lb), S (lb_shape_name lb), S (lb_lifecycle_state lb)]]) (inv_load_balancers ans))"

definition databases_section :: "inventory \<Rightarrow> line list" where
  "databases_section ans =
     Println [S ''Databases:''] #
     concat (map (\<lambda>db. [Println [Val_database db],
       Printf ''  Name: %s, DB: %s, State: %s''
         [S (db_display_name db), S (database_edition db), S (db_lifecycle_state db)]]) (inv_databases ans))"

definition buckets_section :: "inventory \<Rightarrow> line list" where
  "buckets_section ans =
     Println [S ''Buckets:''] #
     concat (map (\<lambda>b. [Println [Val_bucket b],
       Printf ''  Name: %s, Created by: %s, Creation Date: %s''
         [S (bucket_name b), S (created_by b), T (bucket_time_created b)]]) (inv_buckets ans))"

definition domains_section :: "inventory \<Rightarrow> line list" where
  "domains_section ans =
     Println [S ''Availability Domains:''] #
     map (\<lambda>ad. Printf ''  Name: %s, ID: %s'' [S (ad_name ad), S (ad_id ad)]) (inv_domains ans)"

definition file_system_lines :: "inventory \<Rightarrow> availability_domain \<Rightarrow> file_system_summary \<Rightarrow> line list" where
  "file_system_lines ans ad fs =
     Printf ''  Name: %s, Size: %d Bytes, Availability Domain: %s, State: %s''
       [S (fs_display_name fs), Ptr_int (metered_bytes fs), S (ad_name ad), S (fs_lifecycle_state fs)] #
     Println [S ''    Snapshots:''] #
     map (\<lambda>sn. Printf ''  Name: %s, Creation Date: %s Bytes, State: %s''
       [S (snapshot_name sn), T (snapshot_time_created sn), S (snapshot_lifecycle_state sn)]) (inv_snapshots ans fs)"

definition file_systems_section :: "inventory \<Rightarrow> line list" where
  "file_systems_section ans =
     Println [S ''File Systems:''] #
     concat (map (\<lambda>ad. concat (map (file_system_lines ans ad) (inv_file_systems ans ad))) (inv_domains ans))"

definition billing_section :: "inventory \<Rightarrow> line list" where
  "billing_section ans =
     Println [S ''Billing:''] #
     map (\<lambda>u. Printf ''   Date: %s, Comp. Qty: %f'' [T (usage_time_started u), F (computed_quantity u)])
       (inv_usages ans)"

definition report_output :: "inventory \<Rightarrow> line list" where
  "report_output ans =
     instances_section ans @ load_balancers_section ans @ databases_section ans @ buckets_section ans @
     domains_section ans @ file_systems_section ans @ billing_section ans"

section \<open>Each section prints its part\<close>

lemma report_sections_answer:
  assumes "sdk_answers d ans"
  shows "report_instances d = Some (instances_section ans, Inr ())"
    and "report_load_balancers d = Some (load_balancers_section ans, Inr ())"
    and "report_databases d = Some (databases_section ans, Inr ())"
    and "report_buckets d = Some (buckets_section ans, Inr ())"
    and "report_availability_domains d = Some (domains_section ans, Inr (inv_domains ans))"
    and "report_file_systems d (inv_domains ans) = Some (file_systems_section ans, Inr ())"
    and "report_billing d = Some (billing_section ans, Inr ())"
proof -
  note a = assms [unfolded sdk_answers_def]
  have "for_each (report_instance d) (inv_instances ans) =
      Some (concat (map (\<lambda>i. instance_lines i @
        (if instance_lifecycle_state i = ''RUNNING'' then metric_lines (inv_metrics ans i) else []))
        (inv_instances ans)), Inr ())"
    using a by (intro for_each_emit_all report_instance_emit) auto
  with a show "report_instances d = Some (instances_section ans, Inr ())"
    by (simp add: report_instances_def instances_section_def)
  show "report_load_balancers d = Some (load_balancers_section ans, Inr ())"
    using a by (simp add: report_load_balancers_def load_balancers_section_def for_each_emit_all)
  show "report_databases d = Some (databases_section ans, Inr ())"
    using a by (simp add: report_databases_def databases_section_def for_each_emit_all)
  show "report_buckets d = Some (buckets_section ans, Inr ())"
    using a by (simp add: report_buckets_def buckets_section_def for_each_emit_all)
  show "report_availability_domains d = Some (domains_section ans, Inr (inv_domains ans))"
    using a by (simp add: report_availability_domains_def domains_section_def for_each_emit_all)
  show "report_file_systems d (inv_domains ans) = Some (file_systems_section ans, Inr ())"
    unfolding file_systems_section_def file_system_lines_def
    using a by (intro report_file_systems_emit report_file_system_emit) auto
  show "report_billing d = Some (billing_section ans, Inr ())"
    using a by (simp add: report_billing_def billing_section_def for_each_emit_all)
qed

text \<open>
  C30. Composition of the sections: after a successful start-up with a valid
  configuration, when the SDK answers every call of the run, \<^verbatim>\<open>main\<close>
  completes and prints exactly the seven sections in the order of the source,
  each with the lines of its resources in listing order.
\<close>

theorem main_output:
  assumes "startup_vars (dotenv_file e) (process_env e) (getwd_result e) = Inr vars"
    and "config_valid_for e vars"
    and "sdk_answers (driver_of e vars) ans"
  shows "main e = Some (report_output ans, Inr ())"
  using assms(1,2) report_sections_answer [OF assms(3)]
  by (simp add: main_def report_def report_output_def)

theorem main_output_witness:
  "main \<lparr>dotenv_file = Inr [''OCI_CONFIG_tenancy_ocid'' \<mapsto> ''ocid1.tenancy''], process_env = Map.empty,
         getwd_result = Inr ''/app'',
         sdk = (\<lambda>_. quiet_oci\<lparr>
           list_instances := paged_source [''p0''] [[test_instance ''ocid1.instance'' ''web-1'' ''RUNNING'']],
           list_buckets := paged_source [''p0''] [[test_bucket]],
           list_availability_domains := paged_source [''p0''] [[test_ad]],
           list_file_systems := paged_source [''p0''] [[test_fs]],
           list_snapshots := paged_source [''p0''] [[test_snapshot]],
           summarize_metrics_data := (\<lambda>_. Inr [series [85 / 2]])\<rparr>),
         config_valid_for = (\<lambda>_. True), run_clock = (\<lambda>_ _. 0), run_order = (\<lambda>_. id)\<rparr> =
   Some (report_output
     \<lparr>inv_instances = [test_instance ''ocid1.instance'' ''web-1'' ''RUNNING''],
      inv_metrics = (\<lambda>_. [''CpuUtilization'' \<mapsto> 85 / 2, ''MemoryUtilization'' \<mapsto> 85 / 2,
                         ''DiskBytesRead'' \<mapsto> 85 / 2, ''DiskBytesWritten'' \<mapsto> 85 / 2]),
      inv_load_balancers = [], inv_databases = [], inv_buckets = [test_bucket], inv_domains = [test_ad],
      inv_file_systems = (\<lambda>_. [test_fs]), inv_snapshots = (\<lambda>_. [test_snapshot]), inv_usages = []\<rparr>,
     Inr ())"
proof -
  let ?p = "quiet_oci\<lparr>
           list_instances := paged_source [''p0''] [[test_instance ''ocid1.instance'' ''web-1'' ''RUNNING'']],
           list_buckets := paged_source [''p0''] [[test_bucket]],
           list_availability_domains := paged_source [''p0''] [[test_ad]],
           list_file_systems := paged_source [''p0''] [[test_fs]],
           list_snapshots := paged_source [''p0''] [[test_snapshot]],
           summarize_metrics_data := (\<lambda>_. Inr [series [85 / 2]])\<rparr>"
  let ?e = "\<lparr>dotenv_file = Inr [''OCI_CONFIG_tenancy_ocid'' \<mapsto> ''ocid1.tenancy''], process_env = Map.empty,
         getwd_result = Inr ''/app'', sdk = (\<lambda>_. ?p),
         config_valid_for = (\<lambda>_. True), run_clock = (\<lambda>_ _. 0), run_order = (\<lambda>_. id)\<rparr>"
  let ?ans = "\<lparr>inv_instances = [test_instance ''ocid1.instance'' ''web-1'' ''RUNNING''],
      inv_metrics = (\<lambda>_. [''CpuUtilization'' \<mapsto> 85 / 2, ''MemoryUtilization'' \<mapsto> 85 / 2,
                         ''DiskBytesRead'' \<mapsto> 85 / 2, ''DiskBytesWritten'' \<mapsto> (85 / 2 :: real)]),
      inv_load_balancers = [], inv_databases = [], inv_buckets = [test_bucket], inv_domains = [test_ad],
      inv_file_systems = (\<lambda>_. [test_fs]), inv_snapshots = (\<lambda>_. [test_snapshot]), inv_usages = []\<rparr>"
  have "\<exists>vars. startup_vars (dotenv_file ?e) (process_env ?e) (getwd_result ?e) = Inr vars"
    by (simp add: startup_vars_def load_dotenv_def)
  then obtain vars where v: "startup_vars (dotenv_file ?e) (process_env ?e) (getwd_result ?e) = Inr vars" ..
  have m: "get_instance_metrics ?p t (\<lambda>_. 0) id ''ocid1.instance'' = Inr (inv_metrics ?ans i)" for t i
    by (simp add: get_instance_metrics_def metric_queries_def metrics_request_def quiet_oci_def series_def
        Let_def fun_upd_twist)
  have "sdk_answers (driver_of ?e vars) ?ans"
    unfolding sdk_answers_def using m
    by (simp add: driver_of_def quiet_oci_def empty_page_def paged_source_def paginate.simps
        availability_domains_loop.simps test_instance_def list_all_instances_def list_all_load_balancers_def
        list_all_databases_def list_all_buckets_def list_availability_domains_fn_def list_all_file_systems_def
        list_file_storage_snapshots_def get_billing_report_def)
  from main_output [OF v _ this] show ?thesis by simp
qed

end
