(* ===== verification/Spec2Isabelle.thy ===== *)
theory Spec2Isabelle
  imports Format Report_Output
begin

text \<open>
  \<^bold>\<open>A verification development of oci_go_connector.\<close>

  The program (\<^verbatim>\<open>src/main.go\<close>, \<^verbatim>\<open>src/functions/functions.go\<close>) prints an
  inventory of an Oracle Cloud tenancy. \<^verbatim>\<open>main\<close> loads the settings, checks the
  SDK configuration and then runs seven sections in order (instances with the
  metrics of each running instance, load balancers, databases, buckets,
  availability domains, file systems with their snapshots, billing); each section
  calls one listing function of \<^verbatim>\<open>functions.go\<close>, which creates an SDK client
  and pages through a remote listing with a cursor. \<^verbatim>\<open>GetInstanceMetrics\<close> runs
  four monitoring queries and keeps the last non-zero sample of each. Every error
  ends the process through \<^verbatim>\<open>log.Fatalf\<close>.

  \<^bold>\<open>Theories, in import order.\<close>
  \<^item> \<open>Prelude\<close>: the basic types (\<open>ocid\<close>, \<open>cursor\<close>, \<open>sdk_time\<close>,
    \<open>sdk_error\<close>), the datatype \<open>failure\<close> for Go's three ways of leaving a
    function (an \<^verbatim>\<open>error\<close> result, \<^verbatim>\<open>log.Fatalf\<close>, a panic) and shared lemmas.
  \<^item> \<open>Config\<close>: lines 19--46 of \<^verbatim>\<open>main\<close>. The environment is a map;
    \<open>load_dotenv\<close> is \<^verbatim>\<open>godotenv.Load\<close> (the file's variables added
    without overriding the process's), \<open>getenv\<close>/\<open>setenv\<close> are
    \<^verbatim>\<open>os.Getenv\<close>/\<^verbatim>\<open>os.Setenv\<close>, \<open>join_path\<close> and
    \<open>clean_path\<close> are \<^verbatim>\<open>filepath.Join\<close> and \<^verbatim>\<open>filepath.Clean\<close>,
    \<open>startup_vars\<close> is the whole start-up with its \<^verbatim>\<open>log.Fatalf\<close> exits.
    C26--C28: the key path is \<open><working dir>/config/<name>\<close>; when the file
    name is unset the start-up still succeeds and stores the directory itself;
    the tenancy id comes from the process environment, else \<^verbatim>\<open>.env\<close>, and
    the computed key path overrides both.
  \<^item> \<open>Pagination\<close>: \<open>paginate\<close>, the loop shared by the \<^verbatim>\<open>ListAll*\<close>
    functions, as a \<^theory_text>\<open>partial_function (option)\<close> (\<open>None\<close>: the loop never
    ends); \<open>page_run\<close>, the inductive specification of an enumeration (the requests
    sent, the pages received, the result); \<open>paged_source\<close>, a finite provider.
    C1--C5: the loop refines the specification both ways, returns the
    concatenated pages of a finite provider, returns the error itself when a
    fetch fails after some pages were served (\<open>failing_source\<close>), returns the
    pages it received when it succeeds, and stops after one request on a last
    page.
  \<^item> \<open>Oci_Sdk\<close>: the SDK, which the program only calls. Records hold the fields
    of the resources the program reads and of the requests it builds (every list
    request extends \<open>paged_request\<close>); the record \<open>oci\<close> has one field per SDK
    call and the outcome of each client constructor, so every theorem holds for
    every behaviour of the remote side.
  \<^item> \<open>Enumerators\<close>: the nine listing functions of \<^verbatim>\<open>functions.go\<close>
    (\<open>list_all_instances\<close> for \<^verbatim>\<open>ListAllInstances\<close>, and so on), each with its
    client creation and \<^verbatim>\<open>log.Fatalf\<close> message, its request and the loop;
    \<open>availability_domains_loop\<close> is the loop of \<^verbatim>\<open>ListAvailabilityDomains\<close>,
    which never moves its cursor. C6--C9: that loop never returns when the first
    page names a next page; buckets are listed in the namespace resolved first, and
    a failed resolution panics; the seven regular functions return exactly their
    enumeration's result.
  \<^item> \<open>Metrics\<close>: \<^verbatim>\<open>GetInstanceMetrics\<close> (\<open>get_instance_metrics\<close>,
    \<open>metrics_loop\<close>, \<open>fold_series\<close>), with Go's map iteration order as a
    parameter. C10--C13: each metric is the last sample of its first series or 0
    (the reference \<open>query_metric\<close>), an empty series panics, the result does not
    depend on the iteration order, a failed query aborts.
  \<^item> \<open>Report\<close>: \<^verbatim>\<open>main\<close>. A run is \<open>'a run\<close>: \<open>None\<close> if it never returns,
    else the printed lines and either a value or the exit (\<open>Exit_fatal\<close>,
    \<open>Exit_panic\<close>); \<open>bind_run\<close> sequences, \<open>check_err\<close> is
    \<^verbatim>\<open>if err != nil { log.Fatalf }\<close>. The inputs of a run are the record
    \<open>env\<close> (the \<^verbatim>\<open>.env\<close> file, the process environment, \<^verbatim>\<open>os.Getwd\<close>,
    and the SDK and the configuration check as functions of the environment);
    the sections run on a \<open>driver\<close> (provider, tenancy id, clock, iteration
    order) that \<open>driver_of\<close> builds from the environment after start-up. One
    definition per section (\<open>report_instances\<close>, ..., \<open>report_billing\<close>),
    \<open>report\<close> chains them, \<open>main\<close> adds the start-up. C14--C19: metrics are
    shown exactly for running instances, a failed load-balancer listing stops the
    run, a start-up failure prints nothing, availability-domain and billing
    failures are reported as bucket failures, and the instance section's output.
    C29: the output of the file-system section (per domain, per file system, its
    line, the snapshot header and its snapshots, nested as the loops nest). C31: a
    failed Identity, Database or File Storage client ends the run inside the functions package
    with the message of the Object Storage client.
  \<^item> \<open>Run_Laws\<close>: \<open>run_lines\<close> (every printed line satisfies a predicate) with
    its introduction rules, the split of a completed run into its sections, and
    the termination of a run when every listing reaches a last page
    (\<open>provider_ends\<close>).
  \<^item> \<open>Report_Output\<close>: the composition of the sections. The record
    \<open>inventory\<close> collects what the SDK answers for one tenancy,
    \<open>sdk_answers\<close> says every call of a run returns it, and
    \<open>report_output\<close> is the text the seven sections are expected to print
    (one definition per section, the specification of the output, not code).
    C30: after a successful start-up, \<^verbatim>\<open>main\<close> prints exactly
    \<open>report_output\<close> and completes.
  \<^item> \<open>Decimal\<close>: decimal digits (\<open>digits_of_nat\<close>, \<open>nat_of_digits\<close>) with
    their round trip, shared by the number and time formats.
  \<^item> \<open>Time_Format\<close>: \<^verbatim>\<open>time.Time.String\<close>, the text of every
    \<^verbatim>\<open>SDKTime\<close> printed with \<^verbatim>\<open>%s\<close> (lines 112, 147 and 162 of
    \<^verbatim>\<open>main.go\<close>). \<open>civil_of_days\<close> turns a day count since 1970-01-01 into
    a date of the proleptic Gregorian calendar by walking whole years
    (\<open>years_up\<close>, \<open>years_down\<close>) and months (\<open>month_of\<close>);
    \<open>time_string\<close> lays out \<^verbatim>\<open>2006-01-02 15:04:05.999999999 +0000 UTC\<close>
    with Go's zero padding and trailing-zero trimming of the fraction; times are
    in UTC, as the SDK decodes them. Its lemmas (the year walks against the
    closed form \<open>year_start\<close>, the validity of the dates, the injectivity of
    \<open>time_string\<close>, the absence of commas in it) are facts about Go's library
    that the billing claim C25 uses; they are not claims about the program.
  \<^item> \<open>Format\<close>: what \<^verbatim>\<open>fmt\<close> prints for a line: the format string read as
    \<^verbatim>\<open>doPrintf\<close> reads it, verbs applied to arguments with fmt's error markers,
    and \<open>format_fixed\<close>, the \<^verbatim>\<open>strconv\<close> 'f' format of \<^verbatim>\<open>%.nf\<close>.
    C23--C25: the metric lines print the CPU and memory figures with two decimals
    (read back within 0.005) and the disk figures in MiB with six; every print
    call of every run is well formed for fmt; the printed billing section
    determines the usage dates it lists.
  \<^item> \<open>Spec2Isabelle\<close> (this theory): properties of whole runs. C20: a
    completed run prints the seven section headers once each, in order. C21: the
    program terminates when every listing reaches a last page. C22: when the
    availability-domain endpoint names a next page, no run completes.

  \<^bold>\<open>Partiality and bounds.\<close> No fuel is used: the only loops that may not end
  are the two cursor loops, modelled with \<^theory_text>\<open>partial_function (option)\<close>, so
  that not returning is the value \<open>None\<close>; termination is proved as such (C2,
  C21) and divergence by fixpoint induction (C6, C22). Every other loop runs
  over a finite list and is a structural recursion (\<open>for_each\<close>,
  \<open>metrics_loop\<close>, \<open>month_of\<close>); the year walks of \<open>Time_Format\<close>
  terminate by the measure of the remaining day count. Amounts are \<open>real\<close>:
  the exact value of the float the program holds; times are integers of
  nanoseconds since 1970-01-01 UTC, unbounded (Go's \<^verbatim>\<open>time.Time\<close> holds
  seconds and nanoseconds separately, so its range is not that of one
  \<^verbatim>\<open>int64\<close> of nanoseconds either, and no printed time overflows).

  \<^bold>\<open>Not modelled.\<close> The internals of the SDK: its clients and the verdict of
  \<^verbatim>\<open>IsConfigurationProviderValid\<close> are inputs, functions of the environment
  they read; the parsing of \<^verbatim>\<open>.env\<close> by \<^verbatim>\<open>godotenv\<close> (its result is an
  input) and the value \<^verbatim>\<open>os.Getwd\<close> returns; the text of pointer
  addresses (\<^verbatim>\<open>%d\<close> of \<^verbatim>\<open>MeteredBytes\<close>, line 137) and of
  \<^verbatim>\<open>%v\<close> of the SDK structs (lines 84, 98, 111), which are parameters of
  \<open>fmt_env\<close>: an address exists only at run time, and the text of a struct
  depends on the SDK's full field layout, which the sources do not contain
  (Go prints a struct as its fields in declaration order, and its pointer
  fields as addresses); nil pointers in SDK responses other than the namespace:
  every field the program dereferences is modelled as present, but some of them
  are optional in the SDK's types (the instance's \<^verbatim>\<open>ShapeConfig\<close> and its
  fields, an availability domain's \<^verbatim>\<open>Name\<close>, a usage's
  \<^verbatim>\<open>ComputedQuantity\<close>), and a nil there makes the program panic, a path
  the model does not have; NaN and infinite floats. The models of library code
  (\<^verbatim>\<open>fmt\<close>, \<^verbatim>\<open>strconv\<close>, \<^verbatim>\<open>time\<close>, \<^verbatim>\<open>filepath\<close>) are mapped
  to the lines of \<^verbatim>\<open>main.go\<close> that call them.
  The diagnostics printed after \<^verbatim>\<open>log.Fatalf\<close> in the invalid-configuration
  branch are dead code and are not printed by the model.

  \<^bold>\<open>Scope.\<close> Every line of \<^verbatim>\<open>main.go\<close> and
  \<^verbatim>\<open>functions.go\<close> but the imports is translated by a definition of the
  theories above; what remains outside is library code (the SDK, \<^verbatim>\<open>godotenv\<close>)
  and run-time values, listed under \<^emph>\<open>Not modelled\<close>.
\<close>

section \<open>Sections of a completed report\<close>

definition section_titles :: "string list" where
  "section_titles = [''Instances:'', ''Load Balancers:'', ''Databases:'', ''Buckets:'',
     ''Availability Domains:'', ''File Systems:'', ''Billing:'']"

definition is_section_header :: "line \<Rightarrow> bool" where
  "is_section_header l \<longleftrightarrow> l \<in> set (map (\<lambda>s. Println [S s]) section_titles)"

lemmas body_line_defs = is_section_header_def section_titles_def instance_lines_def metric_lines_def

lemma report_instance_body: "run_lines (\<lambda>l. \<not> is_section_header l) (report_instance e i)"
  unfolding report_instance_def by (intro run_lines_bind run_lines_if run_lines_basic) (auto simp: body_line_defs)

lemma report_file_system_body: "run_lines (\<lambda>l. \<not> is_section_header l) (report_file_system e ad fs)"
  unfolding report_file_system_def by (intro run_lines_bind run_lines_for_each run_lines_basic) (auto simp: body_line_defs)

lemma header_then_body:
  assumes "bind_run (emit [h]) g = Some (out, Inr x)"
    and "run_lines (\<lambda>l. \<not> is_section_header l) (g ())" and "is_section_header h"
  shows "filter is_section_header out = [h]"
  using assms by (auto simp: run_lines_def list_all_iff filter_empty_conv split: option.splits)

lemmas header_defs = is_section_header_def section_titles_def

lemma section_headers:
  "report_instances e = Some (o1, Inr x1) \<Longrightarrow> filter is_section_header o1 = [Println [S ''Instances:'']]"
  "report_load_balancers e = Some (o2, Inr x2) \<Longrightarrow>
     filter is_section_header o2 = [Println [S ''Load Balancers:'']]"
  "report_databases e = Some (o3, Inr x3) \<Longrightarrow> filter is_section_header o3 = [Println [S ''Databases:'']]"
  "report_buckets e = Some (o4, Inr x4) \<Longrightarrow> filter is_section_header o4 = [Println [S ''Buckets:'']]"
  "report_availability_domains e = Some (o5, Inr x5) \<Longrightarrow>
     filter is_section_header o5 = [Println [S ''Availability Domains:'']]"
  "report_file_systems e ads = Some (o6, Inr x6) \<Longrightarrow>
     filter is_section_header o6 = [Println [S ''File Systems:'']]"
  "report_billing e = Some (o7, Inr x7) \<Longrightarrow> filter is_section_header o7 = [Println [S ''Billing:'']]"
  unfolding report_instances_def report_load_balancers_def report_databases_def report_buckets_def
    report_availability_domains_def report_file_systems_def report_billing_def
  by (erule header_then_body; (intro run_lines_intros report_instance_body report_file_system_body)?;
      simp add: header_defs)+

text \<open>
  C20. Every run of the program that completes prints the seven section headers
  exactly once each and in the order of \<^verbatim>\<open>main\<close>: Instances, Load Balancers,
  Databases, Buckets, Availability Domains, File Systems, Billing. No other line
  of the report is a header, whatever the provider returns.
\<close>

theorem completed_run_sections:
  assumes "main e = Some (out, Inr ())"
  shows "filter is_section_header out = map (\<lambda>s. Println [S s]) section_titles"
proof -
  obtain vars where "report (driver_of e vars) = Some (out, Inr ())"
    using assms by (rule main_completes)
  then obtain o1 x1 o2 x2 o3 x3 o4 x4 o5 ads o6 x6 o7 where
    s: "report_instances (driver_of e vars) = Some (o1, Inr x1)"
    "report_load_balancers (driver_of e vars) = Some (o2, Inr x2)"
    "report_databases (driver_of e vars) = Some (o3, Inr x3)"
    "report_buckets (driver_of e vars) = Some (o4, Inr x4)"
    "report_availability_domains (driver_of e vars) = Some (o5, Inr ads)"
    "report_file_systems (driver_of e vars) ads = Some (o6, Inr x6)"
    "report_billing (driver_of e vars) = Some (o7, Inr ())"
    and out: "out = o1 @ o2 @ o3 @ o4 @ o5 @ o6 @ o7"
    by (rule report_completed_split)
  show ?thesis
    using section_headers(1) [OF s(1)] section_headers(2) [OF s(2)] section_headers(3) [OF s(3)]
      section_headers(4) [OF s(4)] section_headers(5) [OF s(5)] section_headers(6) [OF s(6)]
      section_headers(7) [OF s(7)]
    by (simp add: out section_titles_def)
qed

theorem completed_run_sections_witness:
  "\<exists>out. main quiet_env = Some (out, Inr ()) \<and>
     filter is_section_header out = map (\<lambda>s. Println [S s]) section_titles"
proof -
  have "\<exists>out. main quiet_env = Some (out, Inr ())"
    by (simp add: main_def startup_vars_def load_dotenv_def driver_of_def report_def quiet_env_def
        report_section_defs quiet_oci_def empty_page_def paginate.simps availability_domains_loop.simps
        enumerator_defs)
  then obtain out where run: "main quiet_env = Some (out, Inr ())" ..
  show ?thesis using run completed_run_sections [OF run] by blast
qed

text \<open>
  C21. The program terminates whenever every listing it issues reaches a last
  page and the availability-domain endpoint answers with a single page: then
  \<^verbatim>\<open>main\<close> returns, either after printing the whole report or at a
  \<^verbatim>\<open>log.Fatalf\<close> or a panic. No other loop of the program can run forever: the
  loops over instances, metric queries, domains, file systems and snapshots run over
  finite lists.
\<close>

theorem main_terminates:
  assumes "\<forall>vars. provider_ends (sdk e vars)"
  shows "main e \<noteq> None"
proof -
  have "report (driver_of e vars) \<noteq> None" for vars
    using assms by (intro report_ends) (simp add: driver_of_def)
  then show ?thesis by (simp add: main_def fatal_def split: sum.splits)
qed

theorem main_terminates_witness: "(\<forall>vars. provider_ends (sdk quiet_env vars)) \<and> main quiet_env \<noteq> None"
proof -
  have p: "\<forall>vars. provider_ends (sdk quiet_env vars)"
    by (simp add: provider_ends_def listing_ends_def last_page_only_def quiet_env_def quiet_oci_def
        empty_page_def paginate.simps)
  show ?thesis using p main_terminates [OF p] by simp
qed

text \<open>
  C22. If the availability-domain endpoint answers the program's request with a
  next cursor, no run of the program completes: since
  \<^verbatim>\<open>ListAvailabilityDomains\<close> resends the same request, the run either stops
  earlier at an error or never returns; the report is never finished.
\<close>

theorem ad_cursor_run_never_completes:
  assumes "startup_vars (dotenv_file e) (process_env e) (getwd_result e) = Inr vars"
    and "new_client (sdk e vars) Identity = None"
    and "list_availability_domains (sdk e vars)
           \<lparr>page = None, compartment_id = getenv vars ''OCI_CONFIG_tenancy_ocid''\<rparr> = Inr resp"
    and "opc_next_page resp \<noteq> None"
  shows "main e \<noteq> Some (out, Inr ())"
proof
  assume "main e = Some (out, Inr ())"
  then obtain vars' where v: "startup_vars (dotenv_file e) (process_env e) (getwd_result e) = Inr vars'"
    and "report (driver_of e vars') = Some (out, Inr ())"
    by (rule main_completes)
  then obtain o5 ads where "report_availability_domains (driver_of e vars) = Some (o5, Inr ads)"
    using assms(1) by (auto elim: report_completed_split)
  moreover have "list_availability_domains_fn (sdk e vars) (getenv vars ''OCI_CONFIG_tenancy_ocid'') = None"
    using availability_domains_loop_diverges [OF assms(3,4)] assms(2)
    by (simp add: list_availability_domains_fn_def)
  ultimately show False by (simp add: report_availability_domains_def driver_of_def)
qed

theorem ad_cursor_run_never_completes_witness:
  "\<forall>out. main (quiet_env\<lparr>sdk := (\<lambda>_. quiet_oci\<lparr>list_availability_domains := (\<lambda>_.
     Inr \<lparr>items = [\<lparr>ad_name = ''AD-1'', ad_id = ''ocid1.ad''\<rparr>], opc_next_page = Some ''p2''\<rparr>)\<rparr>)\<rparr>)
     \<noteq> Some (out, Inr ())"
proof
  fix out
  let ?e = "quiet_env\<lparr>sdk := (\<lambda>_. quiet_oci\<lparr>list_availability_domains := (\<lambda>_.
     Inr \<lparr>items = [\<lparr>ad_name = ''AD-1'', ad_id = ''ocid1.ad''\<rparr>], opc_next_page = Some ''p2''\<rparr>)\<rparr>)\<rparr>"
  have "\<exists>vars. startup_vars (dotenv_file ?e) (process_env ?e) (getwd_result ?e) = Inr vars"
    by (simp add: startup_vars_def load_dotenv_def quiet_env_def)
  then obtain vars where v: "startup_vars (dotenv_file ?e) (process_env ?e) (getwd_result ?e) = Inr vars" ..
  show "main ?e \<noteq> Some (out, Inr ())"
    by (rule ad_cursor_run_never_completes [OF v]) (simp add: quiet_env_def quiet_oci_def)+
qed

end
